theory Spec2Isabelle
  imports Main "HOL-Library.AList"
begin

section \<open>Strings and POSIX paths\<close>

text \<open>
  The orchestrator (\<^verbatim>\<open>packages/odata-service-writer/src/index.ts\<close>) computes every
  file location with Node's \<^verbatim>\<open>path\<close> module: \<^verbatim>\<open>sep\<close>, \<^verbatim>\<open>join\<close>, \<^verbatim>\<open>dirname\<close>,
  and with JavaScript's \<^verbatim>\<open>String.split\<close> and \<^verbatim>\<open>Array.join\<close>. Paths are strings;
  the functions below follow the POSIX variants segment by segment.
\<close>

definition sep :: char where
  "sep = CHR ''/''"

text \<open>\<^verbatim>\<open>s.split(sep)\<close>: always at least one segment; segments may be empty.\<close>

fun split_sep :: "string \<Rightarrow> string list" where
  "split_sep [] = [[]]"
| "split_sep (c # cs) =
     (if c = sep then [] # split_sep cs
      else (case split_sep cs of
              [] \<Rightarrow> [[c]]
            | s # ss \<Rightarrow> (c # s) # ss))"

text \<open>\<^verbatim>\<open>parts.join(sep)\<close>.\<close>

fun join_sep :: "string list \<Rightarrow> string" where
  "join_sep [] = []"
| "join_sep [s] = s"
| "join_sep (s # t # ss) = s @ sep # join_sep (t # ss)"

text \<open>
  One step of Node's \<^verbatim>\<open>normalizeString\<close>, on the stack of segments kept so far
  (most recent first): empty and \<^verbatim>\<open>.\<close> segments are dropped, \<^verbatim>\<open>..\<close> removes the
  previous segment, or is kept when there is none and the path is relative.
\<close>

fun norm_step :: "bool \<Rightarrow> string list \<Rightarrow> string \<Rightarrow> string list" where
  "norm_step allowAboveRoot st seg =
     (if seg = [] \<or> seg = ''.'' then st
      else if seg = ''..'' then
        (case st of
           [] \<Rightarrow> (if allowAboveRoot then [''..''] else [])
         | s # rest \<Rightarrow>
             (if s = ''..'' then (if allowAboveRoot then ''..'' # st else st) else rest))
      else seg # st)"

definition normalizeString :: "string \<Rightarrow> bool \<Rightarrow> string" where
  "normalizeString path allowAboveRoot =
     join_sep (rev (foldl (norm_step allowAboveRoot) [] (split_sep path)))"

text \<open>\<^verbatim>\<open>path.posix.normalize\<close>.\<close>

definition path_normalize :: "string \<Rightarrow> string" where
  "path_normalize path =
     (if path = [] then ''.''
      else
        let isAbsolute = (hd path = sep);
            trailingSeparator = (last path = sep);
            p = normalizeString path (\<not> isAbsolute)
        in if p = [] then
             (if isAbsolute then [sep] else if trailingSeparator then ''./'' else ''.'')
           else
             (let p' = (if trailingSeparator then p @ [sep] else p)
              in if isAbsolute then sep # p' else p'))"

text \<open>\<^verbatim>\<open>path.posix.join(...args)\<close>: the non-empty arguments, joined by the separator
  and normalized.\<close>

definition path_join :: "string list \<Rightarrow> string" where
  "path_join args =
     (case filter (\<lambda>arg. arg \<noteq> []) args of
        [] \<Rightarrow> ''.''
      | a # as \<Rightarrow> path_normalize (join_sep (a # as)))"

text \<open>\<^verbatim>\<open>path.posix.dirname\<close>: trailing separators are skipped, then the last segment
  is cut off at the separator before it.\<close>

definition path_dirname :: "string \<Rightarrow> string" where
  "path_dirname path =
     (if path = [] then ''.''
      else
        let hasRoot = (hd path = sep);
            r = dropWhile (\<lambda>c. c \<noteq> sep) (dropWhile (\<lambda>c. c = sep) (rev (tl path)))
        in if r = [] then (if hasRoot then [sep] else ''.'')
           else
             (let pre = hd path # rev (tl r)
              in if hasRoot \<and> length pre = 1 then ''//'' else pre))"

text \<open>\<^verbatim>\<open>s.endsWith(t)\<close>.\<close>

definition endsWith :: "string \<Rightarrow> string \<Rightarrow> bool" where
  "endsWith s t = (length t \<le> length s \<and> drop (length s - length t) s = t)"


text \<open>The apostrophe, which occurs inside message parameters and annotation paths.\<close>

definition apos :: string where
  "apos = [CHR 0x27]"

text \<open>
  \<^verbatim>\<open>encodeURIComponent\<close> on a string of bytes: every byte except the unreserved marks
  \<^verbatim>\<open>A-Z a-z 0-9 - _ . ! ~ * ' ( )\<close> becomes \<^verbatim>\<open>%XX\<close>.
\<close>

definition uri_unreserved :: "char \<Rightarrow> bool" where
  "uri_unreserved c =
     (let n = (of_char c :: nat)
      in (65 \<le> n \<and> n \<le> 90) \<or> (97 \<le> n \<and> n \<le> 122) \<or> (48 \<le> n \<and> n \<le> 57)
         \<or> c \<in> set ''-_.!~*()'' \<or> c = CHR 0x27)"

definition hex_digit :: "nat \<Rightarrow> char" where
  "hex_digit n = (''0123456789ABCDEF'' @ replicate 16 CHR ''F'') ! (n mod 16)"

definition encodeURIComponent :: "string \<Rightarrow> string" where
  "encodeURIComponent s =
     concat (map (\<lambda>c. if uri_unreserved c then [c]
                        else [CHR ''%'', hex_digit ((of_char c :: nat) div 16),
                              hex_digit ((of_char c :: nat) mod 16)]) s)"

text \<open>JavaScript truthiness of an optional string: \<^verbatim>\<open>undefined\<close> and the empty
  string are falsy.\<close>

definition truthy :: "string option \<Rightarrow> bool" where
  "truthy s = (case s of None \<Rightarrow> False | Some v \<Rightarrow> v \<noteq> [])"

section \<open>Errors\<close>

text \<open>
  Modelled from the spec: the error codes of the YAML document model
  (\<^verbatim>\<open>yamlErrorCode\<close> of \<^verbatim>\<open>@sap-ux/ui5-config\<close>, whose declaration is not among the
  sources). The spec distinguishes the node-not-found condition from every other kind.
\<close>

datatype yamlErrorCode = nodeNotFound | otherCode string

text \<open>
  A message is either a translated text \<^verbatim>\<open>t(key, params)\<close> (the i18n bundle is not
  among the sources, so the text is kept as its key and parameters) or a literal.
\<close>

datatype message = T string "(string \<times> string) list" | Literal string

text \<open>A thrown value: a \<^verbatim>\<open>YAMLError\<close> with its code, or a plain \<^verbatim>\<open>Error\<close>.\<close>

datatype error = YAMLError yamlErrorCode message | Error message

fun error_message :: "error \<Rightarrow> message" where
  "error_message (YAMLError c m) = m"
| "error_message (Error m) = m"

section \<open>Data model\<close>

datatype ServiceType = EDMX | CDS

datatype OdataVersion = v2 | v4

text \<open>\<^verbatim>\<open>EdmxAnnotationsInfo\<close> / \<^verbatim>\<open>CdsAnnotationsInfo\<close>: the fields the orchestrator
  and the spec read.\<close>

record AnnotationsInfo =
  an_name :: "string option"
  an_technicalName :: "string option"
  an_xml :: "string option"

text \<open>\<^verbatim>\<open>service.annotations\<close> is one annotation or an array of them.\<close>

datatype Annotations = Single AnnotationsInfo | Array "AnnotationsInfo list"

text \<open>\<^verbatim>\<open>FioriToolsProxyConfigBackend\<close>, also the type of \<^verbatim>\<open>previewSettings\<close>
  (a partial backend: every field optional; an absent \<^verbatim>\<open>previewSettings\<close> is the
  record with no field set).\<close>

record ProxyBackend =
  be_path :: "string option"
  be_url :: "string option"
  be_client :: "string option"
  be_destination :: "string option"
  be_apiHub :: "bool option"
  be_scp :: "bool option"
  be_pathPrefix :: "string option"

text \<open>\<^verbatim>\<open>OdataService\<close>, the service descriptor.\<close>

record OdataService =
  sv_name :: "string option"
  sv_url :: "string option"
  sv_path :: "string option"
  sv_client :: "string option"
  sv_version :: OdataVersion
  sv_model :: "string option"
  sv_metadata :: "string option"
  sv_annotations :: "Annotations option"
  sv_localAnnotationsName :: "string option"
  sv_destination :: "string option"
  sv_previewSettings :: ProxyBackend
  sv_ignoreCertError :: "bool option"
  sv_type :: "ServiceType option"


text \<open>\<^verbatim>\<open>ProjectPaths\<close>.\<close>

record ProjectPaths =
  packageJson :: "string option"
  ui5Yaml :: "string option"
  ui5LocalYaml :: "string option"
  ui5MockYaml :: "string option"

subsection \<open>The manifest\<close>

datatype DataSourceType = OData | ODataAnnotation

text \<open>An entry of \<^verbatim>\<open>sap.app.dataSources\<close>:
  \<^verbatim>\<open>{ uri, type, settings: { localUri, annotations?, odataVersion? } }\<close>.\<close>

record DataSource =
  ds_uri :: string
  ds_type :: DataSourceType
  ds_localUri :: "string option"
  ds_annotations :: "string list"
  ds_odataVersion :: "OdataVersion option"

text \<open>
  The keys of \<^verbatim>\<open>webapp/manifest.json\<close> the engine consumes: \<^verbatim>\<open>sap.app.id\<close>, the
  ordered table \<^verbatim>\<open>sap.app.dataSources\<close> and \<^verbatim>\<open>sap.ui5.models\<close> (each model with
  its optional \<^verbatim>\<open>dataSource\<close>).
\<close>

record Manifest =
  mf_id :: "string option"
  mf_dataSources :: "(string \<times> DataSource) list"
  mf_models :: "(string \<times> string option) list"

subsection \<open>The YAML documents\<close>

text \<open>
  Modelled from the spec: the YAML document model \<^verbatim>\<open>UI5Config\<close> of
  \<^verbatim>\<open>@sap-ux/ui5-config\<close>, a package of this repository that is not among the sources.
  A document holds the proxy middleware block (its backend list), the mock-server
  middleware block (its services \<^verbatim>\<open>{serviceName, servicePath}\<close> and its annotations
  \<^verbatim>\<open>{urlPath}\<close>) and the rest of the document, which no operation reads.
\<close>

record FioriToolsProxy =
  px_backend :: "ProxyBackend list"
  px_ignoreCertError :: "bool option"

record MockServer =
  mk_services :: "(string \<times> string) list"
  mk_annotations :: "string list"

record UI5Config =
  cf_proxy :: "FioriToolsProxy option"
  cf_mockserver :: "MockServer option"
  cf_other :: string

datatype CustomMiddleware = ProxyMiddleware FioriToolsProxy | MockMiddleware MockServer

text \<open>\<^verbatim>\<open>package.json\<close>: the flag the orchestrator sets, and the rest.\<close>

record PackageJson =
  pk_ui5 :: bool
  pk_other :: string

section \<open>The staged file system\<close>

text \<open>
  The \<^verbatim>\<open>mem-fs-editor\<close> instance maps a path to the staged content of the file. Parsing
  and serialization belong to external libraries, so a file holds the document it
  serializes: a manifest, a package descriptor, a YAML document, the pretty-printed form
  of an XML payload (\<^verbatim>\<open>prettifyXml(x, { indent: 4 })\<close>), a template rendered in a
  context (\<^verbatim>\<open>copyTpl\<close>), or plain text. Reading a file as a document of another kind is
  the parser's error.
\<close>

datatype content =
    Plain string
  | PrettyXml "string option"
  | Rendered string OdataService
  | ManifestFile Manifest
  | PackageFile PackageJson
  | YamlFile UI5Config

type_synonym Editor = "string \<Rightarrow> content option"

definition exists_file :: "Editor \<Rightarrow> string \<Rightarrow> bool" where
  "exists_file fs p = (fs p \<noteq> None)"

definition write_file :: "string \<Rightarrow> content \<Rightarrow> Editor \<Rightarrow> Editor" where
  "write_file p c fs = fs(p \<mapsto> c)"

definition delete_file :: "string \<Rightarrow> Editor \<Rightarrow> Editor" where
  "delete_file p fs = fs(p := None)"

text \<open>\<^verbatim>\<open>fs.move(from, to)\<close>: copy, then delete the source.\<close>

definition move_file :: "string \<Rightarrow> string \<Rightarrow> Editor \<Rightarrow> Editor" where
  "move_file src dst fs =
     (case fs src of
        None \<Rightarrow> fs
      | Some c \<Rightarrow> delete_file src (write_file dst c fs))"

text \<open>
  A computation on the staged file system either returns a value or throws; in both
  cases the editor keeps the writes made so far.
\<close>

type_synonym 'a io = "Editor \<Rightarrow> (error + 'a) \<times> Editor"

definition io_return :: "'a \<Rightarrow> 'a io" where
  "io_return a fs = (Inr a, fs)"

definition io_throw :: "error \<Rightarrow> 'a io" where
  "io_throw e fs = (Inl e, fs)"

definition io_bind :: "'a io \<Rightarrow> ('a \<Rightarrow> 'b io) \<Rightarrow> 'b io" where
  "io_bind m f fs =
     (case m fs of
        (Inl e, fs') \<Rightarrow> (Inl e, fs')
      | (Inr a, fs') \<Rightarrow> f a fs')"

definition io_write :: "string \<Rightarrow> content \<Rightarrow> unit io" where
  "io_write p c fs = (Inr (), write_file p c fs)"

text \<open>\<^verbatim>\<open>fs.read(path)\<close> throws when the file does not exist.\<close>

definition io_read :: "string \<Rightarrow> content io" where
  "io_read p fs =
     (case fs p of
        None \<Rightarrow> (Inl (Error (Literal (p @ '' doesn'' @ apos @ ''t exist''))), fs)
      | Some c \<Rightarrow> (Inr c, fs))"


section \<open>Collaborators that are not among the sources\<close>

text \<open>
  The orchestrator drives functions of \<^verbatim>\<open>./data\<close>, \<^verbatim>\<open>./updates\<close>, \<^verbatim>\<open>./delete\<close> and of
  the packages \<^verbatim>\<open>@sap-ux/ui5-config\<close>, \<^verbatim>\<open>@sap-ux/project-access\<close> and
  \<^verbatim>\<open>@sap-ux/mockserver-config-writer\<close>. Their code is not among the sources; each is
  modelled from the words of the specification.
\<close>

text \<open>\<^verbatim>\<open>`${x}`\<close> for an optional string.\<close>

definition js_string :: "string option \<Rightarrow> string" where
  "js_string s = (case s of None \<Rightarrow> ''undefined'' | Some v \<Rightarrow> v)"

text \<open>Modelled from the spec: \<^verbatim>\<open>getWebappPath\<close> of \<^verbatim>\<open>@sap-ux/project-access\<close>
  (locating the webapp root is an external collaborator); the manifest file is
  \<^verbatim>\<open>webapp/manifest.json\<close> under the base path.\<close>

definition getWebappPath :: "string \<Rightarrow> Editor \<Rightarrow> string" where
  "getWebappPath basePath fs = path_join [basePath, ''webapp'']"

subsection \<open>The YAML document model\<close>

definition emptyConfig :: UI5Config where
  "emptyConfig = \<lparr>cf_proxy = None, cf_mockserver = None, cf_other = []\<rparr>"

text \<open>Modelled from the spec: \<^verbatim>\<open>UI5Config.newInstance\<close> (parse-from-string). An
  unparsable document is not recovered; the empty text is the empty document.\<close>

definition newInstance :: "content \<Rightarrow> error + UI5Config" where
  "newInstance c =
     (case c of
        YamlFile cfg \<Rightarrow> Inr cfg
      | Plain txt \<Rightarrow>
          (if txt = [] then Inr emptyConfig
           else Inl (YAMLError (otherCode ''malformed'') (Literal txt)))
      | _ \<Rightarrow> Inl (YAMLError (otherCode ''malformed'') (Literal [])))"

text \<open>Modelled from the spec: \<^verbatim>\<open>UI5Config.toString\<close> (serialize-to-string).\<close>

definition toString :: "UI5Config \<Rightarrow> content" where
  "toString cfg = YamlFile cfg"

text \<open>Modelled from the spec (4.4, upsert): find an existing backend list entry whose
  path equals the new entry's path; if found, replace it in place; if not found,
  append.\<close>

fun upsert_backend :: "ProxyBackend \<Rightarrow> ProxyBackend list \<Rightarrow> ProxyBackend list" where
  "upsert_backend b [] = [b]"
| "upsert_backend b (x # xs) =
     (if be_path x = be_path b then b # xs else x # upsert_backend b xs)"

text \<open>Modelled from the spec: \<^verbatim>\<open>UI5Config.addBackendToFioriToolsProxydMiddleware\<close>.
  When the proxy middleware block is absent the document model reports that it could
  not find it (the message is the one the orchestrator compares with).\<close>

definition addBackendToFioriToolsProxydMiddleware ::
    "ProxyBackend \<Rightarrow> UI5Config \<Rightarrow> error + UI5Config" where
  "addBackendToFioriToolsProxydMiddleware b cfg =
     (case cf_proxy cfg of
        None \<Rightarrow> Inl (Error (Literal ''Could not find fiori-tools-proxy''))
      | Some px \<Rightarrow>
          Inr (cfg\<lparr>cf_proxy := Some (px\<lparr>px_backend := upsert_backend b (px_backend px)\<rparr>)\<rparr>))"

text \<open>Modelled from the spec: \<^verbatim>\<open>UI5Config.addFioriToolsProxydMiddleware\<close> creates the
  proxy middleware block with the given backend list.\<close>

definition addFioriToolsProxydMiddleware :: "FioriToolsProxy \<Rightarrow> UI5Config \<Rightarrow> UI5Config" where
  "addFioriToolsProxydMiddleware px cfg = cfg\<lparr>cf_proxy := Some px\<rparr>"


text \<open>Appends the elements that are not yet in the list, in order.\<close>

fun append_new :: "'a list \<Rightarrow> 'a list \<Rightarrow> 'a list" where
  "append_new xs [] = xs"
| "append_new xs (y # ys) = append_new (if y \<in> set xs then xs else xs @ [y]) ys"

text \<open>Modelled from the spec (4.5, upsert): ensures a mock-server middleware block
  exists with a services list containing \<^verbatim>\<open>{serviceName, servicePath}\<close>
  (update-or-append keyed by \<^verbatim>\<open>serviceName\<close>) and an annotations list containing one
  \<^verbatim>\<open>{urlPath}\<close> entry per supplied annotation path (keyed by \<^verbatim>\<open>urlPath\<close>).\<close>

definition upsertMockServer :: "string \<Rightarrow> string \<Rightarrow> string list \<Rightarrow> UI5Config \<Rightarrow> UI5Config" where
  "upsertMockServer serviceName servicePath annotationUrlPaths cfg =
     (let m = (case cf_mockserver cfg of
                 None \<Rightarrow> \<lparr>mk_services = [], mk_annotations = []\<rparr>
               | Some m0 \<Rightarrow> m0)
      in cfg\<lparr>cf_mockserver :=
               Some \<lparr>mk_services = AList.update serviceName servicePath (mk_services m),
                     mk_annotations = append_new (mk_annotations m) annotationUrlPaths\<rparr>\<rparr>)"


text \<open>Modelled from the spec: the structural accessors \<^verbatim>\<open>findCustomMiddleware(name)\<close>
  and \<^verbatim>\<open>updateCustomMiddleware(middleware)\<close> for named middleware blocks.\<close>

definition findCustomMiddleware :: "string \<Rightarrow> UI5Config \<Rightarrow> CustomMiddleware option" where
  "findCustomMiddleware name cfg =
     (if name = ''sap-fe-mockserver'' then map_option MockMiddleware (cf_mockserver cfg)
      else if name = ''fiori-tools-proxy'' then map_option ProxyMiddleware (cf_proxy cfg)
      else None)"

definition updateCustomMiddleware :: "CustomMiddleware \<Rightarrow> UI5Config \<Rightarrow> UI5Config" where
  "updateCustomMiddleware mw cfg =
     (case mw of
        ProxyMiddleware px \<Rightarrow> cfg\<lparr>cf_proxy := Some px\<rparr>
      | MockMiddleware m \<Rightarrow> cfg\<lparr>cf_mockserver := Some m\<rparr>)"

subsection \<open>Reading the manifest\<close>

text \<open>The manifest file: \<^verbatim>\<open>webapp/manifest.json\<close> under the base path.\<close>

definition manifestPathOf :: "string \<Rightarrow> string" where
  "manifestPathOf basePath = path_join [basePath, ''webapp'', ''manifest.json'']"

definition requiredProjectFileNotFound :: "string \<Rightarrow> error" where
  "requiredProjectFileNotFound path =
     Error (T ''error.requiredProjectFileNotFound'' [(''path'', path)])"

definition requiredProjectPropertyNotFound :: "string \<Rightarrow> string \<Rightarrow> error" where
  "requiredProjectPropertyNotFound property path =
     Error (T ''error.requiredProjectPropertyNotFound''
              [(''property'', property), (''path'', path)])"

text \<open>Modelled from the spec (4.2, Failure): reading the manifest signals
  \<^verbatim>\<open>RequiredProjectFileNotFound\<close> if \<^verbatim>\<open>webapp/manifest.json\<close> is absent; malformed JSON
  is a fatal read error.\<close>

definition readManifest :: "string \<Rightarrow> Manifest io" where
  "readManifest manifestPath fs =
     (case fs manifestPath of
        None \<Rightarrow> (Inl (requiredProjectFileNotFound ''webapp/manifest.json''), fs)
      | Some (ManifestFile m) \<Rightarrow> (Inr m, fs)
      | Some _ \<Rightarrow> (Inl (Error (Literal ''malformed JSON'')), fs))"


subsection \<open>The descriptor enhancer\<close>

text \<open>The first non-empty segment of a service path (\<^verbatim>\<open>/sap\<close> for
  \<^verbatim>\<open>/sap/odata/testme/\<close>).\<close>

definition first_segment :: "string \<Rightarrow> string" where
  "first_segment p = (case filter (\<lambda>s. s \<noteq> []) (split_sep p) of [] \<Rightarrow> [] | s # _ \<Rightarrow> s)"

text \<open>Modelled from the spec (4.1, rule 4): a name that collides with an existing
  manifest key, or with the service's own name, is suffixed with \<^verbatim>\<open>_Annotation\<close>.\<close>

definition collides :: "string list \<Rightarrow> string option \<Rightarrow> string \<Rightarrow> bool" where
  "collides keys serviceName n = (n \<in> set keys \<or> serviceName = Some n)"

definition disambiguate :: "string list \<Rightarrow> string option \<Rightarrow> string \<Rightarrow> string" where
  "disambiguate keys serviceName n =
     (if collides keys serviceName n then n @ ''_Annotation'' else n)"

definition enhanceAnnotation ::
    "string list \<Rightarrow> string option \<Rightarrow> AnnotationsInfo \<Rightarrow> AnnotationsInfo" where
  "enhanceAnnotation keys serviceName a =
     a\<lparr>an_name := map_option (disambiguate keys serviceName) (an_name a),
       an_technicalName := map_option (disambiguate keys serviceName) (an_technicalName a)\<rparr>"

fun enhanceAnnotations :: "string list \<Rightarrow> string option \<Rightarrow> Annotations \<Rightarrow> Annotations" where
  "enhanceAnnotations keys serviceName (Single a) =
     Single (enhanceAnnotation keys serviceName a)"
| "enhanceAnnotations keys serviceName (Array as) =
     Array (map (enhanceAnnotation keys serviceName) as)"

text \<open>The enhancer reads the manifest through the editor; a manifest that is not
  there has no data sources and no models.\<close>

definition manifestIfPresent :: "string \<Rightarrow> Editor \<Rightarrow> error + Manifest option" where
  "manifestIfPresent manifestPath fs =
     (case fs manifestPath of
        None \<Rightarrow> Inr None
      | Some (ManifestFile m) \<Rightarrow> Inr (Some m)
      | Some _ \<Rightarrow> Inl (Error (Literal ''malformed JSON'')))"

text \<open>
  Modelled from the spec (4.1): \<^verbatim>\<open>enhanceData\<close> of \<^verbatim>\<open>./data\<close>, which is not among the
  sources. It changes the descriptor only; the rules are applied in order:
  \<^enum> the name becomes \<^verbatim>\<open>mainService\<close> if the data-source table is empty (the first
    service ever added is \<^verbatim>\<open>mainService\<close>: the unit test `Valid OData V4 service'
    expects the files of a descriptor named \<^verbatim>\<open>myService\<close> under
    \<^verbatim>\<open>localService/mainService\<close>); otherwise it is the given name, and an absent name
    stays undefined;
  \<^enum> the path is normalized to end with \<^verbatim>\<open>/\<close>; an absent path resolves to \<^verbatim>\<open>/\<close>;
  \<^enum> \<^verbatim>\<open>previewSettings.path\<close> and \<^verbatim>\<open>.url\<close> default to the leading segment of the
    path and to the url (client and destination complete the backend entry); fields
    the caller supplied pass through unchanged;
  \<^enum> a colliding annotation name is suffixed with \<^verbatim>\<open>_Annotation\<close>;
  \<^enum> the model defaults to the empty string unless a model already binds to an
    existing data source of the same name, whose model name is then reused;
  \<^enum> the type defaults to EDMX.
\<close>

definition enhanceData :: "string \<Rightarrow> OdataService \<Rightarrow> Editor \<Rightarrow> error + OdataService" where
  "enhanceData basePath service fs =
     (case manifestIfPresent (manifestPathOf basePath) fs of
        Inl e \<Rightarrow> Inl e
      | Inr mo \<Rightarrow>
          (let dataSources = (case mo of None \<Rightarrow> [] | Some m \<Rightarrow> mf_dataSources m);
               models = (case mo of None \<Rightarrow> [] | Some m \<Rightarrow> mf_models m);
               name = (if dataSources = [] then Some ''mainService'' else sv_name service);
               path = (case sv_path service of
                         None \<Rightarrow> ''/''
                       | Some p \<Rightarrow> (if endsWith p ''/'' then p else p @ ''/''));
               ps = sv_previewSettings service;
               previewSettings =
                 ps\<lparr>be_path := (case be_path ps of
                                  Some x \<Rightarrow> Some x
                                | None \<Rightarrow> Some (sep # first_segment path)),
                    be_url := (case be_url ps of Some u \<Rightarrow> Some u | None \<Rightarrow> sv_url service),
                    be_client := (case be_client ps of
                                    Some c \<Rightarrow> Some c
                                  | None \<Rightarrow> sv_client service),
                    be_destination := (case be_destination ps of
                                         Some d \<Rightarrow> Some d
                                       | None \<Rightarrow> sv_destination service)\<rparr>;
               annotations =
                 map_option (enhanceAnnotations (map fst dataSources) name)
                   (sv_annotations service);
               model = (case sv_model service of
                          Some m \<Rightarrow> m
                        | None \<Rightarrow>
                            (case find (\<lambda>(k, d). d \<noteq> None \<and> d = name
                                          \<and> name \<in> Some ` set (map fst dataSources)) models of
                               Some (k, d) \<Rightarrow> k
                             | None \<Rightarrow> []));
               type = (case sv_type service of Some t \<Rightarrow> t | None \<Rightarrow> EDMX)
           in Inr (service\<lparr>sv_name := name, sv_path := Some path,
                           sv_previewSettings := previewSettings,
                           sv_annotations := annotations, sv_model := Some model,
                           sv_type := Some type\<rparr>)))"

subsection \<open>The manifest data-source merger\<close>

definition flatMetadataUri :: string where
  "flatMetadataUri = ''localService/metadata.xml''"

definition flatAnnotationUri :: "string \<Rightarrow> string" where
  "flatAnnotationUri annotation = ''localService/'' @ annotation @ ''.xml''"

definition namespacedMetadataUri :: "string \<Rightarrow> string" where
  "namespacedMetadataUri serviceName = ''localService/'' @ serviceName @ ''/metadata.xml''"

definition namespacedAnnotationUri :: "string \<Rightarrow> string \<Rightarrow> string" where
  "namespacedAnnotationUri serviceName annotation =
     ''localService/'' @ serviceName @ ''/'' @ annotation @ ''.xml''"

text \<open>How annotation paths are stored in the manifest for \<^verbatim>\<open>ODataAnnotation\<close> entries
  (the template string of \<^verbatim>\<open>getEDMXAnnotationPaths\<close>).\<close>

definition annotationPath :: "string \<Rightarrow> string" where
  "annotationPath technicalName =
     ''/sap/opu/odata/IWFND/CATALOGSERVICE;v=2/Annotations(TechnicalName='' @ apos
       @ technicalName @ apos @ '',Version='' @ apos @ ''0001'' @ apos @ '')/$value/''"

text \<open>The single \<^verbatim>\<open>OData\<close>-typed entry of a table that holds exactly one, when its
  \<^verbatim>\<open>localUri\<close> is the flat one.\<close>

definition loneFlatService :: "(string \<times> DataSource) list \<Rightarrow> (string \<times> DataSource) option" where
  "loneFlatService table =
     (case filter (\<lambda>(k, ds). ds_type ds = OData) table of
        [(k, ds)] \<Rightarrow> (if ds_localUri ds = Some flatMetadataUri then Some (k, ds) else None)
      | _ \<Rightarrow> None)"

text \<open>The annotations of the lone service that lie flat in \<^verbatim>\<open>localService/\<close>.\<close>

definition flatAnnotations :: "(string \<times> DataSource) list \<Rightarrow> DataSource \<Rightarrow> string list" where
  "flatAnnotations table ds1 =
     filter (\<lambda>a. case map_of table a of
                   None \<Rightarrow> False
                 | Some d \<Rightarrow> ds_type d = ODataAnnotation
                            \<and> ds_localUri d = Some (flatAnnotationUri a))
       (ds_annotations ds1)"

text \<open>The migration of the manifest: the \<^verbatim>\<open>localUri\<close> of the lone service and of its
  flat annotations are rewritten to the namespaced equivalents.\<close>

definition migrateTable ::
    "string \<Rightarrow> string list \<Rightarrow> (string \<times> DataSource) list \<Rightarrow> (string \<times> DataSource) list" where
  "migrateTable n1 anns table =
     map (\<lambda>(k, ds).
            if k = n1 then (k, ds\<lparr>ds_localUri := Some (namespacedMetadataUri n1)\<rparr>)
            else if k \<in> set anns then
              (k, ds\<lparr>ds_localUri := Some (namespacedAnnotationUri n1 k)\<rparr>)
            else (k, ds)) table"

text \<open>The migration of the files: each flat file is moved into the subfolder named
  after the service.\<close>

fun migrateAnnotationFiles :: "string \<Rightarrow> string \<Rightarrow> string list \<Rightarrow> Editor \<Rightarrow> Editor" where
  "migrateAnnotationFiles basePath n1 [] fs = fs"
| "migrateAnnotationFiles basePath n1 (a # as) fs =
     migrateAnnotationFiles basePath n1 as
       (move_file (path_join [basePath, ''webapp'', flatAnnotationUri a])
          (path_join [basePath, ''webapp'', namespacedAnnotationUri n1 a]) fs)"

definition migrateFiles :: "string \<Rightarrow> string \<Rightarrow> string list \<Rightarrow> Editor \<Rightarrow> Editor" where
  "migrateFiles basePath n1 anns fs =
     migrateAnnotationFiles basePath n1 anns
       (move_file (path_join [basePath, ''webapp'', flatMetadataUri])
          (path_join [basePath, ''webapp'', namespacedMetadataUri n1]) fs)"

text \<open>The key of an annotation in the data-source table: its name, or else its
  technical name.\<close>

definition annotationKey :: "AnnotationsInfo \<Rightarrow> string option" where
  "annotationKey a = (case an_name a of Some n \<Rightarrow> Some n | None \<Rightarrow> an_technicalName a)"

fun annotationList :: "Annotations option \<Rightarrow> AnnotationsInfo list" where
  "annotationList None = []"
| "annotationList (Some (Single a)) = [a]"
| "annotationList (Some (Array as)) = as"

definition annotationKeys :: "Annotations option \<Rightarrow> string list" where
  "annotationKeys annotations = List.map_filter annotationKey (annotationList annotations)"

definition annotationEntry :: "string \<Rightarrow> string \<Rightarrow> DataSource" where
  "annotationEntry serviceName key =
     \<lparr>ds_uri = annotationPath (encodeURIComponent key), ds_type = ODataAnnotation,
      ds_localUri = Some (namespacedAnnotationUri serviceName key),
      ds_annotations = [], ds_odataVersion = None\<rparr>"

fun insertAnnotations ::
    "string \<Rightarrow> string list \<Rightarrow> (string \<times> DataSource) list \<Rightarrow> (string \<times> DataSource) list" where
  "insertAnnotations serviceName [] table = table"
| "insertAnnotations serviceName (k # ks) table =
     insertAnnotations serviceName ks (AList.update k (annotationEntry serviceName k) table)"

text \<open>Binds the model to the data source if it is not already bound to it.\<close>

definition bindModel ::
    "string \<Rightarrow> string \<Rightarrow> (string \<times> string option) list \<Rightarrow> (string \<times> string option) list" where
  "bindModel model name models =
     (if map_of models model = Some (Some name) then models
      else AList.update model (Some name) models)"

text \<open>The service's own entry and its annotations, merged into the table.\<close>

definition mergeService :: "OdataService \<Rightarrow> (string \<times> DataSource) list \<Rightarrow> (string \<times> DataSource) list" where
  "mergeService service table =
     (let name = (case sv_name service of Some n \<Rightarrow> n | None \<Rightarrow> ''mainService'');
          keys = annotationKeys (sv_annotations service);
          existing = (case map_of table name of None \<Rightarrow> [] | Some ds \<Rightarrow> ds_annotations ds);
          entry = \<lparr>ds_uri = js_string (sv_path service), ds_type = OData,
                   ds_localUri = Some (namespacedMetadataUri name),
                   ds_annotations = append_new existing keys,
                   ds_odataVersion = Some (sv_version service)\<rparr>
      in insertAnnotations name keys (AList.update name entry table))"

text \<open>
  Modelled from the spec (4.2): \<^verbatim>\<open>updateManifest\<close> of \<^verbatim>\<open>./updates\<close>, which is not among
  the sources.
  \<^item> It signals \<^verbatim>\<open>RequiredProjectFileNotFound\<close> if the manifest is absent and
    \<^verbatim>\<open>RequiredProjectPropertyNotFound\<close> if \<^verbatim>\<open>sap.app.id\<close> is missing.
  \<^item> The count of \<^verbatim>\<open>OData\<close>-typed entries decides the layout: with exactly one
    existing service in flat layout, its files are moved into
    \<^verbatim>\<open>localService/<name>/\<close> and its \<^verbatim>\<open>localUri\<close> values are rewritten.
  \<^item> The service's own entry is inserted or overwritten (\<^verbatim>\<open>uri\<close> is the descriptor's
    path, \<^verbatim>\<open>localUri\<close> is \<^verbatim>\<open>localService/<name>/metadata.xml\<close>, where the orchestrator
    writes the payload); each annotation gets an \<^verbatim>\<open>ODataAnnotation\<close> entry and is
    appended to the service's ordered \<^verbatim>\<open>annotations\<close> list if absent.
  \<^item> The model is bound to the data source if not already present.
\<close>

definition updateManifest :: "string \<Rightarrow> OdataService \<Rightarrow> unit io" where
  "updateManifest basePath service fs =
     (let manifestPath = manifestPathOf basePath
      in case readManifest manifestPath fs of
           (Inl e, fs') \<Rightarrow> (Inl e, fs')
         | (Inr manifest, fs') \<Rightarrow>
             (case mf_id manifest of
                None \<Rightarrow>
                  (Inl (requiredProjectPropertyNotFound (apos @ ''sap.app'' @ apos @ ''.id'')
                          manifestPath), fs')
              | Some appid \<Rightarrow>
                  (let table = mf_dataSources manifest;
                       migrated =
                         (case loneFlatService table of
                            None \<Rightarrow> (table, fs')
                          | Some (n1, ds1) \<Rightarrow>
                              (migrateTable n1 (flatAnnotations table ds1) table,
                               migrateFiles basePath n1 (flatAnnotations table ds1) fs'));
                       name = (case sv_name service of Some n \<Rightarrow> n | None \<Rightarrow> ''mainService'');
                       manifest' =
                         manifest\<lparr>mf_dataSources := mergeService service (fst migrated),
                                  mf_models :=
                                    bindModel (js_string (sv_model service)) name
                                      (mf_models manifest)\<rparr>
                   in (Inr (), write_file manifestPath (ManifestFile manifest') (snd migrated)))))"

subsection \<open>The manifest data-source remover\<close>






subsection \<open>The mock-server configuration, the package marker and the payload files\<close>

text \<open>The mock-server entries of a manifest: one service per \<^verbatim>\<open>OData\<close>-typed data
  source, with the paths of the annotations it lists.\<close>

definition annotationUris :: "(string \<times> DataSource) list \<Rightarrow> string list \<Rightarrow> string list" where
  "annotationUris table names =
     List.map_filter (\<lambda>a. map_option ds_uri (map_of table a)) names"

fun upsertMockServices ::
    "(string \<times> DataSource) list \<Rightarrow> (string \<times> DataSource) list \<Rightarrow> UI5Config \<Rightarrow> UI5Config" where
  "upsertMockServices table [] cfg = cfg"
| "upsertMockServices table ((k, ds) # rest) cfg =
     upsertMockServices table rest
       (if ds_type ds = OData
        then upsertMockServer k (ds_uri ds) (annotationUris table (ds_annotations ds)) cfg
        else cfg)"

text \<open>
  Modelled from the spec (4.5, 4.6): \<^verbatim>\<open>generateMockserverConfig\<close> of
  \<^verbatim>\<open>@sap-ux/mockserver-config-writer\<close>, which is not among the sources. It generates
  or refreshes the mock-server block of \<^verbatim>\<open>ui5-mock.yaml\<close> under the base path from the
  services of the manifest, creating the file when it is absent.
\<close>

definition generateMockserverConfig :: "string \<Rightarrow> string \<Rightarrow> unit io" where
  "generateMockserverConfig basePath webappPath =
     io_bind (readManifest (manifestPathOf basePath)) (\<lambda>manifest.
     io_bind (\<lambda>fs. case fs (path_join [basePath, ''ui5-mock.yaml'']) of
                     None \<Rightarrow> (Inr emptyConfig, fs)
                   | Some c \<Rightarrow> (newInstance c, fs)) (\<lambda>cfg.
     io_write (path_join [basePath, ''ui5-mock.yaml''])
       (toString (upsertMockServices (mf_dataSources manifest) (mf_dataSources manifest) cfg))))"

text \<open>
  Modelled from the spec (4.6): \<^verbatim>\<open>updatePackageJson\<close> of \<^verbatim>\<open>./updates\<close>, which is not
  among the sources. It marks the package as UI5-app-aware (an idempotent flag set).
\<close>

definition updatePackageJson :: "string \<Rightarrow> bool \<Rightarrow> unit io" where
  "updatePackageJson path hasMetadata =
     io_bind (io_read path) (\<lambda>c.
       case c of
         PackageFile pk \<Rightarrow> io_write path (PackageFile (pk\<lparr>pk_ui5 := True\<rparr>))
       | _ \<Rightarrow> io_throw (Error (Literal ''malformed JSON'')))"

text \<open>
  Modelled from the spec (4.6): \<^verbatim>\<open>writeAnnotationXmlFiles\<close> of \<^verbatim>\<open>./updates\<close>, which is
  not among the sources. Each annotation that carries XML is written, pretty-printed,
  to \<^verbatim>\<open>localService/<serviceName>/<technicalName>.xml\<close> under the webapp folder.
\<close>

definition annotationFile :: "string \<Rightarrow> string \<Rightarrow> AnnotationsInfo \<Rightarrow> string" where
  "annotationFile basePath serviceName a =
     path_join [basePath, ''webapp'', ''localService'', serviceName,
                js_string (an_technicalName a) @ ''.xml'']"

fun writeAnnotationFiles :: "string \<Rightarrow> string \<Rightarrow> AnnotationsInfo list \<Rightarrow> Editor \<Rightarrow> Editor" where
  "writeAnnotationFiles basePath serviceName [] fs = fs"
| "writeAnnotationFiles basePath serviceName (a # as) fs =
     writeAnnotationFiles basePath serviceName as
       (if truthy (an_xml a)
        then write_file (annotationFile basePath serviceName a) (PrettyXml (an_xml a)) fs
        else fs)"

definition writeAnnotationXmlFiles :: "string \<Rightarrow> string \<Rightarrow> Annotations option \<Rightarrow> unit io" where
  "writeAnnotationXmlFiles basePath serviceName annotations fs =
     (Inr (), writeAnnotationFiles basePath serviceName (annotationList annotations) fs)"



section \<open>The orchestrator\<close>

text \<open>The functions of \<^verbatim>\<open>packages/odata-service-writer/src/index.ts\<close>, in the order of
  the file. The editor is the last argument of every computation.\<close>

text \<open>\<^verbatim>\<open>ensureExists\<close>: the first file of the list that does not exist under the base
  path raises the error.\<close>

fun ensureExists :: "string \<Rightarrow> string list \<Rightarrow> Editor \<Rightarrow> error option" where
  "ensureExists basePath [] fs = None"
| "ensureExists basePath (path # files) fs =
     (if \<not> exists_file fs (path_join [basePath, path])
      then Some (Error (T ''error.requiredProjectFileNotFound'' [(''path'', path)]))
      else ensureExists basePath files fs)"

text \<open>\<^verbatim>\<open>findProjectFiles\<close>: the loop pops one segment of the base path per round.\<close>

definition noPaths :: ProjectPaths where
  "noPaths = \<lparr>packageJson = None, ui5Yaml = None, ui5LocalYaml = None, ui5MockYaml = None\<rparr>"

function findProjectFiles_loop :: "Editor \<Rightarrow> string list \<Rightarrow> ProjectPaths \<Rightarrow> ProjectPaths" where
  "findProjectFiles_loop fs parts files =
     (if length parts > 0
         \<and> (packageJson files = None \<or> ui5Yaml files = None
            \<or> ui5LocalYaml files = None \<or> ui5MockYaml files = None)
      then
        (let path = join_sep parts;
             files1 = (if packageJson files = None
                          \<and> exists_file fs (path_join [path, ''package.json''])
                       then files\<lparr>packageJson := Some (path_join [path, ''package.json''])\<rparr>
                       else files);
             files2 = (if ui5Yaml files1 = None
                          \<and> exists_file fs (path_join [path, ''ui5.yaml''])
                       then files1\<lparr>ui5Yaml := Some (path_join [path, ''ui5.yaml''])\<rparr>
                       else files1);
             files3 = (if ui5LocalYaml files2 = None
                          \<and> exists_file fs (path_join [path, ''ui5-local.yaml''])
                       then files2\<lparr>ui5LocalYaml := Some (path_join [path, ''ui5-local.yaml''])\<rparr>
                       else files2);
             files4 = (if ui5MockYaml files3 = None
                          \<and> exists_file fs (path_join [path, ''ui5-mock.yaml''])
                       then files3\<lparr>ui5MockYaml := Some (path_join [path, ''ui5-mock.yaml''])\<rparr>
                       else files3)
         in findProjectFiles_loop fs (butlast parts) files4)
      else files)"
  by pat_completeness auto
termination
  by (relation "measure (\<lambda>(fs, parts, files). length parts)") auto

declare findProjectFiles_loop.simps [simp del]

definition findProjectFiles :: "string \<Rightarrow> Editor \<Rightarrow> ProjectPaths" where
  "findProjectFiles basePath fs = findProjectFiles_loop fs (split_sep basePath) noPaths"

text \<open>\<^verbatim>\<open>UI5Config.newInstance(fs.read(path))\<close>.\<close>

definition readConfig :: "string \<Rightarrow> UI5Config io" where
  "readConfig path =
     io_bind (io_read path) (\<lambda>text.
       case newInstance text of
         Inl e \<Rightarrow> io_throw e
       | Inr cfg \<Rightarrow> io_return cfg)"

text \<open>\<^verbatim>\<open>generateMockserverMiddlewareBasedOnUi5MockYaml\<close>: returns the local
  configuration, updated in memory.\<close>

definition generateMockserverMiddlewareBasedOnUi5MockYaml ::
    "string \<Rightarrow> string option \<Rightarrow> UI5Config option \<Rightarrow> UI5Config option io" where
  "generateMockserverMiddlewareBasedOnUi5MockYaml ui5YamlPath ui5LocalConfigPath ui5LocalConfig =
     (let ui5MockYamlPath = path_join [path_dirname ui5YamlPath, ''ui5-mock.yaml'']
      in io_bind (readConfig ui5MockYamlPath) (\<lambda>ui5MockYamlConfig. \<lambda>fs.
           (let mockserverMiddlewareFromUi5Mock =
                  findCustomMiddleware ''sap-fe-mockserver'' ui5MockYamlConfig
            in case (ui5LocalConfigPath, ui5LocalConfig, mockserverMiddlewareFromUi5Mock) of
                 (Some p, Some cfg, Some mw) \<Rightarrow>
                   (if exists_file fs p
                    then (Inr (Some (updateCustomMiddleware mw cfg)), fs)
                    else (Inr ui5LocalConfig, fs))
               | _ \<Rightarrow> (Inr ui5LocalConfig, fs))))"

text \<open>The condition of the \<^verbatim>\<open>catch\<close> block of \<^verbatim>\<open>extendBackendMiddleware\<close>.\<close>

definition middlewareNotFound :: "error \<Rightarrow> bool" where
  "middlewareNotFound error =
     ((case error of YAMLError code m \<Rightarrow> code = nodeNotFound | Error m \<Rightarrow> False)
      \<or> error_message error = Literal ''Could not find fiori-tools-proxy'')"

text \<open>\<^verbatim>\<open>extendBackendMiddleware\<close>, for any implementation \<^verbatim>\<open>add\<close> of
  \<^verbatim>\<open>ui5Config.addBackendToFioriToolsProxydMiddleware\<close>. It returns the configuration
  as updated in memory.\<close>

definition extendBackendMiddleware_with ::
    "(ProxyBackend \<Rightarrow> UI5Config \<Rightarrow> error + UI5Config)
       \<Rightarrow> OdataService \<Rightarrow> UI5Config \<Rightarrow> string \<Rightarrow> UI5Config io" where
  "extendBackendMiddleware_with add service ui5Config ui5ConfigPath =
     (case add (sv_previewSettings service) ui5Config of
        Inr cfg \<Rightarrow> io_bind (io_write ui5ConfigPath (toString cfg)) (\<lambda>_. io_return cfg)
      | Inl error \<Rightarrow>
          (if middlewareNotFound error
           then (let cfg = addFioriToolsProxydMiddleware
                             \<lparr>px_backend = [sv_previewSettings service],
                              px_ignoreCertError = sv_ignoreCertError service\<rparr> ui5Config
                 in io_bind (io_write ui5ConfigPath (toString cfg)) (\<lambda>_. io_return cfg))
           else io_throw error))"

definition extendBackendMiddleware :: "OdataService \<Rightarrow> UI5Config \<Rightarrow> string \<Rightarrow> UI5Config io" where
  "extendBackendMiddleware =
     extendBackendMiddleware_with addBackendToFioriToolsProxydMiddleware"


text \<open>\<^verbatim>\<open>service.name ?? 'mainService'\<close>.\<close>

definition nameOrMain :: "OdataService \<Rightarrow> string" where
  "nameOrMain service = (case sv_name service of None \<Rightarrow> ''mainService'' | Some n \<Rightarrow> n)"

text \<open>\<^verbatim>\<open>writeLocalServiceFiles\<close>.\<close>

definition writeLocalServiceFiles :: "string \<Rightarrow> string \<Rightarrow> string \<Rightarrow> OdataService \<Rightarrow> unit io" where
  "writeLocalServiceFiles basePath webappPath templateRoot service =
     io_bind (io_write (path_join [webappPath, ''localService'', nameOrMain service,
                                   ''metadata.xml''])
                (PrettyXml (sv_metadata service))) (\<lambda>_.
       if truthy (sv_localAnnotationsName service)
       then io_write (path_join [basePath, ''webapp'', ''annotations'',
                                 js_string (sv_localAnnotationsName service) @ ''.xml''])
              (Rendered (path_join [templateRoot, ''add'', ''annotation.xml'']) service)
       else io_return ())"


text \<open>
  \<^verbatim>\<open>writeEDMXServiceFiles\<close>, block by block. The first block (\<^verbatim>\<open>if (paths.ui5Yaml)\<close>)
  extends the backend middleware of \<^verbatim>\<open>ui5.yaml\<close> and of \<^verbatim>\<open>ui5-local.yaml\<close>; it yields
  the local variables \<^verbatim>\<open>ui5Config\<close> and \<^verbatim>\<open>ui5LocalConfig\<close>.
\<close>

definition writeEDMX_backend ::
    "ProjectPaths \<Rightarrow> OdataService \<Rightarrow> (UI5Config option \<times> UI5Config option) io" where
  "writeEDMX_backend paths service =
     (case ui5Yaml paths of
        None \<Rightarrow> io_return (None, None)
      | Some yamlPath \<Rightarrow>
          io_bind (readConfig yamlPath) (\<lambda>parsed.
          io_bind (extendBackendMiddleware service parsed yamlPath) (\<lambda>ui5Config.
            case ui5LocalYaml paths of
              None \<Rightarrow> io_return (Some ui5Config, None)
            | Some localPath \<Rightarrow>
                io_bind (readConfig localPath) (\<lambda>parsedLocal.
                io_bind (extendBackendMiddleware service parsedLocal localPath)
                  (\<lambda>ui5LocalConfig. io_return (Some ui5Config, Some ui5LocalConfig))))))"

text \<open>The second block (\<^verbatim>\<open>if (service.metadata)\<close>): the mock-server configuration, the
  backend of \<^verbatim>\<open>ui5-mock.yaml\<close> and the local copies. It yields \<^verbatim>\<open>ui5LocalConfig\<close>.\<close>

definition writeEDMX_metadata ::
    "string \<Rightarrow> ProjectPaths \<Rightarrow> string \<Rightarrow> OdataService
       \<Rightarrow> UI5Config option \<Rightarrow> UI5Config option \<Rightarrow> UI5Config option io" where
  "writeEDMX_metadata basePath paths templateRoot service ui5Config ui5LocalConfig =
     (if truthy (sv_metadata service) then
        (\<lambda>fs0.
           (let webappPath = getWebappPath basePath fs0
            in io_bind
                 (case (ui5Yaml paths, ui5Config) of
                    (Some yamlPath, Some cfg) \<Rightarrow>
                      io_bind (generateMockserverConfig basePath webappPath) (\<lambda>_.
                      io_bind (generateMockserverMiddlewareBasedOnUi5MockYaml yamlPath
                                 (ui5LocalYaml paths) ui5LocalConfig) (\<lambda>ui5LocalConfig'.
                        case ui5MockYaml paths of
                          None \<Rightarrow> io_return ui5LocalConfig'
                        | Some mockPath \<Rightarrow>
                            io_bind (readConfig mockPath) (\<lambda>parsedMock.
                            io_bind (extendBackendMiddleware service parsedMock mockPath)
                              (\<lambda>ui5MockConfig. io_return ui5LocalConfig'))))
                  | _ \<Rightarrow> io_return ui5LocalConfig)
                 (\<lambda>ui5LocalConfig'.
                    io_bind (writeLocalServiceFiles basePath webappPath templateRoot service)
                      (\<lambda>_. io_return ui5LocalConfig'))
                 fs0))
      else io_return ui5LocalConfig)"

definition writeEDMXServiceFiles ::
    "string \<Rightarrow> ProjectPaths \<Rightarrow> string \<Rightarrow> OdataService \<Rightarrow> unit io" where
  "writeEDMXServiceFiles basePath paths templateRoot service =
     io_bind (writeEDMX_backend paths service) (\<lambda>(ui5Config, ui5LocalConfig0).
     io_bind (writeEDMX_metadata basePath paths templateRoot service ui5Config ui5LocalConfig0)
       (\<lambda>ui5LocalConfig.
     io_bind (case (packageJson paths, ui5Yaml paths) of
                (Some packagePath, Some yamlPath) \<Rightarrow>
                  updatePackageJson packagePath (truthy (sv_metadata service))
              | _ \<Rightarrow> io_return ()) (\<lambda>_.
     io_bind (case (ui5LocalYaml paths, ui5LocalConfig) of
                (Some localPath, Some cfg) \<Rightarrow> io_write localPath (toString cfg)
              | _ \<Rightarrow> io_return ()) (\<lambda>_.
     writeAnnotationXmlFiles basePath (nameOrMain service) (sv_annotations service)))))"

text \<open>\<^verbatim>\<open>__dirname\<close> of the module, from which the template folder is resolved.\<close>

definition moduleDirname :: string where
  "moduleDirname = ''/odata-service-writer/dist''"

text \<open>
  \<^verbatim>\<open>generate\<close>. The editor is optional (a fresh one is created when it is absent).
  \<^verbatim>\<open>enhanceData\<close> changes the descriptor in place; here the descriptor is a value and
  the enhanced one is \<open>service'\<close>, which every later step receives.
  \<^verbatim>\<open>updateCdsFilesWithAnnotations\<close>, the writer of CDS source files, is out of the
  specification's scope and not among the sources: it is a parameter.
\<close>

definition generate ::
    "(Annotations \<Rightarrow> unit io) \<Rightarrow> string \<Rightarrow> OdataService \<Rightarrow> Editor option
       \<Rightarrow> (error + unit) \<times> Editor" where
  "generate updateCdsFilesWithAnnotations basePath service fsOpt =
     (let fs = (case fsOpt of None \<Rightarrow> Map.empty | Some editor \<Rightarrow> editor);
          paths = findProjectFiles basePath fs
      in case ensureExists basePath [''webapp/manifest.json''] fs of
           Some e \<Rightarrow> (Inl e, fs)
         | None \<Rightarrow>
             (case enhanceData basePath service fs of
                Inl e \<Rightarrow> (Inl e, fs)
              | Inr service' \<Rightarrow>
                  (let isServiceTypeEdmx = (sv_type service' = Some EDMX);
                       templateRoot = path_join [moduleDirname, ''../templates'']
                   in io_bind (updateManifest basePath service') (\<lambda>_.
                        if isServiceTypeEdmx
                        then writeEDMXServiceFiles basePath paths templateRoot service'
                        else (case sv_annotations service' of
                                Some annotations \<Rightarrow> updateCdsFilesWithAnnotations annotations
                              | None \<Rightarrow> io_return ())) fs)))"




section \<open>Discovery in the words of the specification\<close>

text \<open>
  The specification (4.6) describes discovery as walking upward from the base path
  until the filesystem root, collecting the first file found at each level, closest
  wins per file independently. \<open>levels\<close> lists the directories from the base path
  upward; \<open>closest\<close> is the first of them that holds the file.
\<close>

fun levels_rev :: "string list \<Rightarrow> string list" where
  "levels_rev [] = []"
| "levels_rev (x # xs) = join_sep (rev (x # xs)) # levels_rev xs"

definition levels :: "string \<Rightarrow> string list" where
  "levels basePath = levels_rev (rev (split_sep basePath))"

definition closest :: "Editor \<Rightarrow> string \<Rightarrow> string \<Rightarrow> string option" where
  "closest fs basePath file =
     find (exists_file fs) (map (\<lambda>dir. path_join [dir, file]) (levels basePath))"

section \<open>Example inputs\<close>

definition noPreview :: ProxyBackend where
  "noPreview = \<lparr>be_path = None, be_url = None, be_client = None, be_destination = None,
                be_apiHub = None, be_scp = None, be_pathPrefix = None\<rparr>"

text \<open>The descriptor of the unit test `Valid service with neither metadata nor
  annotations and not starting with /sap'.\<close>

definition northwind :: OdataService where
  "northwind =
     \<lparr>sv_name = None, sv_url = Some ''https://services.odata.org'',
      sv_path = Some ''/V2/Northwind/Northwind.svc'', sv_client = None, sv_version = v2,
      sv_model = None, sv_metadata = None, sv_annotations = None,
      sv_localAnnotationsName = None, sv_destination = None,
      sv_previewSettings = noPreview, sv_ignoreCertError = None, sv_type = None\<rparr>"

definition testManifest :: Manifest where
  "testManifest = \<lparr>mf_id = Some ''testappid'', mf_dataSources = [], mf_models = []\<rparr>"

definition noCds :: "Annotations \<Rightarrow> unit io" where
  "noCds annotations = io_return ()"

text \<open>A project whose package descriptor, YAML file and manifest lie in the parent
  folder of the base path \<^verbatim>\<open>/a/b\<close>.\<close>

definition nestedProject :: Editor where
  "nestedProject =
     [''/a/package.json'' \<mapsto> PackageFile \<lparr>pk_ui5 = False, pk_other = []\<rparr>,
      ''/a/ui5.yaml'' \<mapsto> YamlFile emptyConfig,
      ''/a/webapp/manifest.json'' \<mapsto> ManifestFile testManifest,
      ''/a/b/ui5-local.yaml'' \<mapsto> YamlFile emptyConfig]"

text \<open>A project with a manifest that lacks \<^verbatim>\<open>sap.app.id\<close> (the unit test `faulty
  manifest.json').\<close>

definition faultyProject :: Editor where
  "faultyProject =
     [''/p/webapp/manifest.json'' \<mapsto>
        ManifestFile \<lparr>mf_id = None, mf_dataSources = [], mf_models = []\<rparr>]"

text \<open>The project of the unit tests of \<^verbatim>\<open>generate\<close>, with a \<^verbatim>\<open>ui5-mock.yaml\<close> beside
  the other files.\<close>

definition proxyOnly :: UI5Config where
  "proxyOnly = \<lparr>cf_proxy = Some \<lparr>px_backend = [], px_ignoreCertError = Some False\<rparr>,
                 cf_mockserver = None, cf_other = []\<rparr>"

definition mockOnly :: UI5Config where
  "mockOnly = \<lparr>cf_proxy = None,
                cf_mockserver = Some \<lparr>mk_services = [(''other'', ''/other/'')],
                                      mk_annotations = []\<rparr>,
                cf_other = []\<rparr>"

definition standardProject :: Editor where
  "standardProject =
     [''/p/webapp/manifest.json'' \<mapsto> ManifestFile testManifest,
      ''/p/package.json'' \<mapsto> PackageFile \<lparr>pk_ui5 = False, pk_other = []\<rparr>,
      ''/p/ui5.yaml'' \<mapsto> YamlFile proxyOnly,
      ''/p/ui5-local.yaml'' \<mapsto> YamlFile emptyConfig,
      ''/p/ui5-mock.yaml'' \<mapsto> YamlFile mockOnly]"

text \<open>A document model whose backend operation fails with an error that is not the
  not-found condition.\<close>

definition failingAdd :: "ProxyBackend \<Rightarrow> UI5Config \<Rightarrow> error + UI5Config" where
  "failingAdd b cfg = Inl (YAMLError (otherCode ''startNodeMustBeCollection'') (Literal ''bad document''))"















section \<open>Auxiliary definitions\<close>

text \<open>One round of the discovery loop, field by field, and the rounds over a list of
  directories; they serve the proofs about \<open>findProjectFiles\<close>.\<close>

definition orElse :: "'a option \<Rightarrow> 'a option \<Rightarrow> 'a option" where
  "orElse a b = (case a of None \<Rightarrow> b | Some x \<Rightarrow> Some x)"

definition probe :: "Editor \<Rightarrow> string \<Rightarrow> string \<Rightarrow> string option" where
  "probe fs dir file =
     (if exists_file fs (path_join [dir, file]) then Some (path_join [dir, file]) else None)"

definition round_step :: "Editor \<Rightarrow> string \<Rightarrow> ProjectPaths \<Rightarrow> ProjectPaths" where
  "round_step fs dir files =
     \<lparr>packageJson = orElse (packageJson files) (probe fs dir ''package.json''),
      ui5Yaml = orElse (ui5Yaml files) (probe fs dir ''ui5.yaml''),
      ui5LocalYaml = orElse (ui5LocalYaml files) (probe fs dir ''ui5-local.yaml''),
      ui5MockYaml = orElse (ui5MockYaml files) (probe fs dir ''ui5-mock.yaml'')\<rparr>"

fun rounds :: "Editor \<Rightarrow> string list \<Rightarrow> ProjectPaths \<Rightarrow> ProjectPaths" where
  "rounds fs [] files = files"
| "rounds fs (dir # dirs) files = rounds fs dirs (round_step fs dir files)"

text \<open>The last segment of a path, and the names of XML payload files.\<close>

definition fileName :: "string \<Rightarrow> string" where
  "fileName p = last (split_sep p)"

definition xmlName :: "string \<Rightarrow> bool" where
  "xmlName n = endsWith n ''.xml''"

text \<open>The document after \<^verbatim>\<open>extendBackendMiddleware\<close>, and the relation between the
  files before and after the first block of \<^verbatim>\<open>writeEDMXServiceFiles\<close>.\<close>

definition extended :: "OdataService \<Rightarrow> UI5Config \<Rightarrow> UI5Config" where
  "extended s cfg =
     (case cf_proxy cfg of
        None \<Rightarrow> cfg\<lparr>cf_proxy := Some \<lparr>px_backend = [sv_previewSettings s],
                                     px_ignoreCertError = sv_ignoreCertError s\<rparr>\<rparr>
      | Some px \<Rightarrow>
          cfg\<lparr>cf_proxy := Some (px\<lparr>px_backend :=
                                     upsert_backend (sv_previewSettings s) (px_backend px)\<rparr>)\<rparr>)"

definition backendWritten :: "OdataService \<Rightarrow> content option \<Rightarrow> content option \<Rightarrow> bool" where
  "backendWritten s old new =
     (\<exists>c cfg. old = Some c \<and> newInstance c = Inr cfg \<and> new = Some (YamlFile (extended s cfg)))"

text \<open>The YAML files after the first block: each is as before, or holds its former
  document with the backend entry.\<close>

definition yamlKept :: "OdataService \<Rightarrow> ProjectPaths \<Rightarrow> Editor \<Rightarrow> Editor \<Rightarrow> bool" where
  "yamlKept s paths fs fs' =
     (\<forall>p. fs' p = fs p
          \<or> ((ui5Yaml paths = Some p \<or> ui5LocalYaml paths = Some p)
              \<and> backendWritten s (fs p) (fs' p)))"

text \<open>Frame conditions of a computation on the staged file system: it leaves every path
  outside \<open>W\<close> as it is; it deletes no file.\<close>

definition io_frame :: "(string \<Rightarrow> bool) \<Rightarrow> 'a io \<Rightarrow> bool" where
  "io_frame W m = (\<forall>fs p. \<not> W p \<longrightarrow> snd (m fs) p = fs p)"

definition io_grows :: "'a io \<Rightarrow> bool" where
  "io_grows m = (\<forall>fs p. fs p \<noteq> None \<longrightarrow> snd (m fs) p \<noteq> None)"

text \<open>The file names the writer of EDMX service files may touch.\<close>

definition edmxWritten :: "string \<Rightarrow> bool" where
  "edmxWritten p =
     (fileName p = ''package.json'' \<or> fileName p = ''ui5.yaml'' \<or> fileName p = ''ui5-local.yaml''
      \<or> fileName p = ''ui5-mock.yaml'' \<or> xmlName (fileName p))"




text \<open>The data-source table after the layout migration, if it is triggered.\<close>

definition migratedTable :: "(string \<times> DataSource) list \<Rightarrow> (string \<times> DataSource) list" where
  "migratedTable table =
     (case loneFlatService table of
        None \<Rightarrow> table
      | Some (n1, ds1) \<Rightarrow> migrateTable n1 (flatAnnotations table ds1) table)"




text \<open>The document a file parses to, if the file exists and parses.\<close>

definition documentAt :: "Editor \<Rightarrow> string \<Rightarrow> UI5Config option" where
  "documentAt fs p =
     (case fs p of
        None \<Rightarrow> None
      | Some c \<Rightarrow> (case newInstance c of Inl e \<Rightarrow> None | Inr cfg \<Rightarrow> Some cfg))"




text \<open>The blocks of \<^verbatim>\<open>writeEDMXServiceFiles\<close> after the second: the package descriptor,
  the final write of \<^verbatim>\<open>ui5-local.yaml\<close> and the annotation files.\<close>

definition writeEDMX_rest ::
    "string \<Rightarrow> ProjectPaths \<Rightarrow> OdataService \<Rightarrow> UI5Config option \<Rightarrow> unit io" where
  "writeEDMX_rest basePath paths service ui5LocalConfig =
     io_bind (case (packageJson paths, ui5Yaml paths) of
                (Some packagePath, Some yamlPath) \<Rightarrow>
                  updatePackageJson packagePath (truthy (sv_metadata service))
              | _ \<Rightarrow> io_return ()) (\<lambda>_.
     io_bind (case (ui5LocalYaml paths, ui5LocalConfig) of
                (Some localPath, Some cfg) \<Rightarrow> io_write localPath (toString cfg)
              | _ \<Rightarrow> io_return ()) (\<lambda>_.
     writeAnnotationXmlFiles basePath (nameOrMain service) (sv_annotations service)))"

text \<open>The descriptor of the unit tests with metadata, and a project in which no
  \<^verbatim>\<open>ui5.yaml\<close> is found.\<close>

definition northwindMetadata :: OdataService where
  "northwindMetadata = northwind\<lparr>sv_metadata := Some ''<XML />''\<rparr>"

definition noYamlProject :: Editor where
  "noYamlProject =
     [''/p/webapp/manifest.json'' \<mapsto> ManifestFile testManifest,
      ''/p/ui5-local.yaml'' \<mapsto> YamlFile proxyOnly,
      ''/p/ui5-mock.yaml'' \<mapsto> YamlFile mockOnly]"




section \<open>Properties of paths\<close>

lemma split_sep_nonempty: "split_sep s \<noteq> []"
  by (induction s) (auto split: list.splits)

lemma split_sep_append: "split_sep (a @ sep # b) = split_sep a @ split_sep b"
proof (induction a)
  case Nil
  then show ?case by simp
next
  case (Cons c a)
  then show ?case
    using split_sep_nonempty [of a] by (cases "split_sep a") auto
qed

lemma split_sep_no_sep: "s \<in> set (split_sep x) \<Longrightarrow> sep \<notin> set s"
proof (induction x arbitrary: s)
  case Nil
  then show ?case by simp
next
  case (Cons c x)
  then show ?case
    using split_sep_nonempty [of x] by (cases "split_sep x") (auto split: if_splits)
qed

lemma split_sep_single: "sep \<notin> set s \<Longrightarrow> split_sep s = [s]"
  by (induction s) auto

lemma split_sep_append_plain:
  "sep \<notin> set b \<Longrightarrow> split_sep (a @ b) = butlast (split_sep a) @ [last (split_sep a) @ b]"
proof (induction a)
  case Nil
  then show ?case by (simp add: split_sep_single)
next
  case (Cons c a)
  then show ?case
    using split_sep_nonempty [of a] split_sep_nonempty [of "a @ b"]
    by (cases "split_sep a") (auto split: list.splits)
qed

lemma join_sep_snoc: "qs \<noteq> [] \<Longrightarrow> join_sep (qs @ [x]) = join_sep qs @ sep # x"
  by (induction qs rule: join_sep.induct) auto

lemma split_join_sep:
  "segs \<noteq> [] \<Longrightarrow> \<forall>s \<in> set segs. sep \<notin> set s \<Longrightarrow> split_sep (join_sep segs) = segs"
proof (induction segs rule: join_sep.induct)
  case 1
  then show ?case by simp
next
  case (2 s)
  then show ?case by (simp add: split_sep_single)
next
  case (3 s t ss)
  then show ?case by (simp add: split_sep_append split_sep_single)
qed

lemma split_sep_singleton: "split_sep x = [s] \<Longrightarrow> x = s"
proof (induction x arbitrary: s)
  case Nil
  then show ?case by simp
next
  case (Cons c x)
  then show ?case
    using split_sep_nonempty [of x] by (cases "split_sep x") (auto split: if_splits)
qed

lemma last_segment_empty:
  "last (split_sep x) = [] \<longleftrightarrow> (x = [] \<or> last x = sep)"
proof (induction x)
  case Nil
  then show ?case by simp
next
  case (Cons c x)
  obtain s ss where sp: "split_sep x = s # ss"
    using split_sep_nonempty [of x] by (cases "split_sep x") auto
  show ?case
  proof (cases "c = sep")
    case True
    then show ?thesis using Cons sp by auto
  next
    case False
    show ?thesis
    proof (cases "ss = []")
      case True
      with sp have "x = s" by (simp add: split_sep_singleton)
      with sp True False Cons show ?thesis by auto
    next
      case False
      with sp \<open>c \<noteq> sep\<close> Cons show ?thesis by auto
    qed
  qed
qed

lemma norm_step_subset: "set (norm_step a st s) \<subseteq> insert ''..'' (insert s (set st))"
  by (cases st) auto

lemma norm_step_stack:
  "set (foldl (norm_step a) st segs) \<subseteq> set st \<union> set segs \<union> {''..''}"
proof (induction segs arbitrary: st)
  case Nil
  then show ?case by auto
next
  case (Cons s segs)
  from Cons [of "norm_step a st s"] norm_step_subset [of a st s] show ?case
    by (simp del: norm_step.simps) blast
qed

lemma last_segment_normalize:
  assumes "last (split_sep x) = l" "l \<noteq> []" "l \<noteq> ''.''" "l \<noteq> ''..''"
  shows "last (split_sep (path_normalize x)) = l"
proof -
  from assms(1,2) have x: "x \<noteq> []" "last x \<noteq> sep"
    using last_segment_empty [of x] by auto
  define a where "a = (hd x \<noteq> sep)"
  define st where "st = foldl (norm_step a) [] (butlast (split_sep x))"
  have sx: "split_sep x = butlast (split_sep x) @ [l]"
    using assms(1) split_sep_nonempty [of x] by (metis append_butlast_last_id)
  have "foldl (norm_step a) [] (split_sep x) = norm_step a st l"
    unfolding st_def by (subst sx) simp
  also have "\<dots> = l # st"
    using assms by simp
  finally have ns: "normalizeString x a = join_sep (rev st @ [l])"
    by (simp add: normalizeString_def)
  have st_sub: "set st \<subseteq> set (butlast (split_sep x)) \<union> {''..''}"
    using norm_step_stack [of a "[]" "butlast (split_sep x)"] unfolding st_def by simp
  have nosep: "\<forall>s \<in> set (rev st @ [l]). sep \<notin> set s"
  proof
    fix s assume "s \<in> set (rev st @ [l])"
    then have "s \<in> set st \<or> s = l" by auto
    then have "s \<in> set (split_sep x) \<or> s = ''..''"
    proof
      assume "s \<in> set st"
      with st_sub have "s \<in> set (butlast (split_sep x)) \<or> s = ''..''" by auto
      then show ?thesis by (auto dest: in_set_butlastD)
    next
      assume "s = l"
      with sx show ?thesis by (metis in_set_conv_decomp)
    qed
    then show "sep \<notin> set s"
      using split_sep_no_sep by (auto simp: sep_def)
  qed
  have sp: "split_sep (join_sep (rev st @ [l])) = rev st @ [l]"
    by (rule split_join_sep) (use nosep in auto)
  have ne: "join_sep (rev st @ [l]) \<noteq> []"
  proof
    assume "join_sep (rev st @ [l]) = []"
    with sp have "rev st @ [l] = [[]]" by simp
    with assms(2) show False by simp
  qed
  have abs: "last (split_sep (sep # join_sep (rev st @ [l]))) = l"
    using sp by simp
  show ?thesis
    using x ns sp ne abs unfolding path_normalize_def a_def
    by (simp add: Let_def)
qed

lemma last_segment_path_join:
  assumes "last (split_sep x) = l" "l \<noteq> []" "l \<noteq> ''.''" "l \<noteq> ''..''"
  shows "last (split_sep (path_join (ps @ [x]))) = l"
proof -
  from assms(1,2) have x: "x \<noteq> []"
    using last_segment_empty [of x] by auto
  define qs where "qs = filter (\<lambda>arg. arg \<noteq> []) ps"
  have f: "filter (\<lambda>arg. arg \<noteq> []) (ps @ [x]) = qs @ [x]"
    using x by (simp add: qs_def)
  have j: "path_join (ps @ [x]) = path_normalize (join_sep (qs @ [x]))"
    unfolding path_join_def f by (cases "qs @ [x]") auto
  have "last (split_sep (join_sep (qs @ [x]))) = l"
  proof (cases "qs = []")
    case True
    then show ?thesis using assms(1) by simp
  next
    case False
    then show ?thesis
      using assms(1) split_sep_nonempty [of x]
      by (simp add: join_sep_snoc split_sep_append)
  qed
  then show ?thesis
    unfolding j using assms(2-4) by (rule last_segment_normalize)
qed

section \<open>Properties of discovery\<close>

lemma manifest_path_eq: "path_join [basePath, ''webapp/manifest.json''] = manifestPathOf basePath"
  by (cases "basePath = []") (simp_all add: path_join_def manifestPathOf_def sep_def)

lemma levels_rev_snoc:
  "parts \<noteq> [] \<Longrightarrow> levels_rev (rev parts) = join_sep parts # levels_rev (rev (butlast parts))"
  by (cases parts rule: rev_cases) simp_all

lemma orElse_simps [simp]: "orElse None b = b" "orElse (Some x) b = Some x" "orElse a None = a"
  by (simp_all add: orElse_def split: option.splits)

lemma loop_unfold:
  "findProjectFiles_loop fs parts files =
     (if parts \<noteq> [] \<and> (packageJson files = None \<or> ui5Yaml files = None
            \<or> ui5LocalYaml files = None \<or> ui5MockYaml files = None)
      then findProjectFiles_loop fs (butlast parts) (round_step fs (join_sep parts) files)
      else files)"
proof -
  obtain a b c d where f: "files = \<lparr>packageJson = a, ui5Yaml = b, ui5LocalYaml = c, ui5MockYaml = d\<rparr>"
    by (cases files) auto
  have s: "(let path = join_sep parts;
             files1 = (if packageJson files = None
                          \<and> exists_file fs (path_join [path, ''package.json''])
                       then files\<lparr>packageJson := Some (path_join [path, ''package.json''])\<rparr>
                       else files);
             files2 = (if ui5Yaml files1 = None
                          \<and> exists_file fs (path_join [path, ''ui5.yaml''])
                       then files1\<lparr>ui5Yaml := Some (path_join [path, ''ui5.yaml''])\<rparr>
                       else files1);
             files3 = (if ui5LocalYaml files2 = None
                          \<and> exists_file fs (path_join [path, ''ui5-local.yaml''])
                       then files2\<lparr>ui5LocalYaml := Some (path_join [path, ''ui5-local.yaml''])\<rparr>
                       else files2);
             files4 = (if ui5MockYaml files3 = None
                          \<and> exists_file fs (path_join [path, ''ui5-mock.yaml''])
                       then files3\<lparr>ui5MockYaml := Some (path_join [path, ''ui5-mock.yaml''])\<rparr>
                       else files3)
         in findProjectFiles_loop fs (butlast parts) files4)
      = findProjectFiles_loop fs (butlast parts) (round_step fs (join_sep parts) files)"
    unfolding f Let_def round_step_def probe_def
    by (cases a; cases b; cases c; cases d) simp_all
  show ?thesis
    by (subst findProjectFiles_loop.simps) (simp only: s length_greater_0_conv)
qed

lemma rounds_full:
  "packageJson files \<noteq> None \<Longrightarrow> ui5Yaml files \<noteq> None \<Longrightarrow> ui5LocalYaml files \<noteq> None
     \<Longrightarrow> ui5MockYaml files \<noteq> None \<Longrightarrow> rounds fs dirs files = files"
  by (induction dirs arbitrary: files) (auto simp: round_step_def)

lemma loop_rounds:
  "findProjectFiles_loop fs parts files = rounds fs (levels_rev (rev parts)) files"
proof (induction "length parts" arbitrary: parts files)
  case 0
  then show ?case by (subst loop_unfold) simp
next
  case (Suc n)
  then have ne: "parts \<noteq> []" and len: "n = length (butlast parts)" by auto
  show ?case
  proof (cases "packageJson files = None \<or> ui5Yaml files = None
            \<or> ui5LocalYaml files = None \<or> ui5MockYaml files = None")
    case True
    show ?thesis
      apply (subst loop_unfold)
      apply (simp only: ne True not_False_eq_True simp_thms if_True)
      apply (subst Suc(1) [OF len])
      apply (subst levels_rev_snoc [OF ne])
      apply simp
      done
  next
    case False
    then show ?thesis
      by (subst loop_unfold) (auto simp: rounds_full)
  qed
qed

lemma rounds_fields:
  "packageJson (rounds fs dirs files) =
     orElse (packageJson files) (find (exists_file fs) (map (\<lambda>dir. path_join [dir, ''package.json'']) dirs))"
  "ui5Yaml (rounds fs dirs files) =
     orElse (ui5Yaml files) (find (exists_file fs) (map (\<lambda>dir. path_join [dir, ''ui5.yaml'']) dirs))"
  "ui5LocalYaml (rounds fs dirs files) =
     orElse (ui5LocalYaml files) (find (exists_file fs) (map (\<lambda>dir. path_join [dir, ''ui5-local.yaml'']) dirs))"
  "ui5MockYaml (rounds fs dirs files) =
     orElse (ui5MockYaml files) (find (exists_file fs) (map (\<lambda>dir. path_join [dir, ''ui5-mock.yaml'']) dirs))"
  by (induction dirs arbitrary: files; simp add: round_step_def probe_def orElse_def split: option.splits)+

lemma findProjectFiles_closest:
  "findProjectFiles basePath fs =
     \<lparr>packageJson = closest fs basePath ''package.json'',
      ui5Yaml = closest fs basePath ''ui5.yaml'',
      ui5LocalYaml = closest fs basePath ''ui5-local.yaml'',
      ui5MockYaml = closest fs basePath ''ui5-mock.yaml''\<rparr>"
  by (rule ProjectPaths.equality)
     (simp_all add: findProjectFiles_def loop_rounds rounds_fields closest_def levels_def noPaths_def)

lemma nested_joins:
  "path_join [''/a/b'', ''webapp/manifest.json''] = ''/a/b/webapp/manifest.json''"
  "path_join [''/a/b'', ''package.json''] = ''/a/b/package.json''"
  "path_join [''/a'', ''package.json''] = ''/a/package.json''"
  "path_join [''/a/b'', ''ui5.yaml''] = ''/a/b/ui5.yaml''"
  "path_join [''/a'', ''ui5.yaml''] = ''/a/ui5.yaml''"
  "path_join [''/a/b'', ''ui5-local.yaml''] = ''/a/b/ui5-local.yaml''"
  "path_join [''/a/b'', ''ui5-mock.yaml''] = ''/a/b/ui5-mock.yaml''"
  "path_join [''/a'', ''ui5-mock.yaml''] = ''/a/ui5-mock.yaml''"
  "path_join [[], ''ui5-mock.yaml''] = ''ui5-mock.yaml''"
  by (simp_all add: path_join_def path_normalize_def normalizeString_def sep_def)

section \<open>Properties of the EDMX writer\<close>

lemma fileName_join:
  "last (split_sep x) = l \<Longrightarrow> l \<noteq> [] \<Longrightarrow> l \<noteq> ''.'' \<Longrightarrow> l \<noteq> ''..''
     \<Longrightarrow> fileName (path_join (ps @ [x])) = l"
  unfolding fileName_def by (rule last_segment_path_join)

lemma fileName_plain:
  "sep \<notin> set f \<Longrightarrow> f \<noteq> [] \<Longrightarrow> f \<noteq> ''.'' \<Longrightarrow> f \<noteq> ''..''
     \<Longrightarrow> fileName (path_join (ps @ [f])) = f"
  by (rule fileName_join) (simp_all add: split_sep_single)

lemma fileName_fixed:
  "fileName (path_join [d, ''package.json'']) = ''package.json''"
  "fileName (path_join [d, ''ui5.yaml'']) = ''ui5.yaml''"
  "fileName (path_join [d, ''ui5-local.yaml'']) = ''ui5-local.yaml''"
  "fileName (path_join [d, ''ui5-mock.yaml'']) = ''ui5-mock.yaml''"
  "fileName (path_join [d, w, ''manifest.json'']) = ''manifest.json''"
  using fileName_plain [of "''package.json''" "[d]"] fileName_plain [of "''ui5.yaml''" "[d]"]
    fileName_plain [of "''ui5-local.yaml''" "[d]"] fileName_plain [of "''ui5-mock.yaml''" "[d]"]
    fileName_plain [of "''manifest.json''" "[d, w]"]
  by (simp_all add: sep_def)

lemma fileName_xml: "xmlName (fileName (path_join (ps @ [x @ ''.xml''])))"
proof -
  define l where "l = last (split_sep x) @ ''.xml''"
  have "split_sep (x @ ''.xml'') = butlast (split_sep x) @ [l]"
    unfolding l_def by (rule split_sep_append_plain) (simp add: sep_def)
  then have "last (split_sep (x @ ''.xml'')) = l" by simp
  moreover have "l \<noteq> []" "l \<noteq> ''.''" "l \<noteq> ''..''"
    by (simp_all add: l_def append_eq_Cons_conv)
  ultimately have "fileName (path_join (ps @ [x @ ''.xml''])) = l"
    by (rule fileName_join)
  then show ?thesis
    by (simp add: xmlName_def endsWith_def l_def)
qed

lemma xmlName_fixed:
  "\<not> xmlName ''package.json''" "\<not> xmlName ''ui5.yaml''" "\<not> xmlName ''ui5-local.yaml''"
  "\<not> xmlName ''ui5-mock.yaml''" "\<not> xmlName ''manifest.json''" "xmlName ''metadata.xml''"
  by (simp_all add: xmlName_def endsWith_def)

lemma closest_name:
  assumes "closest fs basePath f = Some p" and "\<And>d. fileName (path_join [d, f]) = f"
  shows "fileName p = f"
proof -
  from assms(1) obtain d where "p = path_join [d, f]"
    unfolding closest_def by (auto simp: find_Some_iff)
  with assms(2) show ?thesis by simp
qed

lemma findProjectFiles_names:
  "packageJson (findProjectFiles basePath fs) = Some p \<Longrightarrow> fileName p = ''package.json''"
  "ui5Yaml (findProjectFiles basePath fs) = Some p \<Longrightarrow> fileName p = ''ui5.yaml''"
  "ui5LocalYaml (findProjectFiles basePath fs) = Some p \<Longrightarrow> fileName p = ''ui5-local.yaml''"
  "ui5MockYaml (findProjectFiles basePath fs) = Some p \<Longrightarrow> fileName p = ''ui5-mock.yaml''"
  by (auto simp: findProjectFiles_closest intro: closest_name fileName_fixed)

lemma upsert_backend_mem: "b \<in> set (upsert_backend b xs)"
  by (induction xs) auto

lemma extended_facts:
  "cf_mockserver (extended s cfg) = cf_mockserver cfg"
  "cf_other (extended s cfg) = cf_other cfg"
  "\<exists>px. cf_proxy (extended s cfg) = Some px \<and> sv_previewSettings s \<in> set (px_backend px)"
  by (auto simp: extended_def upsert_backend_mem split: option.splits)

lemma upsert_backend_idem: "upsert_backend b (upsert_backend b xs) = upsert_backend b xs"
  by (induction xs) auto

lemma extended_idem: "extended s (extended s cfg) = extended s cfg"
  by (cases "cf_proxy cfg") (simp_all add: extended_def upsert_backend_idem)

lemma newInstance_Yaml [simp]: "newInstance (YamlFile cfg) = Inr cfg"
  by (simp add: newInstance_def)

lemma extendBackendMiddleware_eq:
  "extendBackendMiddleware s cfg path fs =
     (Inr (extended s cfg), fs(path \<mapsto> YamlFile (extended s cfg)))"
  by (simp add: extendBackendMiddleware_def extendBackendMiddleware_with_def
        addBackendToFioriToolsProxydMiddleware_def extended_def middlewareNotFound_def
        io_bind_def io_write_def io_return_def write_file_def toString_def
        addFioriToolsProxydMiddleware_def Let_def split: option.splits)

lemma readConfig_eq:
  "readConfig p fs =
     (case fs p of
        None \<Rightarrow> (Inl (Error (Literal (p @ '' doesn'' @ apos @ ''t exist''))), fs)
      | Some c \<Rightarrow> (case newInstance c of Inl e \<Rightarrow> (Inl e, fs) | Inr cfg \<Rightarrow> (Inr cfg, fs)))"
  by (simp add: readConfig_def io_bind_def io_read_def io_throw_def io_return_def
        split: option.splits sum.splits)

lemma readExtend_cases:
  assumes "io_bind (readConfig p) (\<lambda>cfg. extendBackendMiddleware s cfg p) fs = (r, fs')"
  shows "(\<exists>e. r = Inl e \<and> fs' = fs)
       \<or> (\<exists>c cfg. fs p = Some c \<and> newInstance c = Inr cfg \<and> r = Inr (extended s cfg)
            \<and> fs' = fs(p \<mapsto> YamlFile (extended s cfg)))"
proof (cases "fs p")
  case None
  with assms show ?thesis by (auto simp: io_bind_def readConfig_eq)
next
  case (Some c)
  show ?thesis
  proof (cases "newInstance c")
    case (Inl e)
    with assms Some have "r = Inl e \<and> fs' = fs"
      by (simp add: io_bind_def readConfig_eq)
    then show ?thesis by blast
  next
    case (Inr cfg)
    with assms Some show ?thesis
      by (auto simp: io_bind_def readConfig_eq extendBackendMiddleware_eq)
  qed
qed

lemma yamlKept_refl: "yamlKept s paths fs fs"
  by (simp add: yamlKept_def)

lemma yamlKept_write:
  assumes "yamlKept s paths fs cur" "cur p = Some c" "newInstance c = Inr cfg"
    "ui5Yaml paths = Some p \<or> ui5LocalYaml paths = Some p"
  shows "yamlKept s paths fs (cur(p \<mapsto> YamlFile (extended s cfg)))"
proof -
  have "backendWritten s (fs p) (Some (YamlFile (extended s cfg)))"
  proof (cases "cur p = fs p")
    case True
    with assms(2,3) show ?thesis by (auto simp: backendWritten_def)
  next
    case False
    with assms(1) have "backendWritten s (fs p) (cur p)" by (auto simp: yamlKept_def)
    with assms(2,3) show ?thesis by (auto simp: backendWritten_def extended_idem)
  qed
  with assms(1,4) show ?thesis by (auto simp: yamlKept_def)
qed

lemma backend_stage:
  assumes "writeEDMX_backend paths s fs = (r, fs1)"
  shows "yamlKept s paths fs fs1
       \<and> (\<forall>u l. r = Inr (u, l) \<longrightarrow>
            (u = None \<longleftrightarrow> ui5Yaml paths = None)
            \<and> (\<forall>yp. ui5Yaml paths = Some yp \<longrightarrow>
                  (\<exists>cfg. fs1 yp = Some (YamlFile (extended s cfg))))
            \<and> (l = None \<longleftrightarrow> ui5Yaml paths = None \<or> ui5LocalYaml paths = None)
            \<and> (\<forall>cfgl. l = Some cfgl \<longrightarrow>
                  (\<exists>lp cfg. ui5LocalYaml paths = Some lp \<and> fs1 lp = Some (YamlFile cfgl)
                      \<and> cfgl = extended s cfg)))"
proof (cases "ui5Yaml paths")
  case None
  with assms show ?thesis
    by (auto simp: writeEDMX_backend_def io_return_def yamlKept_refl)
next
  case (Some yp)
  define m2 where "m2 = (\<lambda>ui5Config :: UI5Config. case ui5LocalYaml paths of
              None \<Rightarrow> io_return (Some ui5Config, None :: UI5Config option)
            | Some localPath \<Rightarrow>
                io_bind (io_bind (readConfig localPath) (\<lambda>parsedLocal.
                   extendBackendMiddleware s parsedLocal localPath))
                  (\<lambda>ui5LocalConfig. io_return (Some ui5Config, Some ui5LocalConfig)))"
  have bind_assoc: "io_bind (io_bind m f) g = io_bind m (\<lambda>x. io_bind (f x) g)" for m :: "'x io" and f :: "'x \<Rightarrow> 'y io" and g :: "'y \<Rightarrow> 'z io"
    by (rule ext) (simp add: io_bind_def split: prod.splits sum.splits)
  have w: "writeEDMX_backend paths s =
      io_bind (io_bind (readConfig yp) (\<lambda>parsed. extendBackendMiddleware s parsed yp)) m2"
    unfolding writeEDMX_backend_def Some m2_def
    by (simp add: bind_assoc cong: option.case_cong)
  obtain r1 fsa where a: "io_bind (readConfig yp) (\<lambda>parsed. extendBackendMiddleware s parsed yp) fs = (r1, fsa)"
    by (cases "io_bind (readConfig yp) (\<lambda>parsed. extendBackendMiddleware s parsed yp) fs")
  from readExtend_cases [OF a] show ?thesis
  proof
    assume "\<exists>e. r1 = Inl e \<and> fsa = fs"
    with assms a w show ?thesis by (auto simp: io_bind_def yamlKept_refl)
  next
    assume "\<exists>c cfg. fs yp = Some c \<and> newInstance c = Inr cfg \<and> r1 = Inr (extended s cfg)
            \<and> fsa = fs(yp \<mapsto> YamlFile (extended s cfg))"
    then obtain c cfg where c: "fs yp = Some c" "newInstance c = Inr cfg" "r1 = Inr (extended s cfg)"
      "fsa = fs(yp \<mapsto> YamlFile (extended s cfg))" by blast
    have ka: "yamlKept s paths fs fsa"
      unfolding c(4)
      by (rule yamlKept_write [where cur = fs, OF yamlKept_refl c(1,2)]) (simp add: Some)
    from assms a w c(3) have run2: "m2 (extended s cfg) fsa = (r, fs1)"
      by (simp add: io_bind_def)
    show ?thesis
    proof (cases "ui5LocalYaml paths")
      case None
      with run2 have "r = Inr (Some (extended s cfg), None)" "fs1 = fsa"
        by (simp_all add: m2_def io_return_def)
      with ka Some None c(4) show ?thesis by auto
    next
      case lp: (Some lp)
      obtain r2 fsb where b: "io_bind (readConfig lp) (\<lambda>parsed. extendBackendMiddleware s parsed lp) fsa = (r2, fsb)"
        by (cases "io_bind (readConfig lp) (\<lambda>parsed. extendBackendMiddleware s parsed lp) fsa")
      from readExtend_cases [OF b] show ?thesis
      proof
        assume "\<exists>e. r2 = Inl e \<and> fsb = fsa"
        with run2 b lp ka show ?thesis by (auto simp: m2_def io_bind_def)
      next
        assume "\<exists>c cfg. fsa lp = Some c \<and> newInstance c = Inr cfg \<and> r2 = Inr (extended s cfg)
            \<and> fsb = fsa(lp \<mapsto> YamlFile (extended s cfg))"
        then obtain cl cfgl where d: "fsa lp = Some cl" "newInstance cl = Inr cfgl"
          "r2 = Inr (extended s cfgl)" "fsb = fsa(lp \<mapsto> YamlFile (extended s cfgl))" by blast
        have kb: "yamlKept s paths fs fsb"
          unfolding d(4) by (rule yamlKept_write [OF ka d(1,2)]) (simp add: lp)
        from run2 b lp d(3) have "r = Inr (Some (extended s cfg), Some (extended s cfgl))" "fs1 = fsb"
          by (simp_all add: m2_def io_bind_def io_return_def)
        with kb Some lp c(4) d(4) show ?thesis by auto
      qed
    qed
  qed
qed

lemma backend_stage_kept:
  "writeEDMX_backend paths s fs = (r, fs1) \<Longrightarrow> yamlKept s paths fs fs1"
  using backend_stage by blast

lemma backend_stage_yaml:
  assumes "writeEDMX_backend paths s fs = (Inr (u, l), fs1)" "ui5Yaml paths = Some yp"
  shows "\<exists>cfg. fs1 yp = Some (YamlFile (extended s cfg))"
proof -
  from backend_stage [OF assms(1)]
  have "\<forall>yp. ui5Yaml paths = Some yp \<longrightarrow>
                  (\<exists>cfg. fs1 yp = Some (YamlFile (extended s cfg)))"
    by simp
  with assms(2) show ?thesis by simp
qed

lemma backend_stage_local:
  assumes "writeEDMX_backend paths s fs = (Inr (u, l), fs1)" "ui5Yaml paths \<noteq> None"
    "ui5LocalYaml paths = Some lp"
  shows "\<exists>cfg. fs1 lp = Some (YamlFile (extended s cfg))"
proof -
  from backend_stage [OF assms(1)]
  have n: "(l = None) = (ui5Yaml paths = None \<or> ui5LocalYaml paths = None)"
    and c: "\<forall>cfgl. l = Some cfgl \<longrightarrow>
                  (\<exists>lp cfg. ui5LocalYaml paths = Some lp \<and> fs1 lp = Some (YamlFile cfgl)
                      \<and> cfgl = extended s cfg)"
    by simp_all
  from n assms(2,3) obtain cfgl where "l = Some cfgl" by auto
  with c obtain lp' cfg where "ui5LocalYaml paths = Some lp'" "fs1 lp' = Some (YamlFile cfgl)"
    "cfgl = extended s cfg" by blast
  with assms(3) show ?thesis by auto
qed

lemma updatePackageJson_frame:
  "updatePackageJson pp h fs = (r, fs') \<Longrightarrow> p \<noteq> pp \<Longrightarrow> fs' p = fs p"
  by (auto simp: updatePackageJson_def io_bind_def io_read_def io_write_def io_throw_def
        write_file_def split: option.splits content.splits)

lemma annotationFile_xml: "xmlName (fileName (annotationFile b n a))"
  unfolding annotationFile_def
  using fileName_xml [of "[b, ''webapp'', ''localService'', n]" "js_string (an_technicalName a)"]
  by simp

lemma writeAnnotationFiles_frame:
  "\<not> xmlName (fileName p) \<Longrightarrow> writeAnnotationFiles b n as fs p = fs p"
proof (induction as arbitrary: fs)
  case Nil
  then show ?case by simp
next
  case (Cons a as)
  have "p \<noteq> annotationFile b n a"
    using Cons.prems annotationFile_xml [of b n a] by auto
  with Cons show ?case by (simp add: write_file_def)
qed

lemma no_metadata_tail:
  assumes nm: "\<not> truthy (sv_metadata s)"
    and np: "\<And>p. packageJson paths = Some p \<Longrightarrow> fileName p = ''package.json''"
    and nl: "\<And>p. ui5LocalYaml paths = Some p \<Longrightarrow> fileName p = ''ui5-local.yaml''"
    and run: "writeEDMXServiceFiles b paths tr s fs = (r, fs')"
  shows "\<exists>r1 fs1. writeEDMX_backend paths s fs = (r1, fs1)
           \<and> (\<forall>p. \<not> xmlName (fileName p) \<and> fileName p \<noteq> ''package.json'' \<longrightarrow> fs' p = fs1 p)
           \<and> (r = Inr () \<longrightarrow> (\<exists>u l. r1 = Inr (u, l)))"
proof -
  obtain r1 fs1 where st: "writeEDMX_backend paths s fs = (r1, fs1)"
    by (cases "writeEDMX_backend paths s fs")
  show ?thesis
  proof (cases r1)
    case (Inl e)
    with run st have "r = Inl e" "fs' = fs1"
      by (simp_all add: writeEDMXServiceFiles_def io_bind_def)
    with st show ?thesis by simp
  next
    case (Inr ul)
    obtain u l where ul: "ul = (u, l)" by (cases ul)
    define pk where "pk = (case (packageJson paths, ui5Yaml paths) of
                (Some packagePath, Some yamlPath) \<Rightarrow>
                  updatePackageJson packagePath (truthy (sv_metadata s))
              | _ \<Rightarrow> io_return ())"
    define lw where "lw = (\<lambda>l. case (ui5LocalYaml paths, l) of
                (Some localPath, Some cfg) \<Rightarrow> io_write localPath (toString cfg)
              | _ \<Rightarrow> io_return ())"
    have w: "writeEDMXServiceFiles b paths tr s =
       io_bind (writeEDMX_backend paths s) (\<lambda>(ui5Config, ui5LocalConfig0).
       io_bind (writeEDMX_metadata b paths tr s ui5Config ui5LocalConfig0)
         (\<lambda>ui5LocalConfig.
       io_bind pk (\<lambda>_.
       io_bind (lw ui5LocalConfig) (\<lambda>_.
       writeAnnotationXmlFiles b (nameOrMain s) (sv_annotations s)))))"
      unfolding writeEDMXServiceFiles_def pk_def lw_def by (rule refl)
    obtain r2 fs2 where p2: "pk fs1 = (r2, fs2)" by (cases "pk fs1")
    have f2: "fs2 p = fs1 p" if "fileName p \<noteq> ''package.json''" for p
    proof (cases "packageJson paths")
      case None
      with p2 show ?thesis by (simp add: pk_def io_return_def)
    next
      case (Some pp)
      with that np have "p \<noteq> pp" by auto
      with p2 Some show ?thesis
        by (cases "ui5Yaml paths") (auto simp: pk_def io_return_def dest: updatePackageJson_frame)
    qed
    from backend_stage [OF st] Inr ul
    have lfact: "\<forall>cfgl. l = Some cfgl \<longrightarrow>
                  (\<exists>lp. ui5LocalYaml paths = Some lp \<and> fs1 lp = Some (YamlFile cfgl))"
      by blast
    have f3: "lw l fs2 = (Inr (), fs2)"
    proof (cases l)
      case None
      then show ?thesis by (simp add: lw_def io_return_def split: option.splits)
    next
      case (Some cfgl)
      with lfact obtain lp where lp: "ui5LocalYaml paths = Some lp" "fs1 lp = Some (YamlFile cfgl)"
        by blast
      from nl [OF lp(1)] have "fileName lp \<noteq> ''package.json''" by simp
      with f2 lp(2) have "fs2 lp = Some (YamlFile cfgl)" by simp
      then have "fs2(lp \<mapsto> YamlFile cfgl) = fs2" by (rule map_upd_triv)
      with Some lp(1) show ?thesis
        by (simp add: lw_def io_write_def write_file_def toString_def)
    qed
    have fin: "\<forall>p. \<not> xmlName (fileName p) \<and> fileName p \<noteq> ''package.json'' \<longrightarrow> fs' p = fs1 p"
    proof (cases r2)
      case e: (Inl e)
      from run st Inr ul nm p2 have "fs' = fs2"
        unfolding w e by (simp add: writeEDMX_metadata_def io_bind_def io_return_def)
      with f2 show ?thesis by simp
    next
      case x: (Inr x)
      from run st Inr ul nm p2 f3 have "fs' = writeAnnotationFiles b (nameOrMain s)
                          (annotationList (sv_annotations s)) fs2"
        unfolding w x
        by (simp add: writeEDMX_metadata_def io_bind_def io_return_def writeAnnotationXmlFiles_def)
      with f2 show ?thesis by (simp add: writeAnnotationFiles_frame)
    qed
    with fin st Inr ul show ?thesis by auto
  qed
qed

lemma move_file_frame: "p \<noteq> src \<Longrightarrow> p \<noteq> dst \<Longrightarrow> move_file src dst fs p = fs p"
  by (simp add: move_file_def delete_file_def write_file_def split: option.splits)

lemma uri_xml:
  "flatMetadataUri = ''localService/metadata'' @ ''.xml''"
  "flatAnnotationUri a = (''localService/'' @ a) @ ''.xml''"
  "namespacedMetadataUri n = (''localService/'' @ n @ ''/metadata'') @ ''.xml''"
  "namespacedAnnotationUri n a = (''localService/'' @ n @ ''/'' @ a) @ ''.xml''"
  by (simp_all add: flatMetadataUri_def flatAnnotationUri_def namespacedMetadataUri_def
        namespacedAnnotationUri_def)

lemma webapp_xml: "xmlName (fileName (path_join [b, ''webapp'', x @ ''.xml'']))"
  using fileName_xml [of "[b, ''webapp'']" x] by simp

lemma migrateAnnotationFiles_frame:
  "\<not> xmlName (fileName p) \<Longrightarrow> migrateAnnotationFiles b n1 as fs p = fs p"
proof (induction as arbitrary: fs)
  case Nil
  then show ?case by simp
next
  case (Cons a as)
  have "p \<noteq> path_join [b, ''webapp'', flatAnnotationUri a]"
       "p \<noteq> path_join [b, ''webapp'', namespacedAnnotationUri n1 a]"
    using Cons.prems webapp_xml unfolding uri_xml by metis+
  with Cons show ?case by (simp add: move_file_frame)
qed

lemma migrateFiles_frame:
  "\<not> xmlName (fileName p) \<Longrightarrow> migrateFiles b n1 as fs p = fs p"
proof -
  assume a: "\<not> xmlName (fileName p)"
  have "p \<noteq> path_join [b, ''webapp'', flatMetadataUri]"
       "p \<noteq> path_join [b, ''webapp'', namespacedMetadataUri n1]"
    using a webapp_xml unfolding uri_xml by metis+
  with a show ?thesis
    by (simp add: migrateFiles_def migrateAnnotationFiles_frame move_file_frame)
qed

lemma manifestPath_name: "fileName (manifestPathOf b) = ''manifest.json''"
  by (simp add: manifestPathOf_def fileName_fixed)

lemma updateManifest_frame:
  assumes "updateManifest b s fs = (r, fs1)" "\<not> xmlName (fileName p)"
    "fileName p \<noteq> ''manifest.json''"
  shows "fs1 p = fs p"
proof -
  have ne: "p \<noteq> manifestPathOf b"
    using assms(3) manifestPath_name by auto
  show ?thesis
    using assms(1,2) ne
    by (auto simp: updateManifest_def readManifest_def Let_def write_file_def
          migrateFiles_frame
          split: option.splits content.splits prod.splits)
qed

lemma enhanceData_keeps:
  "enhanceData b s fs = Inr s' \<Longrightarrow>
     sv_metadata s' = sv_metadata s \<and> sv_type s' = Some (case sv_type s of Some t \<Rightarrow> t | None \<Rightarrow> EDMX)
     \<and> sv_version s' = sv_version s \<and> sv_url s' = sv_url s
     \<and> sv_localAnnotationsName s' = sv_localAnnotationsName s
     \<and> sv_ignoreCertError s' = sv_ignoreCertError s"
  by (auto simp: enhanceData_def Let_def split: sum.splits)

lemma standard_ok: "fst (generate noCds ''/p'' northwind (Some standardProject)) = Inr ()"
  by code_simp

lemma standard_yaml:
  "snd (generate noCds ''/p'' northwind (Some standardProject)) ''/p/ui5.yaml'' =
     Some (YamlFile
       \<lparr>cf_proxy = Some \<lparr>px_backend =
           [\<lparr>be_path = Some ''/V2'', be_url = Some ''https://services.odata.org'',
             be_client = None, be_destination = None, be_apiHub = None, be_scp = None,
             be_pathPrefix = None\<rparr>],
           px_ignoreCertError = Some False\<rparr>,
        cf_mockserver = None, cf_other = []\<rparr>)"
  by code_simp

lemma standard_before:
  "standardProject ''/p/ui5.yaml'' =
     Some (YamlFile \<lparr>cf_proxy = Some \<lparr>px_backend = [], px_ignoreCertError = Some False\<rparr>,
                     cf_mockserver = None, cf_other = []\<rparr>)"
  by (simp add: standardProject_def proxyOnly_def)

lemma standard_names: "fileName ''/p/ui5-mock.yaml'' = ''ui5-mock.yaml''"
  by (simp add: fileName_def sep_def)

section \<open>Frames of the computations\<close>

lemma io_frameD: "io_frame W m \<Longrightarrow> m fs = (r, fs') \<Longrightarrow> \<not> W p \<Longrightarrow> fs' p = fs p"
  by (auto simp: io_frame_def dest: spec [of _ fs])

lemma io_growsD: "io_grows m \<Longrightarrow> m fs = (r, fs') \<Longrightarrow> fs p \<noteq> None \<Longrightarrow> fs' p \<noteq> None"
  by (auto simp: io_grows_def dest: spec [of _ fs])

lemma io_frame_return: "io_frame W (io_return a)"
  by (simp add: io_frame_def io_return_def)

lemma io_frame_throw: "io_frame W (io_throw e)"
  by (simp add: io_frame_def io_throw_def)

lemma io_frame_bind:
  assumes "io_frame W m" "\<And>a. io_frame W (f a)"
  shows "io_frame W (io_bind m f)"
  unfolding io_frame_def
proof (intro allI impI)
  fix fs p assume w: "\<not> W p"
  obtain r fs1 where m: "m fs = (r, fs1)" by (cases "m fs")
  from io_frameD [OF assms(1) m w] have 1: "fs1 p = fs p" .
  show "snd (io_bind m f fs) p = fs p"
  proof (cases r)
    case (Inl e)
    with m 1 show ?thesis by (simp add: io_bind_def)
  next
    case (Inr a)
    obtain r2 fs2 where f: "f a fs1 = (r2, fs2)" by (cases "f a fs1")
    from io_frameD [OF assms(2) f w] 1 m Inr f show ?thesis by (simp add: io_bind_def)
  qed
qed

lemma io_frame_write: "W p \<Longrightarrow> io_frame W (io_write p c)"
  by (auto simp: io_frame_def io_write_def write_file_def)

lemma io_frame_read: "io_frame W (io_read p)"
  by (simp add: io_frame_def io_read_def split: option.splits)

lemma io_frame_pure: "(\<And>fs. snd (m fs) = fs) \<Longrightarrow> io_frame W m"
  by (simp add: io_frame_def)

lemma io_grows_return: "io_grows (io_return a)"
  by (simp add: io_grows_def io_return_def)

lemma io_grows_throw: "io_grows (io_throw e)"
  by (simp add: io_grows_def io_throw_def)

lemma io_grows_bind:
  assumes "io_grows m" "\<And>a. io_grows (f a)"
  shows "io_grows (io_bind m f)"
  unfolding io_grows_def
proof (intro allI impI)
  fix fs :: Editor and p assume w: "fs p \<noteq> None"
  obtain r fs1 where m: "m fs = (r, fs1)" by (cases "m fs")
  from io_growsD [OF assms(1) m w] have 1: "fs1 p \<noteq> None" .
  show "snd (io_bind m f fs) p \<noteq> None"
  proof (cases r)
    case (Inl e)
    with m 1 show ?thesis by (simp add: io_bind_def)
  next
    case (Inr a)
    obtain r2 fs2 where f: "f a fs1 = (r2, fs2)" by (cases "f a fs1")
    from io_growsD [OF assms(2) f 1] m Inr f show ?thesis by (simp add: io_bind_def)
  qed
qed

lemma io_grows_write: "io_grows (io_write p c)"
  by (auto simp: io_grows_def io_write_def write_file_def)

lemma io_grows_read: "io_grows (io_read p)"
  by (simp add: io_grows_def io_read_def split: option.splits)

lemma io_grows_pure: "(\<And>fs. snd (m fs) = fs) \<Longrightarrow> io_grows m"
  by (simp add: io_grows_def)

lemmas io_frame_intros = io_frame_return io_frame_throw io_frame_bind io_frame_write io_frame_read
lemmas io_grows_intros = io_grows_return io_grows_throw io_grows_bind io_grows_write io_grows_read

lemma readConfig_frame: "io_frame W (readConfig p)"
  unfolding readConfig_def
  by (intro io_frame_intros) (auto split: sum.splits intro: io_frame_intros)

lemma readConfig_grows: "io_grows (readConfig p)"
  unfolding readConfig_def
  by (intro io_grows_intros) (auto split: sum.splits intro: io_grows_intros)

lemma extend_frame: "W p \<Longrightarrow> io_frame W (extendBackendMiddleware s cfg p)"
  by (simp add: io_frame_def extendBackendMiddleware_eq)

lemma extend_grows: "io_grows (extendBackendMiddleware s cfg p)"
  by (simp add: io_grows_def extendBackendMiddleware_eq)

lemma backend_frame:
  assumes "\<And>p. ui5Yaml paths = Some p \<Longrightarrow> W p" "\<And>p. ui5LocalYaml paths = Some p \<Longrightarrow> W p"
  shows "io_frame W (writeEDMX_backend paths s)"
proof (cases "ui5Yaml paths")
  case None
  then show ?thesis by (simp add: writeEDMX_backend_def io_frame_return)
next
  case (Some yp)
  note y = assms(1) [OF Some]
  show ?thesis
  proof (cases "ui5LocalYaml paths")
    case None
    with Some y show ?thesis
      unfolding writeEDMX_backend_def
      by (auto intro!: io_frame_intros readConfig_frame extend_frame)
  next
    case l: (Some lp)
    note l' = assms(2) [OF l]
    from Some l y l' show ?thesis
      unfolding writeEDMX_backend_def
      by (auto intro!: io_frame_intros readConfig_frame extend_frame)
  qed
qed

lemma backend_grows: "io_grows (writeEDMX_backend paths s)"
  unfolding writeEDMX_backend_def
  by (auto split: option.splits intro!: io_grows_intros readConfig_grows extend_grows)

lemma readManifest_frame: "io_frame W (readManifest p)"
  by (rule io_frame_pure) (simp add: readManifest_def split: option.splits content.splits)

lemma readManifest_grows: "io_grows (readManifest p)"
  by (rule io_grows_pure) (simp add: readManifest_def split: option.splits content.splits)

lemma mockConfig_frame:
  "W (path_join [b, ''ui5-mock.yaml'']) \<Longrightarrow> io_frame W (generateMockserverConfig b w)"
  unfolding generateMockserverConfig_def
  by (intro io_frame_intros readManifest_frame io_frame_pure) (auto split: option.splits)

lemma mockConfig_grows: "io_grows (generateMockserverConfig b w)"
  unfolding generateMockserverConfig_def
  by (intro io_grows_intros readManifest_grows io_grows_pure) (auto split: option.splits)

lemma mockMiddleware_frame:
  "io_frame W (generateMockserverMiddlewareBasedOnUi5MockYaml y lp l)"
  unfolding generateMockserverMiddlewareBasedOnUi5MockYaml_def Let_def
  by (intro io_frame_intros readConfig_frame io_frame_pure)
     (auto split: option.splits prod.splits)

lemma mockMiddleware_grows:
  "io_grows (generateMockserverMiddlewareBasedOnUi5MockYaml y lp l)"
  unfolding generateMockserverMiddlewareBasedOnUi5MockYaml_def Let_def
  by (intro io_grows_intros readConfig_grows io_grows_pure)
     (auto split: option.splits prod.splits)

lemma localFiles_frame:
  assumes "\<And>p. xmlName (fileName p) \<Longrightarrow> W p"
  shows "io_frame W (writeLocalServiceFiles b w tr s)"
proof -
  have 1: "W (path_join [w, ''localService'', nameOrMain s, ''metadata.xml''])"
    using fileName_xml [of "[w, ''localService'', nameOrMain s]" "''metadata''"]
    by (intro assms) simp
  have 2: "W (path_join [b, ''webapp'', ''annotations'',
                                 js_string (sv_localAnnotationsName s) @ ''.xml''])"
    using fileName_xml [of "[b, ''webapp'', ''annotations'']" "js_string (sv_localAnnotationsName s)"]
    by (intro assms) simp
  show ?thesis
    unfolding writeLocalServiceFiles_def
    by (auto intro!: io_frame_intros 1 2)
qed

lemma localFiles_grows: "io_grows (writeLocalServiceFiles b w tr s)"
  unfolding writeLocalServiceFiles_def
  by (auto intro!: io_grows_intros)

lemma packageJson_frame: "W pp \<Longrightarrow> io_frame W (updatePackageJson pp h)"
  unfolding updatePackageJson_def
  by (intro io_frame_intros) (auto split: content.splits intro: io_frame_intros)

lemma packageJson_grows: "io_grows (updatePackageJson pp h)"
  unfolding updatePackageJson_def
  by (intro io_grows_intros) (auto split: content.splits intro: io_grows_intros)

lemma annotationXml_frame:
  assumes "\<And>p. xmlName (fileName p) \<Longrightarrow> W p"
  shows "io_frame W (writeAnnotationXmlFiles b n as)"
  unfolding io_frame_def writeAnnotationXmlFiles_def
proof (intro allI impI)
  fix fs :: Editor and p assume "\<not> W p"
  with assms have "\<not> xmlName (fileName p)" by blast
  then show "snd (Inr (), writeAnnotationFiles b n (annotationList as) fs) p = fs p"
    by (simp add: writeAnnotationFiles_frame)
qed

lemma writeAnnotationFiles_grows:
  "fs p \<noteq> None \<Longrightarrow> writeAnnotationFiles b n as fs p \<noteq> None"
  by (induction as arbitrary: fs) (auto simp: write_file_def)

lemma annotationXml_grows: "io_grows (writeAnnotationXmlFiles b n as)"
  by (simp add: io_grows_def writeAnnotationXmlFiles_def writeAnnotationFiles_grows)


lemma edmxWritten_fixed:
  "fileName p = ''package.json'' \<Longrightarrow> edmxWritten p"
  "fileName p = ''ui5.yaml'' \<Longrightarrow> edmxWritten p"
  "fileName p = ''ui5-local.yaml'' \<Longrightarrow> edmxWritten p"
  "fileName p = ''ui5-mock.yaml'' \<Longrightarrow> edmxWritten p"
  "xmlName (fileName p) \<Longrightarrow> edmxWritten p"
  by (simp_all add: edmxWritten_def)

lemma metadata_frame:
  assumes "\<And>p. ui5MockYaml paths = Some p \<Longrightarrow> fileName p = ''ui5-mock.yaml''"
  shows "io_frame edmxWritten (writeEDMX_metadata b paths tr s u l)"
proof (cases "truthy (sv_metadata s)")
  case False
  then show ?thesis by (simp add: writeEDMX_metadata_def io_frame_return)
next
  case True
  have m: "edmxWritten (path_join [b, ''ui5-mock.yaml''])"
    by (simp add: edmxWritten_def fileName_fixed)
  have mp: "edmxWritten p" if "ui5MockYaml paths = Some p" for p
    using assms [OF that] by (simp add: edmxWritten_def)
  have e: "writeEDMX_metadata b paths tr s u l =
       io_bind
                 (case (ui5Yaml paths, u) of
                    (Some yamlPath, Some cfg) \<Rightarrow>
                      io_bind (generateMockserverConfig b (path_join [b, ''webapp''])) (\<lambda>_.
                      io_bind (generateMockserverMiddlewareBasedOnUi5MockYaml yamlPath
                                 (ui5LocalYaml paths) l) (\<lambda>ui5LocalConfig'.
                        case ui5MockYaml paths of
                          None \<Rightarrow> io_return ui5LocalConfig'
                        | Some mockPath \<Rightarrow>
                            io_bind (readConfig mockPath) (\<lambda>parsedMock.
                            io_bind (extendBackendMiddleware s parsedMock mockPath)
                              (\<lambda>ui5MockConfig. io_return ui5LocalConfig'))))
                  | _ \<Rightarrow> io_return l)
                 (\<lambda>ui5LocalConfig'.
                    io_bind (writeLocalServiceFiles b (path_join [b, ''webapp'']) tr s)
                      (\<lambda>_. io_return ui5LocalConfig'))"
    using True by (simp add: writeEDMX_metadata_def getWebappPath_def Let_def)
  show ?thesis
    unfolding e
    apply (rule io_frame_bind)
     apply (cases "ui5Yaml paths"; cases u; cases "ui5MockYaml paths")
            apply (auto intro!: io_frame_intros mockConfig_frame mockMiddleware_frame m
                 readConfig_frame extend_frame mp localFiles_frame [OF edmxWritten_fixed(5)])
    done
qed

lemma metadata_grows: "io_grows (writeEDMX_metadata b paths tr s u l)"
proof (cases "truthy (sv_metadata s)")
  case False
  then show ?thesis by (simp add: writeEDMX_metadata_def io_grows_return)
next
  case True
  have e: "writeEDMX_metadata b paths tr s u l =
       io_bind
                 (case (ui5Yaml paths, u) of
                    (Some yamlPath, Some cfg) \<Rightarrow>
                      io_bind (generateMockserverConfig b (path_join [b, ''webapp''])) (\<lambda>_.
                      io_bind (generateMockserverMiddlewareBasedOnUi5MockYaml yamlPath
                                 (ui5LocalYaml paths) l) (\<lambda>ui5LocalConfig'.
                        case ui5MockYaml paths of
                          None \<Rightarrow> io_return ui5LocalConfig'
                        | Some mockPath \<Rightarrow>
                            io_bind (readConfig mockPath) (\<lambda>parsedMock.
                            io_bind (extendBackendMiddleware s parsedMock mockPath)
                              (\<lambda>ui5MockConfig. io_return ui5LocalConfig'))))
                  | _ \<Rightarrow> io_return l)
                 (\<lambda>ui5LocalConfig'.
                    io_bind (writeLocalServiceFiles b (path_join [b, ''webapp'']) tr s)
                      (\<lambda>_. io_return ui5LocalConfig'))"
    using True by (simp add: writeEDMX_metadata_def getWebappPath_def Let_def)
  show ?thesis
    unfolding e
    apply (rule io_grows_bind)
     apply (cases "ui5Yaml paths"; cases u; cases "ui5MockYaml paths")
            apply (auto intro!: io_grows_intros mockConfig_grows mockMiddleware_grows
                 readConfig_grows extend_grows localFiles_grows)
    done
qed

lemma writeEDMX_frame:
  assumes "\<And>p. packageJson paths = Some p \<Longrightarrow> fileName p = ''package.json''"
    "\<And>p. ui5Yaml paths = Some p \<Longrightarrow> fileName p = ''ui5.yaml''"
    "\<And>p. ui5LocalYaml paths = Some p \<Longrightarrow> fileName p = ''ui5-local.yaml''"
    "\<And>p. ui5MockYaml paths = Some p \<Longrightarrow> fileName p = ''ui5-mock.yaml''"
  shows "io_frame edmxWritten (writeEDMXServiceFiles b paths tr s)"
proof -
  have pk: "io_frame edmxWritten (case (packageJson paths, ui5Yaml paths) of
                (Some packagePath, Some yamlPath) \<Rightarrow>
                  updatePackageJson packagePath (truthy (sv_metadata s))
              | _ \<Rightarrow> io_return ())"
    using assms(1)
    by (cases "packageJson paths"; cases "ui5Yaml paths")
       (auto intro!: io_frame_intros packageJson_frame edmxWritten_fixed(1))
  have lw: "io_frame edmxWritten (case (ui5LocalYaml paths, l) of
                (Some localPath, Some cfg) \<Rightarrow> io_write localPath (toString cfg)
              | _ \<Rightarrow> io_return ())" for l
    using assms(3)
    by (cases "ui5LocalYaml paths"; cases l)
       (auto intro!: io_frame_intros edmxWritten_fixed(3))
  have bk: "io_frame edmxWritten (writeEDMX_backend paths s)"
    by (rule backend_frame) (auto dest: assms(2,3) intro: edmxWritten_fixed)
  have rest: "io_frame edmxWritten
       (io_bind (case (packageJson paths, ui5Yaml paths) of
                (Some packagePath, Some yamlPath) \<Rightarrow>
                  updatePackageJson packagePath (truthy (sv_metadata s))
              | _ \<Rightarrow> io_return ()) (\<lambda>_.
     io_bind (case (ui5LocalYaml paths, l) of
                (Some localPath, Some cfg) \<Rightarrow> io_write localPath (toString cfg)
              | _ \<Rightarrow> io_return ()) (\<lambda>_.
     writeAnnotationXmlFiles b (nameOrMain s) (sv_annotations s))))" for l
    by (intro io_frame_bind pk lw annotationXml_frame [OF edmxWritten_fixed(5)])
  have mid: "io_frame edmxWritten
     (case ul of (ui5Config, ui5LocalConfig0) \<Rightarrow>
     io_bind (writeEDMX_metadata b paths tr s ui5Config ui5LocalConfig0)
       (\<lambda>ui5LocalConfig.
     io_bind (case (packageJson paths, ui5Yaml paths) of
                (Some packagePath, Some yamlPath) \<Rightarrow>
                  updatePackageJson packagePath (truthy (sv_metadata s))
              | _ \<Rightarrow> io_return ()) (\<lambda>_.
     io_bind (case (ui5LocalYaml paths, ui5LocalConfig) of
                (Some localPath, Some cfg) \<Rightarrow> io_write localPath (toString cfg)
              | _ \<Rightarrow> io_return ()) (\<lambda>_.
     writeAnnotationXmlFiles b (nameOrMain s) (sv_annotations s)))))" for ul
  proof (cases ul)
    case (Pair u l0)
    show ?thesis
      unfolding Pair prod.case
      by (rule io_frame_bind [OF metadata_frame [OF assms(4)] rest [unfolded prod.case]])
  qed
  show ?thesis
    unfolding writeEDMXServiceFiles_def
    by (rule io_frame_bind [OF bk mid])
qed

lemma writeEDMX_grows: "io_grows (writeEDMXServiceFiles b paths tr s)"
proof -
  have pk: "io_grows (case (packageJson paths, ui5Yaml paths) of
                (Some packagePath, Some yamlPath) \<Rightarrow>
                  updatePackageJson packagePath (truthy (sv_metadata s))
              | _ \<Rightarrow> io_return ())"
    by (cases "packageJson paths"; cases "ui5Yaml paths")
       (auto intro!: io_grows_intros packageJson_grows)
  have lw: "io_grows (case (ui5LocalYaml paths, l) of
                (Some localPath, Some cfg) \<Rightarrow> io_write localPath (toString cfg)
              | _ \<Rightarrow> io_return ())" for l
    by (cases "ui5LocalYaml paths"; cases l) (auto intro!: io_grows_intros)
  have rest: "io_grows
       (io_bind (case (packageJson paths, ui5Yaml paths) of
                (Some packagePath, Some yamlPath) \<Rightarrow>
                  updatePackageJson packagePath (truthy (sv_metadata s))
              | _ \<Rightarrow> io_return ()) (\<lambda>_.
     io_bind (case (ui5LocalYaml paths, l) of
                (Some localPath, Some cfg) \<Rightarrow> io_write localPath (toString cfg)
              | _ \<Rightarrow> io_return ()) (\<lambda>_.
     writeAnnotationXmlFiles b (nameOrMain s) (sv_annotations s))))" for l
    by (intro io_grows_bind pk lw annotationXml_grows)
  have mid: "io_grows
     (case ul of (ui5Config, ui5LocalConfig0) \<Rightarrow>
     io_bind (writeEDMX_metadata b paths tr s ui5Config ui5LocalConfig0)
       (\<lambda>ui5LocalConfig.
     io_bind (case (packageJson paths, ui5Yaml paths) of
                (Some packagePath, Some yamlPath) \<Rightarrow>
                  updatePackageJson packagePath (truthy (sv_metadata s))
              | _ \<Rightarrow> io_return ()) (\<lambda>_.
     io_bind (case (ui5LocalYaml paths, ui5LocalConfig) of
                (Some localPath, Some cfg) \<Rightarrow> io_write localPath (toString cfg)
              | _ \<Rightarrow> io_return ()) (\<lambda>_.
     writeAnnotationXmlFiles b (nameOrMain s) (sv_annotations s)))))" for ul
  proof (cases ul)
    case (Pair u l0)
    show ?thesis
      unfolding Pair prod.case
      by (rule io_grows_bind [OF metadata_grows rest [unfolded prod.case]])
  qed
  show ?thesis
    unfolding writeEDMXServiceFiles_def
    by (rule io_grows_bind [OF backend_grows mid])
qed

lemma generate_decompose:
  assumes run: "generate cds b service (Some fs) = (r, fs')"
    and ty: "sv_type service \<noteq> Some CDS"
  shows "(\<exists>e. r = Inl e \<and> fs' = fs)
       \<or> (\<exists>s' e fsm. enhanceData b service fs = Inr s'
              \<and> updateManifest b s' fs = (Inl e, fsm) \<and> r = Inl e \<and> fs' = fsm)
       \<or> (\<exists>s' fsm. enhanceData b service fs = Inr s' \<and> sv_type s' = Some EDMX
              \<and> exists_file fs (path_join [b, ''webapp/manifest.json''])
              \<and> updateManifest b s' fs = (Inr (), fsm)
              \<and> writeEDMXServiceFiles b (findProjectFiles b fs)
                    (path_join [moduleDirname, ''../templates'']) s' fsm = (r, fs'))"
proof (cases "ensureExists b [''webapp/manifest.json''] fs")
  case (Some e)
  with run have "r = Inl e \<and> fs' = fs" by (simp add: generate_def Let_def)
  then show ?thesis by blast
next
  case None
  then have ex: "exists_file fs (path_join [b, ''webapp/manifest.json''])"
    by (simp split: if_splits)
  show ?thesis
  proof (cases "enhanceData b service fs")
    case (Inl e)
    with run None have "r = Inl e \<and> fs' = fs" by (simp add: generate_def Let_def)
    then show ?thesis by blast
  next
    case (Inr s')
    from enhanceData_keeps [OF Inr] ty have t: "sv_type s' = Some EDMX"
      by (cases "sv_type service"; cases "the (sv_type service)"; simp)
    obtain r0 fsm where um: "updateManifest b s' fs = (r0, fsm)"
      by (cases "updateManifest b s' fs")
    show ?thesis
    proof (cases r0)
      case e: (Inl e)
      with run None Inr um have "r = Inl e \<and> fs' = fsm"
        by (simp add: generate_def Let_def io_bind_def)
      with Inr um e show ?thesis by blast
    next
      case x: (Inr x)
      with run None Inr um t
      have "writeEDMXServiceFiles b (findProjectFiles b fs)
                   (path_join [moduleDirname, ''../templates'']) s' fsm = (r, fs')"
        by (simp add: generate_def Let_def io_bind_def)
      with Inr um x t ex show ?thesis by simp
    qed
  qed
qed

section \<open>Properties of removal\<close>















section \<open>Properties of the merge into the manifest\<close>

lemma updateManifest_ok:
  assumes "updateManifest b s fs = (Inr (), fsm)"
  shows "\<exists>m. fs (manifestPathOf b) = Some (ManifestFile m) \<and> mf_id m \<noteq> None
           \<and> fsm (manifestPathOf b) =
               Some (ManifestFile
                 (m\<lparr>mf_dataSources := mergeService s (migratedTable (mf_dataSources m)),
                    mf_models := bindModel (js_string (sv_model s)) (nameOrMain s) (mf_models m)\<rparr>))"
  using assms
  by (auto simp: updateManifest_def readManifest_def Let_def write_file_def migratedTable_def
        nameOrMain_def split: option.splits content.splits prod.splits)

lemma updateManifest_runs:
  assumes "fs (manifestPathOf b) = Some (ManifestFile m)" "mf_id m \<noteq> None"
  shows "\<exists>fsm. updateManifest b s fs = (Inr (), fsm)"
  using assms
  by (auto simp: updateManifest_def readManifest_def Let_def split: option.splits)

lemma enhanceData_runs:
  assumes "fs (manifestPathOf b) = Some (ManifestFile m)"
  shows "\<exists>s'. enhanceData b service fs = Inr s'"
  using assms by (simp add: enhanceData_def manifestIfPresent_def Let_def)

lemma generate_manifest:
  assumes run: "generate cds b service (Some fs) = (r, fs')"
    and ty: "sv_type service \<noteq> Some CDS"
    and e: "enhanceData b service fs = Inr s'"
    and u: "updateManifest b s' fs = (Inr (), fsm)"
  shows "writeEDMXServiceFiles b (findProjectFiles b fs)
           (path_join [moduleDirname, ''../templates'']) s' fsm = (r, fs')"
    and "fs' (manifestPathOf b) = fsm (manifestPathOf b)"
proof -
  from updateManifest_ok [OF u] have "exists_file fs (manifestPathOf b)"
    by (auto simp: exists_file_def)
  then have ex: "ensureExists b [''webapp/manifest.json''] fs = None"
    by (simp add: manifest_path_eq)
  from enhanceData_keeps [OF e] ty have t: "sv_type s' = Some EDMX"
    by (cases "sv_type service"; cases "the (sv_type service)"; simp)
  from run ex e u t
  show w: "writeEDMXServiceFiles b (findProjectFiles b fs)
           (path_join [moduleDirname, ''../templates'']) s' fsm = (r, fs')"
    by (simp add: generate_def Let_def io_bind_def)
  have "\<not> edmxWritten (manifestPathOf b)"
    by (simp add: edmxWritten_def manifestPath_name xmlName_fixed)
  moreover have "io_frame edmxWritten (writeEDMXServiceFiles b (findProjectFiles b fs)
           (path_join [moduleDirname, ''../templates'']) s')"
    by (rule writeEDMX_frame) (rule findProjectFiles_names, assumption)+
  ultimately show "fs' (manifestPathOf b) = fsm (manifestPathOf b)"
    using w by (rule io_frameD [rotated 2])
qed

lemma map_of_insertAnnotations:
  "k \<notin> set ks \<Longrightarrow> map_of (insertAnnotations n ks t) k = map_of t k"
  by (induction ks arbitrary: t) (auto simp: update_conv')


lemma annotationKey_enhance:
  "annotationKey (enhanceAnnotation keys nm a) = map_option (disambiguate keys nm) (annotationKey a)"
  by (simp add: annotationKey_def enhanceAnnotation_def split: option.splits)

lemma annotationList_enhance:
  "annotationList (map_option (enhanceAnnotations keys nm) as) =
     map (enhanceAnnotation keys nm) (annotationList as)"
  by (cases as rule: annotationList.cases) simp_all

lemma annotationKeys_enhance:
  "annotationKeys (map_option (enhanceAnnotations keys nm) as) =
     map (disambiguate keys nm) (annotationKeys as)"
proof -
  have "List.map_filter annotationKey (map (enhanceAnnotation keys nm) xs) =
          map (disambiguate keys nm) (List.map_filter annotationKey xs)" for xs
    by (induction xs) (auto simp: map_filter_simps annotationKey_enhance split: option.splits)
  then show ?thesis
    by (simp add: annotationKeys_def annotationList_enhance)
qed

lemma enhanceData_fields:
  assumes "enhanceData b service fs = Inr s'" "fs (manifestPathOf b) = Some (ManifestFile m)"
  shows "sv_name s' = (if mf_dataSources m = [] then Some ''mainService'' else sv_name service)"
    and "sv_path s' = Some (case sv_path service of
                         None \<Rightarrow> ''/''
                       | Some p \<Rightarrow> (if endsWith p ''/'' then p else p @ ''/''))"
    and "sv_annotations s' =
           map_option (enhanceAnnotations (map fst (mf_dataSources m)) (sv_name s'))
             (sv_annotations service)"
  using assms by (auto simp: enhanceData_def manifestIfPresent_def Let_def)

lemma disambiguate_own:
  "disambiguate [] (Some n) x \<noteq> n" "n \<noteq> disambiguate [] (Some n) x"
  by (auto simp: disambiguate_def collides_def)

lemma endsWith_slash: "endsWith (q @ ''/'') ''/''"
  by (simp add: endsWith_def)

lemma mergeService_own:
  assumes "nameOrMain s \<notin> set (annotationKeys (sv_annotations s))"
  shows "\<exists>ds. map_of (mergeService s table) (nameOrMain s) = Some ds
           \<and> ds_uri ds = js_string (sv_path s) \<and> ds_type ds = OData
           \<and> ds_localUri ds = Some (namespacedMetadataUri (nameOrMain s))"
  using assms
  by (simp add: mergeService_def Let_def nameOrMain_def [symmetric] map_of_insertAnnotations
        update_conv' del: nameOrMain_def)

lemma northwind_slash: "\<not> endsWith ''/V2/Northwind/Northwind.svc'' ''/''"
  by (simp add: endsWith_def)

lemma standard_manifest:
  "standardProject (path_join [''/p'', ''webapp/manifest.json'']) = Some (ManifestFile testManifest)"
  by code_simp









section \<open>Properties of the layout migration\<close>









lemma io_bind_Inr:
  "io_bind m f fs = (Inr x, fs') \<Longrightarrow> \<exists>a fs1. m fs = (Inr a, fs1) \<and> f a fs1 = (Inr x, fs')"
  by (auto simp: io_bind_def split: prod.splits sum.splits)

lemma localFiles_written:
  "writeLocalServiceFiles b w tr s fs = (r, fs')
     \<Longrightarrow> fs' (path_join [w, ''localService'', nameOrMain s, ''metadata.xml'']) \<noteq> None"
  by (auto simp: writeLocalServiceFiles_def io_bind_def io_write_def write_file_def io_return_def
        split: if_splits)

lemma metadata_written:
  assumes "truthy (sv_metadata s)" "writeEDMX_metadata b paths tr s u l fs = (Inr l', fs1)"
  shows "fs1 (path_join [path_join [b, ''webapp''], ''localService'', nameOrMain s,
                         ''metadata.xml'']) \<noteq> None"
proof -
  define pre where "pre = (case (ui5Yaml paths, u) of
                    (Some yamlPath, Some cfg) \<Rightarrow>
                      io_bind (generateMockserverConfig b (path_join [b, ''webapp''])) (\<lambda>_.
                      io_bind (generateMockserverMiddlewareBasedOnUi5MockYaml yamlPath
                                 (ui5LocalYaml paths) l) (\<lambda>ui5LocalConfig'.
                        case ui5MockYaml paths of
                          None \<Rightarrow> io_return ui5LocalConfig'
                        | Some mockPath \<Rightarrow>
                            io_bind (readConfig mockPath) (\<lambda>parsedMock.
                            io_bind (extendBackendMiddleware s parsedMock mockPath)
                              (\<lambda>ui5MockConfig. io_return ui5LocalConfig'))))
                  | _ \<Rightarrow> io_return l)"
  have e: "writeEDMX_metadata b paths tr s u l =
       io_bind pre
                 (\<lambda>ui5LocalConfig'.
                    io_bind (writeLocalServiceFiles b (path_join [b, ''webapp'']) tr s)
                      (\<lambda>_. io_return ui5LocalConfig'))"
    using assms(1) by (simp add: writeEDMX_metadata_def getWebappPath_def Let_def pre_def)
  from assms(2) [unfolded e] io_bind_Inr
  obtain a fsA where "io_bind (writeLocalServiceFiles b (path_join [b, ''webapp'']) tr s)
                      (\<lambda>_. io_return a) fsA = (Inr l', fs1)"
    by meson
  from io_bind_Inr [OF this]
  obtain x fsB where w: "writeLocalServiceFiles b (path_join [b, ''webapp'']) tr s fsA = (Inr x, fsB)"
    and "io_return a fsB = (Inr l', fs1)"
    by blast
  then have "fs1 = fsB" by (simp add: io_return_def)
  with localFiles_written [OF w] show ?thesis by simp
qed

lemma writeEDMX_tail_grows:
  "io_grows
       (io_bind (case (packageJson paths, ui5Yaml paths) of
                (Some packagePath, Some yamlPath) \<Rightarrow>
                  updatePackageJson packagePath (truthy (sv_metadata s))
              | _ \<Rightarrow> io_return ()) (\<lambda>_.
     io_bind (case (ui5LocalYaml paths, l) of
                (Some localPath, Some cfg) \<Rightarrow> io_write localPath (toString cfg)
              | _ \<Rightarrow> io_return ()) (\<lambda>_.
     writeAnnotationXmlFiles b (nameOrMain s) (sv_annotations s))))"
proof -
  have pk: "io_grows (case (packageJson paths, ui5Yaml paths) of
                (Some packagePath, Some yamlPath) \<Rightarrow>
                  updatePackageJson packagePath (truthy (sv_metadata s))
              | _ \<Rightarrow> io_return ())"
    by (cases "packageJson paths"; cases "ui5Yaml paths")
       (auto intro!: io_grows_intros packageJson_grows)
  have lw: "io_grows (case (ui5LocalYaml paths, l) of
                (Some localPath, Some cfg) \<Rightarrow> io_write localPath (toString cfg)
              | _ \<Rightarrow> io_return ())"
    by (cases "ui5LocalYaml paths"; cases l) (auto intro!: io_grows_intros)
  show ?thesis
    by (intro io_grows_bind pk lw annotationXml_grows)
qed

lemma writeEDMX_metadata_file:
  assumes "writeEDMXServiceFiles b paths tr s fs = (Inr (), fs')" "truthy (sv_metadata s)"
  shows "fs' (path_join [path_join [b, ''webapp''], ''localService'', nameOrMain s,
                         ''metadata.xml'']) \<noteq> None"
proof -
  from io_bind_Inr [OF assms(1) [unfolded writeEDMXServiceFiles_def]]
  obtain ul fs1 where r: "(case ul of (ui5Config, ui5LocalConfig0) \<Rightarrow>
     io_bind (writeEDMX_metadata b paths tr s ui5Config ui5LocalConfig0)
       (\<lambda>ui5LocalConfig.
     io_bind (case (packageJson paths, ui5Yaml paths) of
                (Some packagePath, Some yamlPath) \<Rightarrow>
                  updatePackageJson packagePath (truthy (sv_metadata s))
              | _ \<Rightarrow> io_return ()) (\<lambda>_.
     io_bind (case (ui5LocalYaml paths, ui5LocalConfig) of
                (Some localPath, Some cfg) \<Rightarrow> io_write localPath (toString cfg)
              | _ \<Rightarrow> io_return ()) (\<lambda>_.
     writeAnnotationXmlFiles b (nameOrMain s) (sv_annotations s))))) fs1 = (Inr (), fs')"
    by blast
  obtain u l where ul: "ul = (u, l)" by (cases ul)
  from io_bind_Inr [OF r [unfolded ul prod.case]]
  obtain l' fs2 where md: "writeEDMX_metadata b paths tr s u l fs1 = (Inr l', fs2)"
    and tl: "io_bind (case packageJson paths of None \<Rightarrow> io_return ()
                      | Some packagePath \<Rightarrow>
                          (case ui5Yaml paths of None \<Rightarrow> io_return ()
                           | Some yamlPath \<Rightarrow>
                               updatePackageJson packagePath (truthy (sv_metadata s)))) (\<lambda>_.
     io_bind (case ui5LocalYaml paths of None \<Rightarrow> io_return ()
              | Some localPath \<Rightarrow>
                  (case l' of None \<Rightarrow> io_return ()
                   | Some cfg \<Rightarrow> io_write localPath (toString cfg))) (\<lambda>_.
     writeAnnotationXmlFiles b (nameOrMain s) (sv_annotations s))) fs2 = (Inr (), fs')"
    by blast
  from metadata_written [OF assms(2) md]
  have "fs2 (path_join [path_join [b, ''webapp''], ''localService'', nameOrMain s,
                         ''metadata.xml'']) \<noteq> None" .
  with io_growsD [OF writeEDMX_tail_grows [unfolded prod.case] tl] show ?thesis by blast
qed



section \<open>Properties of repeated runs\<close>






section \<open>The final state of a removal\<close>



lemma documentAt_yaml:
  "fs p = Some (YamlFile cfg) \<Longrightarrow> documentAt fs p = Some cfg"
  by (simp add: documentAt_def)










section \<open>Properties of repeated runs with one descriptor object\<close>





section \<open>The YAML files after a successful run\<close>

lemma writeEDMXServiceFiles_rest:
  "writeEDMXServiceFiles b paths tr s =
     io_bind (writeEDMX_backend paths s) (\<lambda>ul.
     io_bind (writeEDMX_metadata b paths tr s (fst ul) (snd ul)) (writeEDMX_rest b paths s))"
  unfolding writeEDMXServiceFiles_def writeEDMX_rest_def
  by (rule arg_cong [where f = "io_bind (writeEDMX_backend paths s)"]) (auto simp: fun_eq_iff)

lemma writeEDMX_success:
  assumes "writeEDMXServiceFiles b paths tr s fs = (Inr (), fs')"
  shows "\<exists>u l fs1 l' fs2. writeEDMX_backend paths s fs = (Inr (u, l), fs1)
           \<and> writeEDMX_metadata b paths tr s u l fs1 = (Inr l', fs2)
           \<and> writeEDMX_rest b paths s l' fs2 = (Inr (), fs')"
proof -
  from io_bind_Inr [OF assms [unfolded writeEDMXServiceFiles_rest]]
  obtain ul fs1 where 1: "writeEDMX_backend paths s fs = (Inr ul, fs1)"
    and 2: "io_bind (writeEDMX_metadata b paths tr s (fst ul) (snd ul)) (writeEDMX_rest b paths s) fs1
              = (Inr (), fs')"
    by blast
  from io_bind_Inr [OF 2]
  obtain l' fs2 where 3: "writeEDMX_metadata b paths tr s (fst ul) (snd ul) fs1 = (Inr l', fs2)"
    and 4: "writeEDMX_rest b paths s l' fs2 = (Inr (), fs')"
    by blast
  from 1 have "writeEDMX_backend paths s fs = (Inr (fst ul, snd ul), fs1)" by simp
  with 3 4 show ?thesis by blast
qed

lemma metadata_unfold:
  assumes "truthy (sv_metadata s)"
  shows "writeEDMX_metadata b paths tr s u l =
       io_bind
                 (case (ui5Yaml paths, u) of
                    (Some yamlPath, Some cfg) \<Rightarrow>
                      io_bind (generateMockserverConfig b (path_join [b, ''webapp''])) (\<lambda>_.
                      io_bind (generateMockserverMiddlewareBasedOnUi5MockYaml yamlPath
                                 (ui5LocalYaml paths) l) (\<lambda>ui5LocalConfig'.
                        case ui5MockYaml paths of
                          None \<Rightarrow> io_return ui5LocalConfig'
                        | Some mockPath \<Rightarrow>
                            io_bind (readConfig mockPath) (\<lambda>parsedMock.
                            io_bind (extendBackendMiddleware s parsedMock mockPath)
                              (\<lambda>ui5MockConfig. io_return ui5LocalConfig'))))
                  | _ \<Rightarrow> io_return l)
                 (\<lambda>ui5LocalConfig'.
                    io_bind (writeLocalServiceFiles b (path_join [b, ''webapp'']) tr s)
                      (\<lambda>_. io_return ui5LocalConfig'))"
  using assms by (simp add: writeEDMX_metadata_def getWebappPath_def Let_def)

lemma metadata_frame_gen:
  assumes m: "W (path_join [b, ''ui5-mock.yaml''])"
    and mp: "\<And>p. ui5MockYaml paths = Some p \<Longrightarrow> W p"
    and x: "\<And>p. xmlName (fileName p) \<Longrightarrow> W p"
  shows "io_frame W (writeEDMX_metadata b paths tr s u l)"
proof (cases "truthy (sv_metadata s)")
  case False
  then show ?thesis by (simp add: writeEDMX_metadata_def io_frame_return)
next
  case True
  show ?thesis
    unfolding metadata_unfold [OF True]
    apply (rule io_frame_bind)
     apply (cases "ui5Yaml paths"; cases u; cases "ui5MockYaml paths")
            apply (auto intro!: io_frame_intros mockConfig_frame mockMiddleware_frame m
                 readConfig_frame extend_frame mp localFiles_frame [OF x])
    done
qed

lemma rest_frame_gen:
  assumes pk: "\<And>p. packageJson paths = Some p \<Longrightarrow> W p"
    and lp: "\<And>p. ui5LocalYaml paths = Some p \<Longrightarrow> W p"
    and x: "\<And>p. xmlName (fileName p) \<Longrightarrow> W p"
  shows "io_frame W (writeEDMX_rest b paths s l)"
proof -
  have 1: "io_frame W (case (packageJson paths, ui5Yaml paths) of
                (Some packagePath, Some yamlPath) \<Rightarrow>
                  updatePackageJson packagePath (truthy (sv_metadata s))
              | _ \<Rightarrow> io_return ())"
    using pk
    by (cases "packageJson paths"; cases "ui5Yaml paths")
       (auto intro!: io_frame_intros packageJson_frame)
  have 2: "io_frame W (case (ui5LocalYaml paths, l) of
                (Some localPath, Some cfg) \<Rightarrow> io_write localPath (toString cfg)
              | _ \<Rightarrow> io_return ())"
    using lp
    by (cases "ui5LocalYaml paths"; cases l) (auto intro!: io_frame_intros)
  show ?thesis
    unfolding writeEDMX_rest_def
    by (intro io_frame_bind 1 2 annotationXml_frame x)
qed

lemma rest_local:
  assumes run: "writeEDMX_rest b paths s (Some cfg) fs2 = (r, fs')" and ok: "r = Inr ()"
    and lp: "ui5LocalYaml paths = Some lp" and n: "fileName lp = ''ui5-local.yaml''"
  shows "fs' lp = Some (YamlFile cfg)"
proof -
  from io_bind_Inr [OF run [unfolded writeEDMX_rest_def ok]]
  obtain fs3 where 2: "io_bind (case (ui5LocalYaml paths, Some cfg) of
                (Some localPath, Some cfg) \<Rightarrow> io_write localPath (toString cfg)
              | _ \<Rightarrow> io_return ()) (\<lambda>_.
     writeAnnotationXmlFiles b (nameOrMain s) (sv_annotations s)) fs3 = (Inr (), fs')"
    by blast
  from n have nx: "\<not> xmlName (fileName lp)" by (simp add: xmlName_fixed)
  from 2 lp have "fs' = writeAnnotationFiles b (nameOrMain s) (annotationList (sv_annotations s))
                         (fs3(lp \<mapsto> YamlFile cfg))"
    by (simp add: io_bind_def io_write_def write_file_def toString_def writeAnnotationXmlFiles_def)
  then show ?thesis
    by (simp add: writeAnnotationFiles_frame [OF nx])
qed

lemma mockConfig_result:
  assumes "generateMockserverConfig b w fs1 = (Inr x, fsA)"
  shows "\<exists>m cfg0. fs1 (manifestPathOf b) = Some (ManifestFile m)
           \<and> ((fs1 (path_join [b, ''ui5-mock.yaml'']) = None \<and> cfg0 = emptyConfig)
                \<or> documentAt fs1 (path_join [b, ''ui5-mock.yaml'']) = Some cfg0)
           \<and> fsA = fs1(path_join [b, ''ui5-mock.yaml''] \<mapsto>
                      YamlFile (upsertMockServices (mf_dataSources m) (mf_dataSources m) cfg0))"
  using assms
  by (auto simp: generateMockserverConfig_def io_bind_def readManifest_def io_write_def
        write_file_def toString_def documentAt_def
        split: option.splits content.splits sum.splits)

lemma mockMiddleware_result:
  assumes "generateMockserverMiddlewareBasedOnUi5MockYaml yp lpo l fsA = (Inr l', fsB)"
  shows "fsB = fsA
       \<and> (\<exists>cm. documentAt fsA (path_join [path_dirname yp, ''ui5-mock.yaml'']) = Some cm
             \<and> (l' = l \<or> (\<exists>cfg mk. l = Some cfg \<and> cf_mockserver cm = Some mk
                              \<and> l' = Some (cfg\<lparr>cf_mockserver := Some mk\<rparr>)))
             \<and> (\<forall>p cfg mk. lpo = Some p \<and> l = Some cfg \<and> cf_mockserver cm = Some mk
                    \<and> fsA p \<noteq> None \<longrightarrow> l' = Some (cfg\<lparr>cf_mockserver := Some mk\<rparr>)))"
  using assms
  by (auto simp: generateMockserverMiddlewareBasedOnUi5MockYaml_def Let_def io_bind_def
        readConfig_eq documentAt_def findCustomMiddleware_def updateCustomMiddleware_def
        exists_file_def
        split: option.splits sum.splits if_splits)

lemma mockBackend_result:
  assumes "(case mpo of
              None \<Rightarrow> io_return a
            | Some mockPath \<Rightarrow>
                io_bind (readConfig mockPath) (\<lambda>parsedMock.
                io_bind (extendBackendMiddleware s parsedMock mockPath)
                  (\<lambda>ui5MockConfig. io_return a))) fsA = (Inr a', fsB)"
  shows "a' = a
       \<and> ((mpo = None \<and> fsB = fsA)
          \<or> (\<exists>mp cfg. mpo = Some mp \<and> documentAt fsA mp = Some cfg
                \<and> fsB = fsA(mp \<mapsto> YamlFile (extended s cfg))))"
  using assms
  by (auto simp: io_return_def io_bind_def readConfig_eq extendBackendMiddleware_eq documentAt_def
        split: option.splits sum.splits)

lemma metadata_success:
  assumes t: "truthy (sv_metadata s)" and y: "ui5Yaml paths = Some yp"
    and run: "writeEDMX_metadata b paths tr s (Some cfgu) l fs1 = (Inr l', fs2)"
    and mn: "\<forall>p. ui5MockYaml paths = Some p \<longrightarrow> fileName p = ''ui5-mock.yaml''"
  shows "\<exists>m cfg0 c. fs1 (manifestPathOf b) = Some (ManifestFile m)
           \<and> ((fs1 (path_join [b, ''ui5-mock.yaml'']) = None \<and> cfg0 = emptyConfig)
                \<or> documentAt fs1 (path_join [b, ''ui5-mock.yaml'']) = Some cfg0)
           \<and> fs2 (path_join [b, ''ui5-mock.yaml'']) = Some (YamlFile c)
           \<and> cf_mockserver c
               = cf_mockserver (upsertMockServices (mf_dataSources m) (mf_dataSources m) cfg0)"
    and "\<And>mp. ui5MockYaml paths = Some mp \<Longrightarrow> \<exists>cfg. fs2 mp = Some (YamlFile (extended s cfg))"
    and "\<exists>cm. documentAt fs2 (path_join [path_dirname yp, ''ui5-mock.yaml'']) = Some cm
             \<and> (l' = l \<or> (\<exists>cfg mk. l = Some cfg \<and> cf_mockserver cm = Some mk
                              \<and> l' = Some (cfg\<lparr>cf_mockserver := Some mk\<rparr>)))
             \<and> (\<forall>p cfg mk. ui5LocalYaml paths = Some p \<and> l = Some cfg
                    \<and> cf_mockserver cm = Some mk \<and> fs1 p \<noteq> None
                    \<longrightarrow> l' = Some (cfg\<lparr>cf_mockserver := Some mk\<rparr>))"
proof -
  define q where "q = path_join [b, ''ui5-mock.yaml'']"
  define r where "r = path_join [path_dirname yp, ''ui5-mock.yaml'']"
  have nq: "\<not> xmlName (fileName q)" and nr: "\<not> xmlName (fileName r)"
    by (simp_all add: q_def r_def fileName_fixed xmlName_fixed)
  from run [unfolded metadata_unfold [OF t]] y
  have run': "io_bind
         (io_bind (generateMockserverConfig b (path_join [b, ''webapp''])) (\<lambda>_.
          io_bind (generateMockserverMiddlewareBasedOnUi5MockYaml yp (ui5LocalYaml paths) l)
            (\<lambda>ui5LocalConfig'.
               case ui5MockYaml paths of
                 None \<Rightarrow> io_return ui5LocalConfig'
               | Some mockPath \<Rightarrow>
                   io_bind (readConfig mockPath) (\<lambda>parsedMock.
                   io_bind (extendBackendMiddleware s parsedMock mockPath)
                     (\<lambda>ui5MockConfig. io_return ui5LocalConfig')))))
         (\<lambda>ui5LocalConfig'.
            io_bind (writeLocalServiceFiles b (path_join [b, ''webapp'']) tr s)
              (\<lambda>_. io_return ui5LocalConfig')) fs1 = (Inr l', fs2)"
    by simp
  from io_bind_Inr [OF run']
  obtain a fsB where pre: "io_bind (generateMockserverConfig b (path_join [b, ''webapp''])) (\<lambda>_.
          io_bind (generateMockserverMiddlewareBasedOnUi5MockYaml yp (ui5LocalYaml paths) l)
            (\<lambda>ui5LocalConfig'.
               case ui5MockYaml paths of
                 None \<Rightarrow> io_return ui5LocalConfig'
               | Some mockPath \<Rightarrow>
                   io_bind (readConfig mockPath) (\<lambda>parsedMock.
                   io_bind (extendBackendMiddleware s parsedMock mockPath)
                     (\<lambda>ui5MockConfig. io_return ui5LocalConfig')))) fs1 = (Inr a, fsB)"
    and post: "io_bind (writeLocalServiceFiles b (path_join [b, ''webapp'']) tr s)
              (\<lambda>_. io_return a) fsB = (Inr l', fs2)"
    by blast
  from io_bind_Inr [OF post]
  obtain x where wl: "writeLocalServiceFiles b (path_join [b, ''webapp'']) tr s fsB = (Inr x, fs2)"
    and al: "a = l'"
    by (auto simp: io_return_def)
  have xml: "io_frame (\<lambda>p. xmlName (fileName p))
               (writeLocalServiceFiles b (path_join [b, ''webapp'']) tr s)"
    by (rule localFiles_frame)
  note keep = io_frameD [OF xml wl]
  from io_bind_Inr [OF pre]
  obtain u0 fsA where mc: "generateMockserverConfig b (path_join [b, ''webapp'']) fs1 = (Inr u0, fsA)"
    and pre2: "io_bind (generateMockserverMiddlewareBasedOnUi5MockYaml yp (ui5LocalYaml paths) l)
            (\<lambda>ui5LocalConfig'.
               case ui5MockYaml paths of
                 None \<Rightarrow> io_return ui5LocalConfig'
               | Some mockPath \<Rightarrow>
                   io_bind (readConfig mockPath) (\<lambda>parsedMock.
                   io_bind (extendBackendMiddleware s parsedMock mockPath)
                     (\<lambda>ui5MockConfig. io_return ui5LocalConfig'))) fsA = (Inr a, fsB)"
    by blast
  from io_bind_Inr [OF pre2]
  obtain l2 fsA' where mw: "generateMockserverMiddlewareBasedOnUi5MockYaml yp (ui5LocalYaml paths) l fsA
                             = (Inr l2, fsA')"
    and mb: "(case ui5MockYaml paths of
                 None \<Rightarrow> io_return l2
               | Some mockPath \<Rightarrow>
                   io_bind (readConfig mockPath) (\<lambda>parsedMock.
                   io_bind (extendBackendMiddleware s parsedMock mockPath)
                     (\<lambda>ui5MockConfig. io_return l2))) fsA' = (Inr a, fsB)"
    by blast
  from mockConfig_result [OF mc]
  obtain m cfg0 where c: "fs1 (manifestPathOf b) = Some (ManifestFile m)"
      "(fs1 q = None \<and> cfg0 = emptyConfig) \<or> documentAt fs1 q = Some cfg0"
      "fsA = fs1(q \<mapsto> YamlFile (upsertMockServices (mf_dataSources m) (mf_dataSources m) cfg0))"
    unfolding q_def by blast
  from mockMiddleware_result [OF mw]
  obtain cm where w: "fsA' = fsA" "documentAt fsA r = Some cm"
      "l2 = l \<or> (\<exists>cfg mk. l = Some cfg \<and> cf_mockserver cm = Some mk
                              \<and> l2 = Some (cfg\<lparr>cf_mockserver := Some mk\<rparr>))"
      "\<forall>p cfg mk. ui5LocalYaml paths = Some p \<and> l = Some cfg \<and> cf_mockserver cm = Some mk
                    \<and> fsA p \<noteq> None \<longrightarrow> l2 = Some (cfg\<lparr>cf_mockserver := Some mk\<rparr>)"
    unfolding r_def by blast
  from mockBackend_result [OF mb]
  have la: "a = l2"
    and bk: "(ui5MockYaml paths = None \<and> fsB = fsA')
          \<or> (\<exists>mp cfg. ui5MockYaml paths = Some mp \<and> documentAt fsA' mp = Some cfg
                \<and> fsB = fsA'(mp \<mapsto> YamlFile (extended s cfg)))"
    by simp_all
  have B1: "\<exists>c. documentAt fsB p = Some c \<and> cf_mockserver c = cf_mockserver d"
    if "documentAt fsA p = Some d" for p d
    using bk that w(1) by (auto simp: documentAt_def extended_facts(1))
  have B2: "\<exists>c. fsB p = Some (YamlFile c) \<and> cf_mockserver c = cf_mockserver d"
    if "fsA p = Some (YamlFile d)" for p d
    using bk that w(1) by (auto simp: documentAt_def extended_facts(1))
  have d2: "documentAt fs2 p = documentAt fsB p" if "\<not> xmlName (fileName p)" for p
    using keep [OF that] by (simp add: documentAt_def)
  show "\<exists>m cfg0 c. fs1 (manifestPathOf b) = Some (ManifestFile m)
           \<and> ((fs1 (path_join [b, ''ui5-mock.yaml'']) = None \<and> cfg0 = emptyConfig)
                \<or> documentAt fs1 (path_join [b, ''ui5-mock.yaml'']) = Some cfg0)
           \<and> fs2 (path_join [b, ''ui5-mock.yaml'']) = Some (YamlFile c)
           \<and> cf_mockserver c
               = cf_mockserver (upsertMockServices (mf_dataSources m) (mf_dataSources m) cfg0)"
  proof -
    from c(3) have "fsA q = Some (YamlFile (upsertMockServices (mf_dataSources m)
                       (mf_dataSources m) cfg0))" by simp
    from B2 [OF this] obtain c' where "fsB q = Some (YamlFile c')"
      "cf_mockserver c' = cf_mockserver (upsertMockServices (mf_dataSources m)
                       (mf_dataSources m) cfg0)" by blast
    with keep [OF nq] have "fs2 q = Some (YamlFile c')
       \<and> cf_mockserver c' = cf_mockserver (upsertMockServices (mf_dataSources m)
                       (mf_dataSources m) cfg0)" by simp
    with c(1,2) show ?thesis unfolding q_def by blast
  qed
  show "\<exists>cfg. fs2 mp = Some (YamlFile (extended s cfg))" if "ui5MockYaml paths = Some mp" for mp
  proof -
    from mn that have "\<not> xmlName (fileName mp)" by (simp add: xmlName_fixed)
    from keep [OF this] bk that show ?thesis by auto
  qed
  show "\<exists>cm. documentAt fs2 (path_join [path_dirname yp, ''ui5-mock.yaml'']) = Some cm
             \<and> (l' = l \<or> (\<exists>cfg mk. l = Some cfg \<and> cf_mockserver cm = Some mk
                              \<and> l' = Some (cfg\<lparr>cf_mockserver := Some mk\<rparr>)))
             \<and> (\<forall>p cfg mk. ui5LocalYaml paths = Some p \<and> l = Some cfg
                    \<and> cf_mockserver cm = Some mk \<and> fs1 p \<noteq> None
                    \<longrightarrow> l' = Some (cfg\<lparr>cf_mockserver := Some mk\<rparr>))"
  proof -
    from B1 [OF w(2)] obtain cm2 where 1: "documentAt fsB r = Some cm2"
      "cf_mockserver cm2 = cf_mockserver cm" by blast
    from d2 [OF nr] 1 have 2: "documentAt fs2 r = Some cm2" by simp
    have 3: "l' = l \<or> (\<exists>cfg mk. l = Some cfg \<and> cf_mockserver cm2 = Some mk
                              \<and> l' = Some (cfg\<lparr>cf_mockserver := Some mk\<rparr>))"
      using w(3) al la 1(2) by simp
    have 4: "\<forall>p cfg mk. ui5LocalYaml paths = Some p \<and> l = Some cfg
                    \<and> cf_mockserver cm2 = Some mk \<and> fs1 p \<noteq> None
                    \<longrightarrow> l' = Some (cfg\<lparr>cf_mockserver := Some mk\<rparr>)"
    proof (intro allI impI, elim conjE)
      fix p cfg mk
      assume h: "ui5LocalYaml paths = Some p" "l = Some cfg" "cf_mockserver cm2 = Some mk"
        "fs1 p \<noteq> None"
      from h(4) c(3) have "fsA p \<noteq> None" by simp
      with w(4) h 1(2) have "l2 = Some (cfg\<lparr>cf_mockserver := Some mk\<rparr>)" by simp
      with al la show "l' = Some (cfg\<lparr>cf_mockserver := Some mk\<rparr>)" by simp
    qed
    from 2 3 4 show ?thesis unfolding r_def by blast
  qed
qed

lemma metadata_local:
  assumes run: "writeEDMX_metadata b paths tr s u l fs1 = (Inr l', fs2)"
    and mn: "\<And>p. ui5MockYaml paths = Some p \<Longrightarrow> fileName p = ''ui5-mock.yaml''"
  shows "l' = l \<or> (\<exists>cfg mk. l = Some cfg \<and> l' = Some (cfg\<lparr>cf_mockserver := Some mk\<rparr>))"
proof (cases "truthy (sv_metadata s)")
  case False
  with run show ?thesis by (simp add: writeEDMX_metadata_def io_return_def)
next
  case True
  show ?thesis
  proof (cases "ui5Yaml paths")
    case None
    with run [unfolded metadata_unfold [OF True]] show ?thesis
      by (auto simp: io_bind_def io_return_def split: prod.splits sum.splits)
  next
    case (Some yp)
    show ?thesis
    proof (cases u)
      case None
      with Some run [unfolded metadata_unfold [OF True]] show ?thesis
        by (auto simp: io_bind_def io_return_def split: prod.splits sum.splits)
    next
      case u: (Some cfgu)
      from mn have "\<forall>p. ui5MockYaml paths = Some p \<longrightarrow> fileName p = ''ui5-mock.yaml''"
        by blast
      from metadata_success(3) [OF True Some run [unfolded u] this]
      show ?thesis by blast
    qed
  qed
qed

text \<open>The discovered \<^verbatim>\<open>ui5.yaml\<close> and \<^verbatim>\<open>ui5-local.yaml\<close> after a successful run of
  \<^verbatim>\<open>writeEDMXServiceFiles\<close>.\<close>

lemma writeEDMX_backend_final:
  assumes run: "writeEDMXServiceFiles b paths tr s fs = (Inr (), fs')"
    and np: "\<And>p. packageJson paths = Some p \<Longrightarrow> fileName p = ''package.json''"
    and nl: "\<And>p. ui5LocalYaml paths = Some p \<Longrightarrow> fileName p = ''ui5-local.yaml''"
    and nm: "\<And>p. ui5MockYaml paths = Some p \<Longrightarrow> fileName p = ''ui5-mock.yaml''"
    and ny: "\<And>p. ui5Yaml paths = Some p \<Longrightarrow> fileName p = ''ui5.yaml''"
    and y: "ui5Yaml paths = Some yp \<or> (ui5Yaml paths \<noteq> None \<and> ui5LocalYaml paths = Some yp)"
  shows "\<exists>cfg' px. fs' yp = Some (YamlFile cfg') \<and> cf_proxy cfg' = Some px
           \<and> sv_previewSettings s \<in> set (px_backend px)"
proof -
  from writeEDMX_success [OF run]
  obtain u l fs1 l' fs2 where 1: "writeEDMX_backend paths s fs = (Inr (u, l), fs1)"
    and 2: "writeEDMX_metadata b paths tr s u l fs1 = (Inr l', fs2)"
    and 3: "writeEDMX_rest b paths s l' fs2 = (Inr (), fs')"
    by blast
  from y show ?thesis
  proof
    assume yp: "ui5Yaml paths = Some yp"
    define W where "W = (\<lambda>p. fileName p \<noteq> ''ui5.yaml'')"
    have nW: "\<not> W yp" using ny [OF yp] by (simp add: W_def)
    have f2: "io_frame W (writeEDMX_metadata b paths tr s u l)"
      by (rule metadata_frame_gen) (auto simp: W_def fileName_fixed dest: nm xmlName_fixed(2) [THEN notE, rotated])
    have f3: "io_frame W (writeEDMX_rest b paths s l')"
      by (rule rest_frame_gen) (auto simp: W_def dest: np nl xmlName_fixed(2) [THEN notE, rotated])
    from io_frameD [OF f3 3 nW] io_frameD [OF f2 2 nW] have "fs' yp = fs1 yp" by simp
    moreover from backend_stage_yaml [OF 1 yp] obtain cfg where
      "fs1 yp = Some (YamlFile (extended s cfg))" by blast
    ultimately show ?thesis using extended_facts(3) [of s cfg] by auto
  next
    assume lp: "ui5Yaml paths \<noteq> None \<and> ui5LocalYaml paths = Some yp"
    from backend_stage [OF 1] lp obtain cfgl cfg where l: "l = Some cfgl" "cfgl = extended s cfg"
      by auto
    from metadata_local [OF 2 nm] l
    obtain cfg' where l': "l' = Some cfg'" "cf_proxy cfg' = cf_proxy (extended s cfg)"
      by auto
    from rest_local [OF 3 [unfolded l'(1)] refl lp [THEN conjunct2] nl [OF lp [THEN conjunct2]]]
    have "fs' yp = Some (YamlFile cfg')" .
    with l'(2) extended_facts(3) [of s cfg] show ?thesis by auto
  qed
qed

text \<open>Without a discovered \<^verbatim>\<open>ui5.yaml\<close> only XML payload files are written.\<close>

lemma no_yaml_frame:
  assumes "ui5Yaml paths = None"
  shows "io_frame (\<lambda>p. xmlName (fileName p)) (writeEDMXServiceFiles b paths tr s)"
proof -
  have e: "writeEDMXServiceFiles b paths tr s =
             io_bind (if truthy (sv_metadata s)
                      then writeLocalServiceFiles b (path_join [b, ''webapp'']) tr s
                      else io_return ())
               (\<lambda>_. writeAnnotationXmlFiles b (nameOrMain s) (sv_annotations s))"
  proof (rule ext)
    fix fs
    show "writeEDMXServiceFiles b paths tr s fs =
             io_bind (if truthy (sv_metadata s)
                      then writeLocalServiceFiles b (path_join [b, ''webapp'']) tr s
                      else io_return ())
               (\<lambda>_. writeAnnotationXmlFiles b (nameOrMain s) (sv_annotations s)) fs"
      using assms
      by (auto simp: writeEDMXServiceFiles_def writeEDMX_backend_def
            writeEDMX_metadata_def getWebappPath_def Let_def io_bind_def io_return_def
            split: prod.splits sum.splits option.splits)
  qed
  show ?thesis
    unfolding e
    by (auto intro!: io_frame_intros localFiles_frame annotationXml_frame)
qed

text \<open>The mock-server configuration after a successful run of \<^verbatim>\<open>writeEDMXServiceFiles\<close>
  for a service with metadata, when \<^verbatim>\<open>ui5.yaml\<close> was discovered.\<close>

lemma writeEDMX_mock_final:
  assumes run: "writeEDMXServiceFiles b paths tr s fs = (Inr (), fs')"
    and t: "truthy (sv_metadata s)"
    and np: "\<And>p. packageJson paths = Some p \<Longrightarrow> fileName p = ''package.json''"
    and nl: "\<And>p. ui5LocalYaml paths = Some p \<Longrightarrow> fileName p = ''ui5-local.yaml''"
    and nm: "\<And>p. ui5MockYaml paths = Some p \<Longrightarrow> fileName p = ''ui5-mock.yaml''"
    and ny: "\<And>p. ui5Yaml paths = Some p \<Longrightarrow> fileName p = ''ui5.yaml''"
    and y: "ui5Yaml paths = Some yp"
  shows "\<exists>m cfg0 c. fs (manifestPathOf b) = Some (ManifestFile m)
           \<and> ((fs (path_join [b, ''ui5-mock.yaml'']) = None \<and> cfg0 = emptyConfig)
                \<or> documentAt fs (path_join [b, ''ui5-mock.yaml'']) = Some cfg0)
           \<and> fs' (path_join [b, ''ui5-mock.yaml'']) = Some (YamlFile c)
           \<and> cf_mockserver c
               = cf_mockserver (upsertMockServices (mf_dataSources m) (mf_dataSources m) cfg0)"
    and "\<And>mp. ui5MockYaml paths = Some mp \<Longrightarrow>
           \<exists>c px. fs' mp = Some (YamlFile c) \<and> cf_proxy c = Some px
             \<and> sv_previewSettings s \<in> set (px_backend px)"
    and "\<And>lp. ui5LocalYaml paths = Some lp \<Longrightarrow>
           \<exists>cl cm. fs' lp = Some (YamlFile cl)
             \<and> documentAt fs' (path_join [path_dirname yp, ''ui5-mock.yaml'']) = Some cm
             \<and> (cf_mockserver cm \<noteq> None \<longrightarrow> cf_mockserver cl = cf_mockserver cm)"
proof -
  define q where "q = path_join [b, ''ui5-mock.yaml'']"
  define r where "r = path_join [path_dirname yp, ''ui5-mock.yaml'']"
  have nq: "fileName q = ''ui5-mock.yaml''" and nr: "fileName r = ''ui5-mock.yaml''"
    by (simp_all add: q_def r_def fileName_fixed)
  from writeEDMX_success [OF run]
  obtain u l fs1 l' fs2 where 1: "writeEDMX_backend paths s fs = (Inr (u, l), fs1)"
    and 2: "writeEDMX_metadata b paths tr s u l fs1 = (Inr l', fs2)"
    and 3: "writeEDMX_rest b paths s l' fs2 = (Inr (), fs')"
    by blast
  from backend_stage [OF 1] y obtain cfgu where u: "u = Some cfgu" by auto
  from nm have nm': "\<forall>p. ui5MockYaml paths = Some p \<longrightarrow> fileName p = ''ui5-mock.yaml''"
    by blast
  note ms = metadata_success [OF t y 2 [unfolded u] nm']
  define W where "W = (\<lambda>p. fileName p = ''ui5.yaml'' \<or> fileName p = ''ui5-local.yaml'')"
  have f1: "io_frame W (writeEDMX_backend paths s)"
    by (rule backend_frame) (auto simp: W_def dest: ny nl)
  have k1: "fs1 p = fs p" if "fileName p = ''ui5-mock.yaml'' \<or> fileName p = ''manifest.json''" for p
    using that by (intro io_frameD [OF f1 1]) (auto simp: W_def)
  define V where "V = (\<lambda>p. fileName p \<noteq> ''ui5-mock.yaml'')"
  have f3: "io_frame V (writeEDMX_rest b paths s l')"
    by (rule rest_frame_gen) (auto simp: V_def dest: np nl xmlName_fixed(4) [THEN notE, rotated])
  have k3: "fs' p = fs2 p" if "fileName p = ''ui5-mock.yaml''" for p
    using that by (intro io_frameD [OF f3 3]) (simp add: V_def)
  show "\<exists>m cfg0 c. fs (manifestPathOf b) = Some (ManifestFile m)
           \<and> ((fs (path_join [b, ''ui5-mock.yaml'']) = None \<and> cfg0 = emptyConfig)
                \<or> documentAt fs (path_join [b, ''ui5-mock.yaml'']) = Some cfg0)
           \<and> fs' (path_join [b, ''ui5-mock.yaml'']) = Some (YamlFile c)
           \<and> cf_mockserver c
               = cf_mockserver (upsertMockServices (mf_dataSources m) (mf_dataSources m) cfg0)"
  proof -
    from ms(1) obtain m cfg0 c where a: "fs1 (manifestPathOf b) = Some (ManifestFile m)"
      "(fs1 q = None \<and> cfg0 = emptyConfig) \<or> documentAt fs1 q = Some cfg0"
      "fs2 q = Some (YamlFile c)"
      "cf_mockserver c
               = cf_mockserver (upsertMockServices (mf_dataSources m) (mf_dataSources m) cfg0)"
      unfolding q_def by blast
    have "fs1 q = fs q" "fs1 (manifestPathOf b) = fs (manifestPathOf b)"
      using k1 [of q] k1 [of "manifestPathOf b"] nq manifestPath_name by simp_all
    moreover from this(1) have "documentAt fs1 q = documentAt fs q" by (simp add: documentAt_def)
    ultimately have "fs (manifestPathOf b) = Some (ManifestFile m)
           \<and> ((fs q = None \<and> cfg0 = emptyConfig) \<or> documentAt fs q = Some cfg0)
           \<and> fs' q = Some (YamlFile c)
           \<and> cf_mockserver c
               = cf_mockserver (upsertMockServices (mf_dataSources m) (mf_dataSources m) cfg0)"
      using a k3 [OF nq] by simp
    then show ?thesis unfolding q_def by blast
  qed
  show "\<exists>c px. fs' mp = Some (YamlFile c) \<and> cf_proxy c = Some px
             \<and> sv_previewSettings s \<in> set (px_backend px)"
    if mp: "ui5MockYaml paths = Some mp" for mp
  proof -
    from ms(2) [OF mp] obtain cfg where "fs2 mp = Some (YamlFile (extended s cfg))" by blast
    with k3 [OF nm [OF mp]] extended_facts(3) [of s cfg] show ?thesis by auto
  qed
  show "\<exists>cl cm. fs' lp = Some (YamlFile cl)
             \<and> documentAt fs' (path_join [path_dirname yp, ''ui5-mock.yaml'']) = Some cm
             \<and> (cf_mockserver cm \<noteq> None \<longrightarrow> cf_mockserver cl = cf_mockserver cm)"
    if lp: "ui5LocalYaml paths = Some lp" for lp
  proof -
    from backend_stage [OF 1] y lp obtain cfgl where l: "l = Some cfgl"
      "fs1 lp = Some (YamlFile cfgl)"
      by auto
    from ms(3) obtain cm where c: "documentAt fs2 r = Some cm"
      "l' = l \<or> (\<exists>cfg mk. l = Some cfg \<and> cf_mockserver cm = Some mk
                              \<and> l' = Some (cfg\<lparr>cf_mockserver := Some mk\<rparr>))"
      "\<forall>p cfg mk. ui5LocalYaml paths = Some p \<and> l = Some cfg
                    \<and> cf_mockserver cm = Some mk \<and> fs1 p \<noteq> None
                    \<longrightarrow> l' = Some (cfg\<lparr>cf_mockserver := Some mk\<rparr>)"
      unfolding r_def by blast
    from c(2) l(1) obtain cl where l': "l' = Some cl" by auto
    from rest_local [OF 3 [unfolded l'] refl lp nl [OF lp]]
    have 4: "fs' lp = Some (YamlFile cl)" .
    from k3 [OF nr] c(1) have 5: "documentAt fs' r = Some cm" by (simp add: documentAt_def)
    have 6: "cf_mockserver cm \<noteq> None \<longrightarrow> cf_mockserver cl = cf_mockserver cm"
    proof
      assume "cf_mockserver cm \<noteq> None"
      then obtain mk where mk: "cf_mockserver cm = Some mk" by auto
      with c(3) lp l have "l' = Some (cfgl\<lparr>cf_mockserver := Some mk\<rparr>)" by simp
      with l' mk show "cf_mockserver cl = cf_mockserver cm" by auto
    qed
    from 4 5 6 show ?thesis unfolding r_def by blast
  qed
qed

lemma no_metadata_yaml:
  assumes nm: "\<not> truthy (sv_metadata service)"
    and ty: "sv_type service \<noteq> Some CDS"
    and run: "generate cds basePath service (Some fs) = (r, fs')"
  shows "(\<forall>p. fileName p = ''ui5-mock.yaml'' \<longrightarrow> fs' p = fs p)
       \<and> (\<forall>p. fileName p = ''ui5.yaml'' \<or> fileName p = ''ui5-local.yaml'' \<longrightarrow>
              fs' p = fs p
              \<or> (\<exists>c cfg cfg'. fs p = Some c \<and> newInstance c = Inr cfg
                     \<and> fs' p = Some (YamlFile cfg')
                     \<and> cf_mockserver cfg' = cf_mockserver cfg \<and> cf_other cfg' = cf_other cfg))
       \<and> (r = Inr () \<longrightarrow>
            (\<forall>yp. ui5Yaml (findProjectFiles basePath fs) = Some yp
                  \<or> (ui5Yaml (findProjectFiles basePath fs) \<noteq> None
                      \<and> ui5LocalYaml (findProjectFiles basePath fs) = Some yp) \<longrightarrow>
               (\<exists>service' cfg' px. enhanceData basePath service fs = Inr service'
                   \<and> fs' yp = Some (YamlFile cfg') \<and> cf_proxy cfg' = Some px
                   \<and> sv_previewSettings service' \<in> set (px_backend px))))"
proof -
  define paths where "paths = findProjectFiles basePath fs"
  note names = findProjectFiles_names [of basePath fs, folded paths_def]
  let ?goal = ?thesis
  show ?thesis
  proof (cases "ensureExists basePath [''webapp/manifest.json''] fs")
    case (Some e)
    with run have "r = Inl e" "fs' = fs" by (simp_all add: generate_def Let_def)
    then show ?thesis by simp
  next
    case None
    show ?thesis
    proof (cases "enhanceData basePath service fs")
      case (Inl e)
      with run None have "r = Inl e" "fs' = fs" by (simp_all add: generate_def Let_def)
      then show ?thesis by simp
    next
      case (Inr s')
      from enhanceData_keeps [OF Inr] nm ty
      have s': "\<not> truthy (sv_metadata s')" "sv_type s' = Some EDMX"
        by (cases "sv_type service"; cases "the (sv_type service)"; simp)+
      obtain r0 fsm where um: "updateManifest basePath s' fs = (r0, fsm)"
        by (cases "updateManifest basePath s' fs")
      have fm: "fsm p = fs p" if "fileName p = ''ui5-mock.yaml'' \<or> fileName p = ''ui5.yaml''
           \<or> fileName p = ''ui5-local.yaml''" for p
        using updateManifest_frame [OF um, of p] that xmlName_fixed by auto
      show ?thesis
      proof (cases r0)
        case e: (Inl e)
        with run None Inr um have "r = Inl e" "fs' = fsm"
          by (simp_all add: generate_def Let_def io_bind_def)
        with fm show ?thesis by simp
      next
        case x: (Inr x)
        with run None Inr um s'(2)
        have w: "writeEDMXServiceFiles basePath paths
                   (path_join [moduleDirname, ''../templates'']) s' fsm = (r, fs')"
          by (simp add: generate_def Let_def io_bind_def paths_def)
        from no_metadata_tail [OF s'(1) names(1) names(3) w]
        obtain r1 fs1 where bs: "writeEDMX_backend paths s' fsm = (r1, fs1)"
          and tl: "\<And>p. \<not> xmlName (fileName p) \<Longrightarrow> fileName p \<noteq> ''package.json'' \<Longrightarrow> fs' p = fs1 p"
          and ok: "r = Inr () \<Longrightarrow> \<exists>u l. r1 = Inr (u, l)"
          by blast
        have kept: "fs1 p = fsm p \<or> ((ui5Yaml paths = Some p \<or> ui5LocalYaml paths = Some p)
              \<and> backendWritten s' (fsm p) (fs1 p))" for p
          using backend_stage_kept [OF bs] by (simp add: yamlKept_def)
        have a: "fs' p = fs p" if n: "fileName p = ''ui5-mock.yaml''" for p
        proof -
          from n have "ui5Yaml paths \<noteq> Some p" "ui5LocalYaml paths \<noteq> Some p"
            using names(2) [of p] names(3) [of p] by auto
          with kept [of p] have "fs1 p = fsm p" by auto
          with tl [of p] fm [of p] n xmlName_fixed show ?thesis by simp
        qed
        have b: "fs' p = fs p
              \<or> (\<exists>c cfg cfg'. fs p = Some c \<and> newInstance c = Inr cfg
                     \<and> fs' p = Some (YamlFile cfg')
                     \<and> cf_mockserver cfg' = cf_mockserver cfg \<and> cf_other cfg' = cf_other cfg)"
          if n: "fileName p = ''ui5.yaml'' \<or> fileName p = ''ui5-local.yaml''" for p
        proof -
          from n have e: "fs' p = fs1 p" "fsm p = fs p"
            using tl [of p] fm [of p] xmlName_fixed by auto
          from kept [of p] show ?thesis
          proof
            assume "fs1 p = fsm p"
            with e show ?thesis by simp
          next
            assume "(ui5Yaml paths = Some p \<or> ui5LocalYaml paths = Some p)
              \<and> backendWritten s' (fsm p) (fs1 p)"
            then obtain c cfg where o: "fsm p = Some c" "newInstance c = Inr cfg"
              "fs1 p = Some (YamlFile (extended s' cfg))"
              by (auto simp: backendWritten_def)
            have "fs p = Some c \<and> newInstance c = Inr cfg
                     \<and> fs' p = Some (YamlFile (extended s' cfg))
                     \<and> cf_mockserver (extended s' cfg) = cf_mockserver cfg
                     \<and> cf_other (extended s' cfg) = cf_other cfg"
              using o e extended_facts(1,2) [of s' cfg] by simp
            then show ?thesis by blast
          qed
        qed
        have c: "\<exists>service' cfg' px. enhanceData basePath service fs = Inr service'
                   \<and> fs' yp = Some (YamlFile cfg') \<and> cf_proxy cfg' = Some px
                   \<and> sv_previewSettings service' \<in> set (px_backend px)"
          if r: "r = Inr ()" and y: "ui5Yaml paths = Some yp
                  \<or> (ui5Yaml paths \<noteq> None \<and> ui5LocalYaml paths = Some yp)" for yp
        proof -
          from ok [OF r] obtain u l where ul: "r1 = Inr (u, l)" by blast
          from y have n: "fileName yp = ''ui5.yaml'' \<or> fileName yp = ''ui5-local.yaml''"
            using names(2) [of yp] names(3) [of yp] by auto
          then have e: "fs' yp = fs1 yp"
            using tl [of yp] xmlName_fixed by auto
          from bs ul have bs': "writeEDMX_backend paths s' fsm = (Inr (u, l), fs1)" by simp
          have "\<exists>cfg. fs1 yp = Some (YamlFile (extended s' cfg))"
            using y
          proof
            assume "ui5Yaml paths = Some yp"
            then show ?thesis by (rule backend_stage_yaml [OF bs'])
          next
            assume l: "ui5Yaml paths \<noteq> None \<and> ui5LocalYaml paths = Some yp"
            then show ?thesis using backend_stage_local [OF bs'] by simp
          qed
          then obtain cfg where f1: "fs1 yp = Some (YamlFile (extended s' cfg))" by blast
          from extended_facts(3) [of s' cfg] obtain px where
            px: "cf_proxy (extended s' cfg) = Some px" "sv_previewSettings s' \<in> set (px_backend px)"
            by blast
          have "enhanceData basePath service fs = Inr s'
                   \<and> fs' yp = Some (YamlFile (extended s' cfg))
                   \<and> cf_proxy (extended s' cfg) = Some px
                   \<and> sv_previewSettings s' \<in> set (px_backend px)"
            using Inr e f1 px by simp
          then show ?thesis by blast
        qed
        have A: "\<forall>p. fileName p = ''ui5-mock.yaml'' \<longrightarrow> fs' p = fs p"
          using a by blast
        have B: "\<forall>p. fileName p = ''ui5.yaml'' \<or> fileName p = ''ui5-local.yaml'' \<longrightarrow>
              fs' p = fs p
              \<or> (\<exists>c cfg cfg'. fs p = Some c \<and> newInstance c = Inr cfg
                     \<and> fs' p = Some (YamlFile cfg')
                     \<and> cf_mockserver cfg' = cf_mockserver cfg \<and> cf_other cfg' = cf_other cfg)"
          using b by blast
        have C: "r = Inr () \<longrightarrow>
            (\<forall>yp. ui5Yaml (findProjectFiles basePath fs) = Some yp
                  \<or> (ui5Yaml (findProjectFiles basePath fs) \<noteq> None
                      \<and> ui5LocalYaml (findProjectFiles basePath fs) = Some yp) \<longrightarrow>
               (\<exists>service' cfg' px. enhanceData basePath service fs = Inr service'
                   \<and> fs' yp = Some (YamlFile cfg') \<and> cf_proxy cfg' = Some px
                   \<and> sv_previewSettings service' \<in> set (px_backend px)))"
          using c unfolding paths_def by blast
        from A B C show ?thesis by (intro conjI)
      qed
    qed
  qed
qed


lemma generate_success:
  assumes run: "generate cds b service (Some fs) = (Inr (), fs')"
    and ty: "sv_type service \<noteq> Some CDS"
  shows "\<exists>s' fsm. enhanceData b service fs = Inr s' \<and> updateManifest b s' fs = (Inr (), fsm)
           \<and> writeEDMXServiceFiles b (findProjectFiles b fs)
                (path_join [moduleDirname, ''../templates'']) s' fsm = (Inr (), fs')"
  using generate_decompose [OF run ty] by auto

lemma generate_backend_final:
  assumes run: "generate cds b service (Some fs) = (Inr (), fs')"
    and ty: "sv_type service \<noteq> Some CDS"
    and y: "ui5Yaml (findProjectFiles b fs) = Some yp
            \<or> (ui5Yaml (findProjectFiles b fs) \<noteq> None
                \<and> ui5LocalYaml (findProjectFiles b fs) = Some yp)"
  shows "\<exists>service' cfg' px. enhanceData b service fs = Inr service'
           \<and> fs' yp = Some (YamlFile cfg') \<and> cf_proxy cfg' = Some px
           \<and> sv_previewSettings service' \<in> set (px_backend px)"
proof -
  from generate_success [OF run ty]
  obtain s' fsm where e: "enhanceData b service fs = Inr s'"
    and w: "writeEDMXServiceFiles b (findProjectFiles b fs)
                (path_join [moduleDirname, ''../templates'']) s' fsm = (Inr (), fs')"
    by blast
  note names = findProjectFiles_names [of b fs]
  from writeEDMX_backend_final [OF w names(1) names(3) names(4) names(2) y]
  obtain cfg' px where "fs' yp = Some (YamlFile cfg')" "cf_proxy cfg' = Some px"
    "sv_previewSettings s' \<in> set (px_backend px)"
    by blast
  with e show ?thesis by blast
qed

lemma generate_no_yaml:
  assumes run: "generate cds b service (Some fs) = (r, fs')"
    and ty: "sv_type service \<noteq> Some CDS"
    and y: "ui5Yaml (findProjectFiles b fs) = None"
    and n: "fileName p = ''ui5.yaml'' \<or> fileName p = ''ui5-local.yaml''
            \<or> fileName p = ''ui5-mock.yaml''"
  shows "fs' p = fs p"
proof -
  from n have nx: "\<not> xmlName (fileName p)" and nj: "fileName p \<noteq> ''manifest.json''"
    by (auto simp: xmlName_fixed)
  from generate_decompose [OF run ty]
  consider "fs' = fs"
    | s' e fsm where "updateManifest b s' fs = (Inl e, fsm)" "fs' = fsm"
    | s' fsm where "updateManifest b s' fs = (Inr (), fsm)"
        "writeEDMXServiceFiles b (findProjectFiles b fs)
           (path_join [moduleDirname, ''../templates'']) s' fsm = (r, fs')"
    by blast
  then show ?thesis
  proof cases
    case 1
    then show ?thesis by simp
  next
    case 2
    with updateManifest_frame [OF 2(1) nx nj] show ?thesis by simp
  next
    case 3
    from io_frameD [OF no_yaml_frame [OF y] 3(2) nx] updateManifest_frame [OF 3(1) nx nj]
    show ?thesis by simp
  qed
qed

lemma generate_mock_final:
  assumes run: "generate cds b service (Some fs) = (Inr (), fs')"
    and ty: "sv_type service \<noteq> Some CDS"
    and t: "truthy (sv_metadata service)"
    and y: "ui5Yaml (findProjectFiles b fs) = Some yp"
  shows "\<exists>m cfg0 c. fs' (manifestPathOf b) = Some (ManifestFile m)
           \<and> ((fs (path_join [b, ''ui5-mock.yaml'']) = None \<and> cfg0 = emptyConfig)
                \<or> documentAt fs (path_join [b, ''ui5-mock.yaml'']) = Some cfg0)
           \<and> fs' (path_join [b, ''ui5-mock.yaml'']) = Some (YamlFile c)
           \<and> cf_mockserver c
               = cf_mockserver (upsertMockServices (mf_dataSources m) (mf_dataSources m) cfg0)"
    and "\<And>mp. ui5MockYaml (findProjectFiles b fs) = Some mp \<Longrightarrow>
           \<exists>service' c px. enhanceData b service fs = Inr service'
             \<and> fs' mp = Some (YamlFile c) \<and> cf_proxy c = Some px
             \<and> sv_previewSettings service' \<in> set (px_backend px)"
    and "\<And>lp. ui5LocalYaml (findProjectFiles b fs) = Some lp \<Longrightarrow>
           \<exists>cl cm. fs' lp = Some (YamlFile cl)
             \<and> documentAt fs' (path_join [path_dirname yp, ''ui5-mock.yaml'']) = Some cm
             \<and> (cf_mockserver cm \<noteq> None \<longrightarrow> cf_mockserver cl = cf_mockserver cm)"
proof -
  define q where "q = path_join [b, ''ui5-mock.yaml'']"
  from generate_success [OF run ty]
  obtain s' fsm where e: "enhanceData b service fs = Inr s'"
    and u: "updateManifest b s' fs = (Inr (), fsm)"
    and w: "writeEDMXServiceFiles b (findProjectFiles b fs)
                (path_join [moduleDirname, ''../templates'']) s' fsm = (Inr (), fs')"
    by blast
  from enhanceData_keeps [OF e] t have t': "truthy (sv_metadata s')" by simp
  note names = findProjectFiles_names [of b fs]
  note fin = writeEDMX_mock_final [OF w t' names(1) names(3) names(4) names(2) y]
  have "fileName q = ''ui5-mock.yaml''" by (simp add: q_def fileName_fixed)
  then have "fsm q = fs q"
    by (intro updateManifest_frame [OF u]) (simp_all add: xmlName_fixed)
  then have q: "fsm q = fs q" "documentAt fsm q = documentAt fs q"
    by (simp_all add: documentAt_def)
  show "\<exists>m cfg0 c. fs' (manifestPathOf b) = Some (ManifestFile m)
           \<and> ((fs (path_join [b, ''ui5-mock.yaml'']) = None \<and> cfg0 = emptyConfig)
                \<or> documentAt fs (path_join [b, ''ui5-mock.yaml'']) = Some cfg0)
           \<and> fs' (path_join [b, ''ui5-mock.yaml'']) = Some (YamlFile c)
           \<and> cf_mockserver c
               = cf_mockserver (upsertMockServices (mf_dataSources m) (mf_dataSources m) cfg0)"
  proof -
    from fin(1) obtain m cfg0 c where a: "fsm (manifestPathOf b) = Some (ManifestFile m)"
      "(fsm q = None \<and> cfg0 = emptyConfig) \<or> documentAt fsm q = Some cfg0"
      "fs' q = Some (YamlFile c)"
      "cf_mockserver c
               = cf_mockserver (upsertMockServices (mf_dataSources m) (mf_dataSources m) cfg0)"
      unfolding q_def by blast
    from generate_manifest(2) [OF run ty e u] a(1)
    have "fs' (manifestPathOf b) = Some (ManifestFile m)" by simp
    with a(2,3,4) q have "fs' (manifestPathOf b) = Some (ManifestFile m)
           \<and> ((fs q = None \<and> cfg0 = emptyConfig) \<or> documentAt fs q = Some cfg0)
           \<and> fs' q = Some (YamlFile c)
           \<and> cf_mockserver c
               = cf_mockserver (upsertMockServices (mf_dataSources m) (mf_dataSources m) cfg0)"
      by simp
    then show ?thesis unfolding q_def by blast
  qed
  show "\<exists>service' c px. enhanceData b service fs = Inr service'
             \<and> fs' mp = Some (YamlFile c) \<and> cf_proxy c = Some px
             \<and> sv_previewSettings service' \<in> set (px_backend px)"
    if "ui5MockYaml (findProjectFiles b fs) = Some mp" for mp
    using fin(2) [of mp] that e by blast
  show "\<exists>cl cm. fs' lp = Some (YamlFile cl)
             \<and> documentAt fs' (path_join [path_dirname yp, ''ui5-mock.yaml'']) = Some cm
             \<and> (cf_mockserver cm \<noteq> None \<longrightarrow> cf_mockserver cl = cf_mockserver cm)"
    if "ui5LocalYaml (findProjectFiles b fs) = Some lp" for lp
    using fin(3) [of lp] that by blast
qed

lemma standard_paths:
  "findProjectFiles ''/p'' standardProject =
     \<lparr>packageJson = Some ''/p/package.json'', ui5Yaml = Some ''/p/ui5.yaml'',
      ui5LocalYaml = Some ''/p/ui5-local.yaml'', ui5MockYaml = Some ''/p/ui5-mock.yaml''\<rparr>"
  by code_simp

lemma standard_metadata_ok:
  "fst (generate noCds ''/p'' northwindMetadata (Some standardProject)) = Inr ()"
  by code_simp

lemma noYaml_eval:
  "ui5Yaml (findProjectFiles ''/p'' noYamlProject) = None"
  "fst (generate noCds ''/p'' northwindMetadata (Some noYamlProject)) = Inr ()"
  "snd (generate noCds ''/p'' northwindMetadata (Some noYamlProject)) ''/p/ui5-local.yaml''
     = Some (YamlFile proxyOnly)"
  "snd (generate noCds ''/p'' northwindMetadata (Some noYamlProject)) ''/p/ui5-mock.yaml''
     = Some (YamlFile mockOnly)"
  by code_simp+

section \<open>The payload files after a run\<close>












section \<open>Claims\<close>

text \<open>
  C10. \<^verbatim>\<open>generate\<close> locates \<^verbatim>\<open>package.json\<close>, \<^verbatim>\<open>ui5.yaml\<close>, \<^verbatim>\<open>ui5-local.yaml\<close> and
  \<^verbatim>\<open>ui5-mock.yaml\<close> by walking upward from the base path: for each file independently
  the result is the closest level that holds it, and the walk has as many rounds as the
  base path has segments. The manifest is never searched upward: when
  \<^verbatim>\<open>webapp/manifest.json\<close> is absent under the base path, \<^verbatim>\<open>generate\<close> throws the
  required-project-file-not-found error, whatever the ancestor directories hold.
\<close>

theorem findProjectFiles_walks_upward:
  "findProjectFiles basePath fs =
     \<lparr>packageJson = closest fs basePath ''package.json'',
      ui5Yaml = closest fs basePath ''ui5.yaml'',
      ui5LocalYaml = closest fs basePath ''ui5-local.yaml'',
      ui5MockYaml = closest fs basePath ''ui5-mock.yaml''\<rparr>
   \<and> length (levels basePath) = length (split_sep basePath)
   \<and> (\<not> exists_file fs (path_join [basePath, ''webapp/manifest.json'']) \<longrightarrow>
        generate cds basePath service (Some fs) =
          (Inl (Error (T ''error.requiredProjectFileNotFound''
                         [(''path'', ''webapp/manifest.json'')])), fs))"
proof -
  have "length (levels_rev xs) = length xs" for xs
    by (induction xs) simp_all
  then have b: "length (levels basePath) = length (split_sep basePath)"
    by (simp add: levels_def)
  have c: "\<not> exists_file fs (path_join [basePath, ''webapp/manifest.json'']) \<longrightarrow>
        generate cds basePath service (Some fs) =
          (Inl (Error (T ''error.requiredProjectFileNotFound''
                         [(''path'', ''webapp/manifest.json'')])), fs)"
    by (simp add: generate_def Let_def)
  from findProjectFiles_closest [of basePath fs] b c show ?thesis by blast
qed

theorem findProjectFiles_walks_upward_witness:
  "\<not> exists_file nestedProject ''/a/b/webapp/manifest.json''
   \<and> exists_file nestedProject ''/a/webapp/manifest.json''
   \<and> findProjectFiles ''/a/b'' nestedProject =
       \<lparr>packageJson = Some ''/a/package.json'', ui5Yaml = Some ''/a/ui5.yaml'',
        ui5LocalYaml = Some ''/a/b/ui5-local.yaml'', ui5MockYaml = None\<rparr>
   \<and> generate noCds ''/a/b'' northwind (Some nestedProject) =
       (Inl (Error (T ''error.requiredProjectFileNotFound''
                      [(''path'', ''webapp/manifest.json'')])), nestedProject)"
proof -
  have l: "levels ''/a/b'' = [''/a/b'', ''/a'', [] ]"
    by (simp add: levels_def sep_def)
  show ?thesis
    using findProjectFiles_walks_upward [of "''/a/b''" nestedProject noCds northwind]
    by (simp add: closest_def l nested_joins exists_file_def nestedProject_def)
qed

text \<open>
  C1. \<^verbatim>\<open>generate\<close> throws \<^verbatim>\<open>RequiredProjectFileNotFound\<close> when
  \<^verbatim>\<open>webapp/manifest.json\<close> does not exist (also when no editor is passed, since the
  fresh editor is empty), and \<^verbatim>\<open>RequiredProjectPropertyNotFound\<close> when the manifest exists
  but lacks \<^verbatim>\<open>'sap.app'.id\<close>. In both cases the staged file system at the moment the
  error surfaces is the one \<^verbatim>\<open>generate\<close> was given.
\<close>

theorem generate_required_project_errors:
  "(\<not> exists_file fs (path_join [basePath, ''webapp/manifest.json'']) \<longrightarrow>
      generate cds basePath service (Some fs) =
        (Inl (Error (T ''error.requiredProjectFileNotFound''
                       [(''path'', ''webapp/manifest.json'')])), fs))
   \<and> (fs (path_join [basePath, ''webapp/manifest.json'']) = Some (ManifestFile manifest)
        \<and> mf_id manifest = None \<longrightarrow>
      generate cds basePath service (Some fs) =
        (Inl (Error (T ''error.requiredProjectPropertyNotFound''
                       [(''property'', apos @ ''sap.app'' @ apos @ ''.id''),
                        (''path'', path_join [basePath, ''webapp/manifest.json''])])), fs))
   \<and> generate cds basePath service None =
        (Inl (Error (T ''error.requiredProjectFileNotFound''
                       [(''path'', ''webapp/manifest.json'')])), Map.empty)"
proof -
  have a: "\<not> exists_file fs (path_join [basePath, ''webapp/manifest.json'']) \<longrightarrow>
      generate cds basePath service (Some fs) =
        (Inl (Error (T ''error.requiredProjectFileNotFound''
                       [(''path'', ''webapp/manifest.json'')])), fs)"
    by (simp add: generate_def Let_def)
  have b: "generate cds basePath service (Some fs) =
        (Inl (Error (T ''error.requiredProjectPropertyNotFound''
                       [(''property'', apos @ ''sap.app'' @ apos @ ''.id''),
                        (''path'', path_join [basePath, ''webapp/manifest.json''])])), fs)"
    if m: "fs (path_join [basePath, ''webapp/manifest.json'']) = Some (ManifestFile manifest)"
      and i: "mf_id manifest = None"
  proof -
    from m have m': "fs (manifestPathOf basePath) = Some (ManifestFile manifest)"
      by (simp add: manifest_path_eq)
    obtain service' where e: "enhanceData basePath service fs = Inr service'"
      using m' by (simp add: enhanceData_def manifestIfPresent_def Let_def)
    have u: "updateManifest basePath service' fs =
        (Inl (requiredProjectPropertyNotFound (apos @ ''sap.app'' @ apos @ ''.id'')
               (manifestPathOf basePath)), fs)"
      using m' i by (simp add: updateManifest_def readManifest_def Let_def)
    show ?thesis
      using m e u
      by (simp add: generate_def Let_def exists_file_def io_bind_def
            requiredProjectPropertyNotFound_def manifest_path_eq)
  qed
  have c: "generate cds basePath service None =
        (Inl (Error (T ''error.requiredProjectFileNotFound''
                       [(''path'', ''webapp/manifest.json'')])), Map.empty)"
    by (simp add: generate_def Let_def exists_file_def)
  from a b c show ?thesis by blast
qed

theorem generate_required_project_errors_witness:
  "\<not> exists_file Map.empty (path_join [''/p'', ''webapp/manifest.json''])
   \<and> generate noCds ''/p'' northwind (Some Map.empty) =
        (Inl (Error (T ''error.requiredProjectFileNotFound''
                       [(''path'', ''webapp/manifest.json'')])), Map.empty)
   \<and> faultyProject ''/p/webapp/manifest.json''
        = Some (ManifestFile \<lparr>mf_id = None, mf_dataSources = [], mf_models = []\<rparr>)
   \<and> generate noCds ''/p'' northwind (Some faultyProject) =
        (Inl (Error (T ''error.requiredProjectPropertyNotFound''
                       [(''property'', apos @ ''sap.app'' @ apos @ ''.id''),
                        (''path'', ''/p/webapp/manifest.json'')])), faultyProject)"
proof -
  have p: "path_join [''/p'', ''webapp/manifest.json''] = ''/p/webapp/manifest.json''"
    by (simp add: path_join_def path_normalize_def normalizeString_def sep_def)
  show ?thesis
    using generate_required_project_errors [where fs = Map.empty and basePath = "''/p''"
        and cds = noCds and service = northwind]
      generate_required_project_errors [where fs = faultyProject and basePath = "''/p''"
        and manifest = "\<lparr>mf_id = None, mf_dataSources = [], mf_models = []\<rparr>"
        and cds = noCds and service = northwind]
    by (simp add: p exists_file_def faultyProject_def)
qed

text \<open>
  C9. When the document model fails to add the backend entry with the not-found
  condition (the one the \<^verbatim>\<open>catch\<close> block tests: a \<^verbatim>\<open>YAMLError\<close> with code
  \<^verbatim>\<open>nodeNotFound\<close>, or the message \<^verbatim>\<open>Could not find fiori-tools-proxy\<close>),
  \<^verbatim>\<open>extendBackendMiddleware\<close> creates the proxy middleware block with that single backend
  entry and writes the document; every other error is re-thrown unchanged, with nothing
  written. This holds for any implementation of the document model's operation, and in
  particular a document without the block gets the block.
\<close>

theorem extendBackendMiddleware_recovers_not_found:
  "(add (sv_previewSettings service) ui5Config = Inl e \<and> middlewareNotFound e \<longrightarrow>
      extendBackendMiddleware_with add service ui5Config path fs =
        (Inr (ui5Config\<lparr>cf_proxy := Some \<lparr>px_backend = [sv_previewSettings service],
                                          px_ignoreCertError = sv_ignoreCertError service\<rparr>\<rparr>),
         fs(path \<mapsto> YamlFile
              (ui5Config\<lparr>cf_proxy := Some \<lparr>px_backend = [sv_previewSettings service],
                                            px_ignoreCertError = sv_ignoreCertError service\<rparr>\<rparr>))))
   \<and> (add (sv_previewSettings service) ui5Config = Inl e \<and> \<not> middlewareNotFound e \<longrightarrow>
      extendBackendMiddleware_with add service ui5Config path fs = (Inl e, fs))
   \<and> (cf_proxy ui5Config = None \<longrightarrow>
      extendBackendMiddleware service ui5Config path fs =
        (Inr (ui5Config\<lparr>cf_proxy := Some \<lparr>px_backend = [sv_previewSettings service],
                                          px_ignoreCertError = sv_ignoreCertError service\<rparr>\<rparr>),
         fs(path \<mapsto> YamlFile
              (ui5Config\<lparr>cf_proxy := Some \<lparr>px_backend = [sv_previewSettings service],
                                            px_ignoreCertError = sv_ignoreCertError service\<rparr>\<rparr>))))
   \<and> middlewareNotFound (YAMLError nodeNotFound m)
   \<and> middlewareNotFound (Error (Literal ''Could not find fiori-tools-proxy''))
   \<and> (code \<noteq> nodeNotFound \<and> m \<noteq> Literal ''Could not find fiori-tools-proxy'' \<longrightarrow>
        \<not> middlewareNotFound (YAMLError code m) \<and> \<not> middlewareNotFound (Error m))"
  by (simp add: extendBackendMiddleware_with_def extendBackendMiddleware_def
        addBackendToFioriToolsProxydMiddleware_def addFioriToolsProxydMiddleware_def
        middlewareNotFound_def io_bind_def io_write_def io_return_def io_throw_def
        write_file_def toString_def Let_def)

theorem extendBackendMiddleware_recovers_not_found_witness:
  "addBackendToFioriToolsProxydMiddleware (sv_previewSettings northwind) emptyConfig
      = Inl (Error (Literal ''Could not find fiori-tools-proxy''))
   \<and> extendBackendMiddleware_with addBackendToFioriToolsProxydMiddleware northwind emptyConfig
        ''/p/ui5.yaml'' Map.empty =
        (Inr (emptyConfig\<lparr>cf_proxy := Some \<lparr>px_backend = [noPreview],
                                            px_ignoreCertError = None\<rparr>\<rparr>),
         [''/p/ui5.yaml'' \<mapsto> YamlFile
              (emptyConfig\<lparr>cf_proxy := Some \<lparr>px_backend = [noPreview],
                                              px_ignoreCertError = None\<rparr>\<rparr>)])
   \<and> \<not> middlewareNotFound
          (YAMLError (otherCode ''startNodeMustBeCollection'') (Literal ''bad document''))
   \<and> extendBackendMiddleware_with failingAdd northwind emptyConfig ''/p/ui5.yaml'' Map.empty =
        (Inl (YAMLError (otherCode ''startNodeMustBeCollection'') (Literal ''bad document'')),
         Map.empty)"
  using extendBackendMiddleware_recovers_not_found
          [where add = addBackendToFioriToolsProxydMiddleware and service = northwind
             and ui5Config = emptyConfig and path = "''/p/ui5.yaml''" and fs = Map.empty
             and e = "Error (Literal ''Could not find fiori-tools-proxy'')"]
        extendBackendMiddleware_recovers_not_found
          [where add = failingAdd and service = northwind
             and ui5Config = emptyConfig and path = "''/p/ui5.yaml''" and fs = Map.empty
             and e = "YAMLError (otherCode ''startNodeMustBeCollection'') (Literal ''bad document'')"
             and code = "otherCode ''startNodeMustBeCollection''" and m = "Literal ''bad document''"]
  by (simp add: addBackendToFioriToolsProxydMiddleware_def emptyConfig_def northwind_def
        failingAdd_def)

text \<open>
  C7. For a descriptor without a name, applied to a manifest whose data-source table is
  empty, the enhancement does not throw; it assigns the name \<^verbatim>\<open>mainService\<close> and a path
  that ends with \<^verbatim>\<open>/\<close>: the given path, with \<^verbatim>\<open>/\<close> appended unless it ends with it, and
  \<^verbatim>\<open>/\<close> when the path is absent. After \<^verbatim>\<open>generate\<close> for such a descriptor (not of type
  CDS, the manifest having its \<^verbatim>\<open>sap.app.id\<close>) the manifest holds the entry
  \<^verbatim>\<open>mainService\<close> whose \<^verbatim>\<open>uri\<close> is that path.
\<close>

theorem naming_default:
  assumes m: "fs (path_join [basePath, ''webapp/manifest.json'']) = Some (ManifestFile manifest)"
    and empty: "mf_dataSources manifest = []"
    and noname: "sv_name service = None"
  shows "\<exists>s' p. enhanceData basePath service fs = Inr s'
           \<and> sv_name s' = Some ''mainService''
           \<and> sv_path s' = Some p \<and> endsWith p ''/''
           \<and> (sv_path service = None \<longrightarrow> p = ''/'')
           \<and> (\<forall>q. sv_path service = Some q \<longrightarrow> p = (if endsWith q ''/'' then q else q @ ''/''))
           \<and> (mf_id manifest \<noteq> None \<and> sv_type service \<noteq> Some CDS \<longrightarrow>
                (\<exists>m' ds. snd (generate cds basePath service (Some fs))
                             (path_join [basePath, ''webapp/manifest.json''])
                           = Some (ManifestFile m')
                   \<and> map_of (mf_dataSources m') ''mainService'' = Some ds \<and> ds_uri ds = p))"
proof -
  from m have m': "fs (manifestPathOf basePath) = Some (ManifestFile manifest)"
    by (simp add: manifest_path_eq)
  from enhanceData_runs [where fs = fs, OF m']
  obtain s' where e: "enhanceData basePath service fs = Inr s'" by blast
  define p where "p = (case sv_path service of
                         None \<Rightarrow> ''/''
                       | Some p \<Rightarrow> (if endsWith p ''/'' then p else p @ ''/''))"
  from enhanceData_fields [where fs = fs, OF e m'] empty noname
  have n: "sv_name s' = Some ''mainService''" and sp: "sv_path s' = Some p"
    and an: "sv_annotations s' =
           map_option (enhanceAnnotations [] (Some ''mainService'')) (sv_annotations service)"
    by (simp_all add: p_def)
  have pe: "endsWith p ''/''"
    by (cases "sv_path service") (auto simp: p_def endsWith_slash endsWith_def)
  have nk: "nameOrMain s' \<notin> set (annotationKeys (sv_annotations s'))"
    using n an by (auto simp: nameOrMain_def annotationKeys_enhance disambiguate_own)
  have g: "\<exists>m' ds. snd (generate cds basePath service (Some fs))
                             (path_join [basePath, ''webapp/manifest.json''])
                           = Some (ManifestFile m')
                   \<and> map_of (mf_dataSources m') ''mainService'' = Some ds \<and> ds_uri ds = p"
    if i: "mf_id manifest \<noteq> None" and ty: "sv_type service \<noteq> Some CDS"
  proof -
    from updateManifest_runs [where fs = fs, OF m' i]
    obtain fsm where u: "updateManifest basePath s' fs = (Inr (), fsm)" by blast
    from updateManifest_ok [OF u] m'
    have fm: "fsm (manifestPathOf basePath) =
               Some (ManifestFile
                 (manifest\<lparr>mf_dataSources := mergeService s' (migratedTable (mf_dataSources manifest)),
                    mf_models := bindModel (js_string (sv_model s')) (nameOrMain s')
                                   (mf_models manifest)\<rparr>))"
      by auto
    have run: "generate cds basePath service (Some fs) =
        (fst (generate cds basePath service (Some fs)), snd (generate cds basePath service (Some fs)))"
      by simp
    from generate_manifest(2) [OF run ty e u] fm
    have fin: "snd (generate cds basePath service (Some fs)) (manifestPathOf basePath) =
               Some (ManifestFile
                 (manifest\<lparr>mf_dataSources := mergeService s' (migratedTable (mf_dataSources manifest)),
                    mf_models := bindModel (js_string (sv_model s')) (nameOrMain s')
                                   (mf_models manifest)\<rparr>))"
      by simp
    from mergeService_own [OF nk, of "migratedTable (mf_dataSources manifest)"]
    obtain ds where "map_of (mergeService s' (migratedTable (mf_dataSources manifest))) (nameOrMain s')
          = Some ds" "ds_uri ds = js_string (sv_path s')"
      by blast
    with n sp have "map_of (mergeService s' (migratedTable (mf_dataSources manifest))) ''mainService''
          = Some ds \<and> ds_uri ds = p"
      by (simp add: nameOrMain_def js_string_def)
    with fin show ?thesis by (simp add: manifest_path_eq)
  qed
  have a1: "sv_path service = None \<longrightarrow> p = ''/''"
    by (simp add: p_def)
  have a2: "\<forall>q. sv_path service = Some q \<longrightarrow> p = (if endsWith q ''/'' then q else q @ ''/'')"
    by (simp add: p_def)
  have a3: "mf_id manifest \<noteq> None \<and> sv_type service \<noteq> Some CDS \<longrightarrow>
                (\<exists>m' ds. snd (generate cds basePath service (Some fs))
                             (path_join [basePath, ''webapp/manifest.json''])
                           = Some (ManifestFile m')
                   \<and> map_of (mf_dataSources m') ''mainService'' = Some ds \<and> ds_uri ds = p)"
    using g by (intro impI) (elim conjE)
  show ?thesis
    by (intro exI [of _ s'] exI [of _ p] conjI e n sp pe a1 a2 a3)
qed

theorem naming_default_witness:
  "standardProject (path_join [''/p'', ''webapp/manifest.json'']) = Some (ManifestFile testManifest)
   \<and> mf_dataSources testManifest = [] \<and> sv_name northwind = None
   \<and> sv_path northwind = Some ''/V2/Northwind/Northwind.svc''
   \<and> (\<exists>s' m' ds. enhanceData ''/p'' northwind standardProject = Inr s'
          \<and> sv_name s' = Some ''mainService''
          \<and> sv_path s' = Some ''/V2/Northwind/Northwind.svc/''
          \<and> snd (generate noCds ''/p'' northwind (Some standardProject))
               (path_join [''/p'', ''webapp/manifest.json'']) = Some (ManifestFile m')
          \<and> map_of (mf_dataSources m') ''mainService'' = Some ds
          \<and> ds_uri ds = ''/V2/Northwind/Northwind.svc/'')
   \<and> (\<exists>s'. enhanceData ''/p'' (northwind\<lparr>sv_path := None\<rparr>) standardProject = Inr s'
          \<and> sv_name s' = Some ''mainService'' \<and> sv_path s' = Some ''/'')"
proof -
  have h: "mf_dataSources testManifest = []" "sv_name northwind = None"
    "sv_path northwind = Some ''/V2/Northwind/Northwind.svc''"
    "mf_id testManifest \<noteq> None \<and> sv_type northwind \<noteq> Some CDS"
    "sv_name (northwind\<lparr>sv_path := None\<rparr>) = None"
    "sv_path (northwind\<lparr>sv_path := None\<rparr>) = None"
    by (simp_all add: testManifest_def northwind_def)
  obtain s' p where c: "enhanceData ''/p'' northwind standardProject = Inr s'
           \<and> sv_name s' = Some ''mainService''
           \<and> sv_path s' = Some p \<and> endsWith p ''/''
           \<and> (sv_path northwind = None \<longrightarrow> p = ''/'')
           \<and> (\<forall>q. sv_path northwind = Some q \<longrightarrow> p = (if endsWith q ''/'' then q else q @ ''/''))
           \<and> (mf_id testManifest \<noteq> None \<and> sv_type northwind \<noteq> Some CDS \<longrightarrow>
                (\<exists>m' ds. snd (generate noCds ''/p'' northwind (Some standardProject))
                             (path_join [''/p'', ''webapp/manifest.json''])
                           = Some (ManifestFile m')
                   \<and> map_of (mf_dataSources m') ''mainService'' = Some ds \<and> ds_uri ds = p))"
    using naming_default [where fs = standardProject and cds = noCds, OF standard_manifest h(1,2)]
    by (elim exE) (rule that)
  note c1 = c [THEN conjunct1] and c2 = c [THEN conjunct2, THEN conjunct1]
    and c3 = c [THEN conjunct2, THEN conjunct2, THEN conjunct1]
    and c6 = c [THEN conjunct2, THEN conjunct2, THEN conjunct2, THEN conjunct2, THEN conjunct2,
                THEN conjunct1, THEN spec, THEN mp, OF h(3)]
    and c7 = c [THEN conjunct2, THEN conjunct2, THEN conjunct2, THEN conjunct2, THEN conjunct2,
                THEN conjunct2, THEN mp, OF h(4)]
  from c6 northwind_slash have p: "p = ''/V2/Northwind/Northwind.svc/''" by simp
  obtain m' ds where d: "snd (generate noCds ''/p'' northwind (Some standardProject))
                             (path_join [''/p'', ''webapp/manifest.json''])
                           = Some (ManifestFile m')
                   \<and> map_of (mf_dataSources m') ''mainService'' = Some ds \<and> ds_uri ds = p"
    using c7 by (elim exE) (rule that)
  note d1 = d [THEN conjunct1] and d2 = d [THEN conjunct2, THEN conjunct1]
    and d3 = d [THEN conjunct2, THEN conjunct2]
  have a: "\<exists>s' m' ds. enhanceData ''/p'' northwind standardProject = Inr s'
          \<and> sv_name s' = Some ''mainService''
          \<and> sv_path s' = Some ''/V2/Northwind/Northwind.svc/''
          \<and> snd (generate noCds ''/p'' northwind (Some standardProject))
               (path_join [''/p'', ''webapp/manifest.json'']) = Some (ManifestFile m')
          \<and> map_of (mf_dataSources m') ''mainService'' = Some ds
          \<and> ds_uri ds = ''/V2/Northwind/Northwind.svc/''"
    using c1 c2 c3 d1 d2 d3 unfolding p
    by (intro exI [of _ s'] exI [of _ m'] exI [of _ ds] conjI)
  obtain s2 p2 where e: "enhanceData ''/p'' (northwind\<lparr>sv_path := None\<rparr>) standardProject = Inr s2
           \<and> sv_name s2 = Some ''mainService''
           \<and> sv_path s2 = Some p2 \<and> endsWith p2 ''/''
           \<and> (sv_path (northwind\<lparr>sv_path := None\<rparr>) = None \<longrightarrow> p2 = ''/'')
           \<and> (\<forall>q. sv_path (northwind\<lparr>sv_path := None\<rparr>) = Some q
                  \<longrightarrow> p2 = (if endsWith q ''/'' then q else q @ ''/''))
           \<and> (mf_id testManifest \<noteq> None \<and> sv_type (northwind\<lparr>sv_path := None\<rparr>) \<noteq> Some CDS \<longrightarrow>
                (\<exists>m' ds. snd (generate noCds ''/p'' (northwind\<lparr>sv_path := None\<rparr>)
                                  (Some standardProject))
                             (path_join [''/p'', ''webapp/manifest.json''])
                           = Some (ManifestFile m')
                   \<and> map_of (mf_dataSources m') ''mainService'' = Some ds \<and> ds_uri ds = p2))"
    using naming_default [where fs = standardProject and cds = noCds
      and service = "northwind\<lparr>sv_path := None\<rparr>", OF standard_manifest h(1,5)]
    by (elim exE) (rule that)
  note e1 = e [THEN conjunct1] and e2 = e [THEN conjunct2, THEN conjunct1]
    and e3 = e [THEN conjunct2, THEN conjunct2, THEN conjunct1]
    and e5 = e [THEN conjunct2, THEN conjunct2, THEN conjunct2, THEN conjunct2, THEN conjunct1,
                THEN mp, OF h(6)]
  have b: "\<exists>s'. enhanceData ''/p'' (northwind\<lparr>sv_path := None\<rparr>) standardProject = Inr s'
          \<and> sv_name s' = Some ''mainService'' \<and> sv_path s' = Some ''/''"
    using e1 e2 e3 unfolding e5 by (intro exI [of _ s2] conjI)
  show ?thesis
    by (intro conjI standard_manifest h(1,2,3) a b)
qed




text \<open>
  C6, as stated: the Backend and Mock synchronizers are applied to each present YAML
  file if and only if the service carries metadata, so that a descriptor without
  metadata writes no backend entry to any YAML file. The first block of
  \<^verbatim>\<open>writeEDMXServiceFiles\<close> does not test the metadata: for the descriptor of the unit
  test without metadata, \<^verbatim>\<open>ui5.yaml\<close> receives the backend entry. And every block that
  writes a YAML file tests \<^verbatim>\<open>paths.ui5Yaml\<close>: for a descriptor with metadata in a
  project without \<^verbatim>\<open>ui5.yaml\<close>, the present \<^verbatim>\<open>ui5-local.yaml\<close> and \<^verbatim>\<open>ui5-mock.yaml\<close>
  are left as they are.
\<close>

theorem synchronizers_not_by_metadata:
  "sv_metadata northwind = None
   \<and> fst (generate noCds ''/p'' northwind (Some standardProject)) = Inr ()
   \<and> standardProject ''/p/ui5.yaml'' =
       Some (YamlFile \<lparr>cf_proxy = Some \<lparr>px_backend = [], px_ignoreCertError = Some False\<rparr>,
                       cf_mockserver = None, cf_other = []\<rparr>)
   \<and> snd (generate noCds ''/p'' northwind (Some standardProject)) ''/p/ui5.yaml'' =
       Some (YamlFile
         \<lparr>cf_proxy = Some \<lparr>px_backend =
             [\<lparr>be_path = Some ''/V2'', be_url = Some ''https://services.odata.org'',
               be_client = None, be_destination = None, be_apiHub = None, be_scp = None,
               be_pathPrefix = None\<rparr>],
             px_ignoreCertError = Some False\<rparr>,
          cf_mockserver = None, cf_other = []\<rparr>)
   \<and> sv_metadata northwindMetadata = Some ''<XML />''
   \<and> fst (generate noCds ''/p'' northwindMetadata (Some noYamlProject)) = Inr ()
   \<and> noYamlProject ''/p/ui5-local.yaml'' = Some (YamlFile proxyOnly)
   \<and> snd (generate noCds ''/p'' northwindMetadata (Some noYamlProject)) ''/p/ui5-local.yaml''
       = Some (YamlFile proxyOnly)
   \<and> noYamlProject ''/p/ui5-mock.yaml'' = Some (YamlFile mockOnly)
   \<and> snd (generate noCds ''/p'' northwindMetadata (Some noYamlProject)) ''/p/ui5-mock.yaml''
       = Some (YamlFile mockOnly)"
  using standard_ok standard_yaml standard_before noYaml_eval
  by (simp add: northwind_def northwindMetadata_def noYamlProject_def)

text \<open>
  C6, amended: during \<^verbatim>\<open>generate\<close> for an EDMX service, the Backend synchronizer is
  applied to the discovered \<^verbatim>\<open>ui5.yaml\<close>, and to the discovered \<^verbatim>\<open>ui5-local.yaml\<close> if
  \<^verbatim>\<open>ui5.yaml\<close> was found, with or without metadata: when \<^verbatim>\<open>generate\<close> returns, they hold
  the backend entry of the enhanced descriptor. Without metadata, only the mock-server
  synchronization is skipped: no file named \<^verbatim>\<open>ui5-mock.yaml\<close> is touched, and every file
  named \<^verbatim>\<open>ui5.yaml\<close> or \<^verbatim>\<open>ui5-local.yaml\<close> is either untouched or holds its former
  document with the same mock-server block and the same remaining content. When no
  \<^verbatim>\<open>ui5.yaml\<close> is discovered, no file named \<^verbatim>\<open>ui5.yaml\<close>, \<^verbatim>\<open>ui5-local.yaml\<close> or
  \<^verbatim>\<open>ui5-mock.yaml\<close> is touched, with or without metadata. With metadata and a
  discovered \<^verbatim>\<open>ui5.yaml\<close>, when \<^verbatim>\<open>generate\<close> returns: \<^verbatim>\<open>ui5-mock.yaml\<close> under the base
  path holds a document whose mock-server block is the one generated from the data
  sources of the updated manifest (on the former document of that file, or on the empty
  document if there was none); the discovered \<^verbatim>\<open>ui5-mock.yaml\<close> holds the backend entry
  of the enhanced descriptor; and the discovered \<^verbatim>\<open>ui5-local.yaml\<close> holds the mock-server
  block of the \<^verbatim>\<open>ui5-mock.yaml\<close> beside \<^verbatim>\<open>ui5.yaml\<close>, if that file has one.
\<close>

theorem generate_synchronizers:
  assumes ty: "sv_type service \<noteq> Some CDS"
    and run: "generate cds basePath service (Some fs) = (r, fs')"
  shows "(r = Inr () \<longrightarrow>
            (\<forall>yp. ui5Yaml (findProjectFiles basePath fs) = Some yp
                  \<or> (ui5Yaml (findProjectFiles basePath fs) \<noteq> None
                      \<and> ui5LocalYaml (findProjectFiles basePath fs) = Some yp) \<longrightarrow>
               (\<exists>service' cfg' px. enhanceData basePath service fs = Inr service'
                   \<and> fs' yp = Some (YamlFile cfg') \<and> cf_proxy cfg' = Some px
                   \<and> sv_previewSettings service' \<in> set (px_backend px))))
       \<and> (\<not> truthy (sv_metadata service) \<longrightarrow>
            (\<forall>p. fileName p = ''ui5-mock.yaml'' \<longrightarrow> fs' p = fs p)
            \<and> (\<forall>p. fileName p = ''ui5.yaml'' \<or> fileName p = ''ui5-local.yaml'' \<longrightarrow>
                  fs' p = fs p
                  \<or> (\<exists>c cfg cfg'. fs p = Some c \<and> newInstance c = Inr cfg
                         \<and> fs' p = Some (YamlFile cfg')
                         \<and> cf_mockserver cfg' = cf_mockserver cfg
                         \<and> cf_other cfg' = cf_other cfg)))
       \<and> (ui5Yaml (findProjectFiles basePath fs) = None \<longrightarrow>
            (\<forall>p. fileName p = ''ui5.yaml'' \<or> fileName p = ''ui5-local.yaml''
                  \<or> fileName p = ''ui5-mock.yaml'' \<longrightarrow> fs' p = fs p))
       \<and> (truthy (sv_metadata service) \<and> r = Inr () \<longrightarrow>
            (\<forall>yp. ui5Yaml (findProjectFiles basePath fs) = Some yp \<longrightarrow>
               (\<exists>m cfg0 c. fs' (path_join [basePath, ''webapp/manifest.json''])
                               = Some (ManifestFile m)
                   \<and> ((fs (path_join [basePath, ''ui5-mock.yaml'']) = None \<and> cfg0 = emptyConfig)
                        \<or> documentAt fs (path_join [basePath, ''ui5-mock.yaml'']) = Some cfg0)
                   \<and> fs' (path_join [basePath, ''ui5-mock.yaml'']) = Some (YamlFile c)
                   \<and> cf_mockserver c
                       = cf_mockserver (upsertMockServices (mf_dataSources m)
                                          (mf_dataSources m) cfg0))
               \<and> (\<forall>mp. ui5MockYaml (findProjectFiles basePath fs) = Some mp \<longrightarrow>
                     (\<exists>service' c px. enhanceData basePath service fs = Inr service'
                         \<and> fs' mp = Some (YamlFile c) \<and> cf_proxy c = Some px
                         \<and> sv_previewSettings service' \<in> set (px_backend px)))
               \<and> (\<forall>lp. ui5LocalYaml (findProjectFiles basePath fs) = Some lp \<longrightarrow>
                     (\<exists>cl cm. fs' lp = Some (YamlFile cl)
                         \<and> documentAt fs' (path_join [path_dirname yp, ''ui5-mock.yaml''])
                             = Some cm
                         \<and> (cf_mockserver cm \<noteq> None
                              \<longrightarrow> cf_mockserver cl = cf_mockserver cm)))))"
proof (intro conjI)
  show "r = Inr () \<longrightarrow>
            (\<forall>yp. ui5Yaml (findProjectFiles basePath fs) = Some yp
                  \<or> (ui5Yaml (findProjectFiles basePath fs) \<noteq> None
                      \<and> ui5LocalYaml (findProjectFiles basePath fs) = Some yp) \<longrightarrow>
               (\<exists>service' cfg' px. enhanceData basePath service fs = Inr service'
                   \<and> fs' yp = Some (YamlFile cfg') \<and> cf_proxy cfg' = Some px
                   \<and> sv_previewSettings service' \<in> set (px_backend px)))"
  proof (intro impI allI)
    fix yp
    assume ok: "r = Inr ()"
      and y: "ui5Yaml (findProjectFiles basePath fs) = Some yp
                  \<or> (ui5Yaml (findProjectFiles basePath fs) \<noteq> None
                      \<and> ui5LocalYaml (findProjectFiles basePath fs) = Some yp)"
    show "\<exists>service' cfg' px. enhanceData basePath service fs = Inr service'
                   \<and> fs' yp = Some (YamlFile cfg') \<and> cf_proxy cfg' = Some px
                   \<and> sv_previewSettings service' \<in> set (px_backend px)"
      by (rule generate_backend_final [OF run [unfolded ok] ty y])
  qed
next
  show "\<not> truthy (sv_metadata service) \<longrightarrow>
            (\<forall>p. fileName p = ''ui5-mock.yaml'' \<longrightarrow> fs' p = fs p)
            \<and> (\<forall>p. fileName p = ''ui5.yaml'' \<or> fileName p = ''ui5-local.yaml'' \<longrightarrow>
                  fs' p = fs p
                  \<or> (\<exists>c cfg cfg'. fs p = Some c \<and> newInstance c = Inr cfg
                         \<and> fs' p = Some (YamlFile cfg')
                         \<and> cf_mockserver cfg' = cf_mockserver cfg
                         \<and> cf_other cfg' = cf_other cfg))"
  proof
    assume nm: "\<not> truthy (sv_metadata service)"
    note t = no_metadata_yaml [OF nm ty run]
    show "(\<forall>p. fileName p = ''ui5-mock.yaml'' \<longrightarrow> fs' p = fs p)
            \<and> (\<forall>p. fileName p = ''ui5.yaml'' \<or> fileName p = ''ui5-local.yaml'' \<longrightarrow>
                  fs' p = fs p
                  \<or> (\<exists>c cfg cfg'. fs p = Some c \<and> newInstance c = Inr cfg
                         \<and> fs' p = Some (YamlFile cfg')
                         \<and> cf_mockserver cfg' = cf_mockserver cfg
                         \<and> cf_other cfg' = cf_other cfg))"
      by (rule conjI [OF t [THEN conjunct1] t [THEN conjunct2, THEN conjunct1]])
  qed
next
  show "ui5Yaml (findProjectFiles basePath fs) = None \<longrightarrow>
            (\<forall>p. fileName p = ''ui5.yaml'' \<or> fileName p = ''ui5-local.yaml''
                  \<or> fileName p = ''ui5-mock.yaml'' \<longrightarrow> fs' p = fs p)"
  proof (intro impI allI)
    fix p
    assume y: "ui5Yaml (findProjectFiles basePath fs) = None"
      and n: "fileName p = ''ui5.yaml'' \<or> fileName p = ''ui5-local.yaml''
                  \<or> fileName p = ''ui5-mock.yaml''"
    show "fs' p = fs p" by (rule generate_no_yaml [OF run ty y n])
  qed
next
  show "truthy (sv_metadata service) \<and> r = Inr () \<longrightarrow>
            (\<forall>yp. ui5Yaml (findProjectFiles basePath fs) = Some yp \<longrightarrow>
               (\<exists>m cfg0 c. fs' (path_join [basePath, ''webapp/manifest.json''])
                               = Some (ManifestFile m)
                   \<and> ((fs (path_join [basePath, ''ui5-mock.yaml'']) = None \<and> cfg0 = emptyConfig)
                        \<or> documentAt fs (path_join [basePath, ''ui5-mock.yaml'']) = Some cfg0)
                   \<and> fs' (path_join [basePath, ''ui5-mock.yaml'']) = Some (YamlFile c)
                   \<and> cf_mockserver c
                       = cf_mockserver (upsertMockServices (mf_dataSources m)
                                          (mf_dataSources m) cfg0))
               \<and> (\<forall>mp. ui5MockYaml (findProjectFiles basePath fs) = Some mp \<longrightarrow>
                     (\<exists>service' c px. enhanceData basePath service fs = Inr service'
                         \<and> fs' mp = Some (YamlFile c) \<and> cf_proxy c = Some px
                         \<and> sv_previewSettings service' \<in> set (px_backend px)))
               \<and> (\<forall>lp. ui5LocalYaml (findProjectFiles basePath fs) = Some lp \<longrightarrow>
                     (\<exists>cl cm. fs' lp = Some (YamlFile cl)
                         \<and> documentAt fs' (path_join [path_dirname yp, ''ui5-mock.yaml''])
                             = Some cm
                         \<and> (cf_mockserver cm \<noteq> None
                              \<longrightarrow> cf_mockserver cl = cf_mockserver cm))))"
  proof (intro impI allI)
    fix yp
    assume h: "truthy (sv_metadata service) \<and> r = Inr ()"
      and y: "ui5Yaml (findProjectFiles basePath fs) = Some yp"
    note run' = run [unfolded h [THEN conjunct2]]
    note fin = generate_mock_final [OF run' ty h [THEN conjunct1] y]
    have 2: "\<forall>mp. ui5MockYaml (findProjectFiles basePath fs) = Some mp \<longrightarrow>
                     (\<exists>service' c px. enhanceData basePath service fs = Inr service'
                         \<and> fs' mp = Some (YamlFile c) \<and> cf_proxy c = Some px
                         \<and> sv_previewSettings service' \<in> set (px_backend px))"
      using fin(2) by (intro allI impI)
    have 3: "\<forall>lp. ui5LocalYaml (findProjectFiles basePath fs) = Some lp \<longrightarrow>
                     (\<exists>cl cm. fs' lp = Some (YamlFile cl)
                         \<and> documentAt fs' (path_join [path_dirname yp, ''ui5-mock.yaml''])
                             = Some cm
                         \<and> (cf_mockserver cm \<noteq> None
                              \<longrightarrow> cf_mockserver cl = cf_mockserver cm))"
      using fin(3) by (intro allI impI)
    show "(\<exists>m cfg0 c. fs' (path_join [basePath, ''webapp/manifest.json''])
                               = Some (ManifestFile m)
                   \<and> ((fs (path_join [basePath, ''ui5-mock.yaml'']) = None \<and> cfg0 = emptyConfig)
                        \<or> documentAt fs (path_join [basePath, ''ui5-mock.yaml'']) = Some cfg0)
                   \<and> fs' (path_join [basePath, ''ui5-mock.yaml'']) = Some (YamlFile c)
                   \<and> cf_mockserver c
                       = cf_mockserver (upsertMockServices (mf_dataSources m)
                                          (mf_dataSources m) cfg0))
               \<and> (\<forall>mp. ui5MockYaml (findProjectFiles basePath fs) = Some mp \<longrightarrow>
                     (\<exists>service' c px. enhanceData basePath service fs = Inr service'
                         \<and> fs' mp = Some (YamlFile c) \<and> cf_proxy c = Some px
                         \<and> sv_previewSettings service' \<in> set (px_backend px)))
               \<and> (\<forall>lp. ui5LocalYaml (findProjectFiles basePath fs) = Some lp \<longrightarrow>
                     (\<exists>cl cm. fs' lp = Some (YamlFile cl)
                         \<and> documentAt fs' (path_join [path_dirname yp, ''ui5-mock.yaml''])
                             = Some cm
                         \<and> (cf_mockserver cm \<noteq> None
                              \<longrightarrow> cf_mockserver cl = cf_mockserver cm)))"
      by (rule conjI [OF fin(1) [unfolded manifest_path_eq [symmetric]] conjI [OF 2 3]])
  qed
qed

theorem generate_synchronizers_witness:
  "sv_type northwind \<noteq> Some CDS \<and> \<not> truthy (sv_metadata northwind)
   \<and> fileName ''/p/ui5-mock.yaml'' = ''ui5-mock.yaml''
   \<and> snd (generate noCds ''/p'' northwind (Some standardProject)) ''/p/ui5-mock.yaml''
       = standardProject ''/p/ui5-mock.yaml''
   \<and> sv_type northwindMetadata \<noteq> Some CDS \<and> truthy (sv_metadata northwindMetadata)
   \<and> fst (generate noCds ''/p'' northwindMetadata (Some standardProject)) = Inr ()
   \<and> ui5Yaml (findProjectFiles ''/p'' standardProject) = Some ''/p/ui5.yaml''
   \<and> ui5MockYaml (findProjectFiles ''/p'' standardProject) = Some ''/p/ui5-mock.yaml''
   \<and> (\<exists>service' c px. enhanceData ''/p'' northwindMetadata standardProject = Inr service'
          \<and> snd (generate noCds ''/p'' northwindMetadata (Some standardProject)) ''/p/ui5-mock.yaml''
              = Some (YamlFile c)
          \<and> cf_proxy c = Some px \<and> sv_previewSettings service' \<in> set (px_backend px))"
proof -
  have nm: "\<not> truthy (sv_metadata northwind)" and ty: "sv_type northwind \<noteq> Some CDS"
    by (simp_all add: northwind_def truthy_def)
  have tm: "truthy (sv_metadata northwindMetadata)" and ty': "sv_type northwindMetadata \<noteq> Some CDS"
    by (simp_all add: northwindMetadata_def northwind_def truthy_def)
  have run: "generate noCds ''/p'' northwind (Some standardProject) =
      (fst (generate noCds ''/p'' northwind (Some standardProject)),
       snd (generate noCds ''/p'' northwind (Some standardProject)))"
    by simp
  have run': "generate noCds ''/p'' northwindMetadata (Some standardProject) =
      (fst (generate noCds ''/p'' northwindMetadata (Some standardProject)),
       snd (generate noCds ''/p'' northwindMetadata (Some standardProject)))"
    by simp
  have y: "ui5Yaml (findProjectFiles ''/p'' standardProject) = Some ''/p/ui5.yaml''"
    and ym: "ui5MockYaml (findProjectFiles ''/p'' standardProject) = Some ''/p/ui5-mock.yaml''"
    by (simp_all add: standard_paths)
  from generate_synchronizers [OF ty run, THEN conjunct2, THEN conjunct1, THEN mp, OF nm]
  have "\<forall>p. fileName p = ''ui5-mock.yaml'' \<longrightarrow>
          snd (generate noCds ''/p'' northwind (Some standardProject)) p = standardProject p"
    by (rule conjunct1)
  with standard_names
  have 1: "snd (generate noCds ''/p'' northwind (Some standardProject)) ''/p/ui5-mock.yaml''
       = standardProject ''/p/ui5-mock.yaml''"
    by simp
  have h: "truthy (sv_metadata northwindMetadata)
           \<and> fst (generate noCds ''/p'' northwindMetadata (Some standardProject)) = Inr ()"
    using tm standard_metadata_ok by simp
  note t = generate_synchronizers [OF ty' run', THEN conjunct2, THEN conjunct2, THEN conjunct2,
      THEN mp, OF h, THEN spec, THEN mp, OF y, THEN conjunct2, THEN conjunct1, THEN spec,
      THEN mp, OF ym]
  show ?thesis
    by (intro conjI ty nm standard_names 1 ty' tm standard_metadata_ok y ym t)
qed







end
